theory Spec2Isabelle
  imports Main
begin

section \<open>The Environment controller of managed-gitops\<close>

text \<open>
  A shallow embedding of
  \<^verbatim>\<open>appstudio-controller/controllers/appstudio.redhat.com/environment_controller.go\<close>:
  the reconciler of the Environment resource, its status-condition helpers, the
  generator of the desired GitOpsDeploymentManagedEnvironment, and the functions that map
  an event on a watched object to reconcile requests.

  The Kubernetes client is an explicit store that is passed through every call and
  returned updated. Each client call takes the next entry of a schedule of injected
  failures and appends one entry to a trace, so that theorems can speak about the calls a
  reconciliation makes and about the calls that fail.
\<close>

subsection \<open>API objects\<close>

datatype ConditionStatus = ConditionTrue | ConditionFalse | ConditionUnknown

text \<open>\<^verbatim>\<open>metav1.Condition\<close>, restricted to the four fields the controller sets.\<close>

record Condition =
  cond_Type :: string
  cond_Status :: ConditionStatus
  cond_Reason :: string
  cond_Message :: string

record OwnerReference =
  or_APIVersion :: string
  or_Kind :: string
  or_Name :: string
  or_UID :: string
  or_BlockOwnerDeletion :: "bool option"
  or_Controller :: "bool option"

text \<open>
  \<^verbatim>\<open>env.Spec.UnstableConfigurationFields\<close> is a pointer: \<open>None\<close> is \<^verbatim>\<open>nil\<close>.
  The record holds the fields the controller reads through it.
\<close>

record UnstableEnvironmentConfiguration =
  ucf_APIURL :: string
  ucf_ClusterCredentialsSecret :: string
  ucf_AllowInsecureSkipTLSVerify :: bool
  ucf_ClusterResources :: bool
  ucf_Namespaces :: "string list"

text \<open>
  \<open>env_ClaimName\<close> is the value of \<^verbatim>\<open>GetDeploymentTargetClaimName()\<close>, the empty string
  when the Environment references no DeploymentTargetClaim.
\<close>

record Environment =
  env_Name :: string
  env_Namespace :: string
  env_APIVersion :: string
  env_Kind :: string
  env_UID :: string
  env_ClaimName :: string
  env_UnstableConfigurationFields :: "UnstableEnvironmentConfiguration option"
  env_Conditions :: "Condition list"

datatype DeploymentTargetClaimPhase =
  DeploymentTargetClaimPhase_Bound | DeploymentTargetClaimPhase_Other string

record DeploymentTargetClaim =
  dtc_Name :: string
  dtc_Namespace :: string
  dtc_TargetName :: string
  dtc_Phase :: DeploymentTargetClaimPhase

record DeploymentTarget =
  dt_Name :: string
  dt_Namespace :: string
  dt_ClaimRef :: string
  dt_APIURL :: string
  dt_ClusterCredentialsSecret :: string
  dt_AllowInsecureSkipTLSVerify :: bool

text \<open>
  The type of a Secret is a string in Go. The controller only compares it with
  \<^verbatim>\<open>corev1.SecretTypeOpaque\<close> and \<^verbatim>\<open>sharedutil.ManagedEnvironmentSecretType\<close>, so the
  model keeps these two apart from every other type.
\<close>

datatype SecretType =
  SecretTypeOpaque | ManagedEnvironmentSecretType | SecretTypeOther string

record Secret =
  sec_Name :: string
  sec_Namespace :: string
  sec_Labels :: "string \<rightharpoonup> string"
  sec_OwnerReferences :: "OwnerReference list"
  sec_Type :: SecretType
  sec_Data :: "string \<rightharpoonup> string"

record GitOpsDeploymentManagedEnvironmentSpec =
  spec_APIURL :: string
  spec_ClusterCredentialsSecret :: string
  spec_AllowInsecureSkipTLSVerify :: bool
  spec_ClusterResources :: bool
  spec_Namespaces :: "string list"

record GitOpsDeploymentManagedEnvironment =
  me_Name :: string
  me_Namespace :: string
  me_OwnerReferences :: "OwnerReference list"
  me_Spec :: GitOpsDeploymentManagedEnvironmentSpec

text \<open>\<^verbatim>\<open>reconcile.Request\<close> and \<^verbatim>\<open>ctrl.Result\<close>.\<close>

record Request =
  req_Namespace :: string
  req_Name :: string

record Result =
  Requeue :: bool
  RequeueAfter :: nat

definition emptyResult :: Result where
  "emptyResult = \<lparr>Requeue = False, RequeueAfter = 0\<rparr>"

subsection \<open>Errors\<close>

text \<open>
  An error of the API is a status error with a reason. \<^verbatim>\<open>fmt.Errorf\<close> with the verb
  \<^verbatim>\<open>%v\<close> builds a new error from a format string and, where the source passes one, the
  error it reports; the result is not a status error any more, so
  \<^verbatim>\<open>apierr.IsNotFound\<close> is false on it.
\<close>

datatype StatusReason = NotFound | AlreadyExists | InternalError string

datatype error = StatusError StatusReason | Errorf string "error option"

fun IsNotFound :: "error \<Rightarrow> bool" where
  "IsNotFound (StatusError NotFound) = True"
| "IsNotFound _ = False"

subsection \<open>The store behind the client\<close>

datatype verb = VGet | VList | VCreate | VUpdate | VDelete | VStatusUpdate

datatype kind =
  KEnvironment | KDeploymentTargetClaim | KDeploymentTarget | KSecret
  | KGitOpsDeploymentManagedEnvironment

record call =
  c_verb :: verb
  c_kind :: kind
  c_namespace :: string
  c_name :: string
  c_outcome :: "StatusReason option"

text \<open>
  \<open>pending\<close> is the schedule of injected failures: the n-th client call from now fails with
  the n-th entry when that is \<open>Some\<close>; past the end of the list no failure is injected.
  \<open>trace\<close> is the list of the calls made so far, each with its outcome.

  Modelled from the spec: \<^verbatim>\<open>isRequestNamespaceBeingDeleted\<close> is not among the source
  files. The spec says only that a reconciliation of an Environment whose namespace is
  being torn down returns at once; \<open>namespaceCheck\<close> holds, for each namespace, the pair
  the helper returns.
\<close>

record world =
  namespaceCheck :: "string \<Rightarrow> bool \<times> error option"
  environments :: "Environment list"
  deploymentTargetClaims :: "DeploymentTargetClaim list"
  deploymentTargets :: "DeploymentTarget list"
  secrets :: "Secret list"
  managedEnvironments :: "GitOpsDeploymentManagedEnvironment list"
  pending :: "StatusReason option list"
  trace :: "call list"

definition isRequestNamespaceBeingDeleted :: "string \<Rightarrow> world \<Rightarrow> bool \<times> error option" where
  "isRequestNamespaceBeingDeleted namespaceName w = namespaceCheck w namespaceName"

definition nextFault :: "world \<Rightarrow> StatusReason option" where
  "nextFault w = (case pending w of [] \<Rightarrow> None | f # _ \<Rightarrow> f)"

definition logCall :: "verb \<Rightarrow> kind \<Rightarrow> string \<Rightarrow> string \<Rightarrow> StatusReason option \<Rightarrow> world \<Rightarrow> world" where
  "logCall v k ns n out w =
     w\<lparr>pending := tl (pending w),
       trace := trace w @ [\<lparr>c_verb = v, c_kind = k, c_namespace = ns, c_name = n, c_outcome = out\<rparr>]\<rparr>"

definition env_at :: "string \<Rightarrow> string \<Rightarrow> Environment \<Rightarrow> bool" where
  "env_at ns n e \<longleftrightarrow> env_Namespace e = ns \<and> env_Name e = n"

definition dtc_at :: "string \<Rightarrow> string \<Rightarrow> DeploymentTargetClaim \<Rightarrow> bool" where
  "dtc_at ns n c \<longleftrightarrow> dtc_Namespace c = ns \<and> dtc_Name c = n"

definition sec_at :: "string \<Rightarrow> string \<Rightarrow> Secret \<Rightarrow> bool" where
  "sec_at ns n s \<longleftrightarrow> sec_Namespace s = ns \<and> sec_Name s = n"

definition me_at :: "string \<Rightarrow> string \<Rightarrow> GitOpsDeploymentManagedEnvironment \<Rightarrow> bool" where
  "me_at ns n m \<longleftrightarrow> me_Namespace m = ns \<and> me_Name m = n"

text \<open>\<^verbatim>\<open>client.Get\<close>: the object stored under the key, or a not-found error.\<close>

definition k8sGet_Environment :: "string \<Rightarrow> string \<Rightarrow> world \<Rightarrow> (error + Environment) \<times> world" where
  "k8sGet_Environment ns n w =
     (case nextFault w of
        Some f \<Rightarrow> (Inl (StatusError f), logCall VGet KEnvironment ns n (Some f) w)
      | None \<Rightarrow>
          (case find (env_at ns n) (environments w) of
             None \<Rightarrow> (Inl (StatusError NotFound), logCall VGet KEnvironment ns n (Some NotFound) w)
           | Some e \<Rightarrow> (Inr e, logCall VGet KEnvironment ns n None w)))"

definition k8sGet_DeploymentTargetClaim ::
  "string \<Rightarrow> string \<Rightarrow> world \<Rightarrow> (error + DeploymentTargetClaim) \<times> world" where
  "k8sGet_DeploymentTargetClaim ns n w =
     (case nextFault w of
        Some f \<Rightarrow> (Inl (StatusError f), logCall VGet KDeploymentTargetClaim ns n (Some f) w)
      | None \<Rightarrow>
          (case find (dtc_at ns n) (deploymentTargetClaims w) of
             None \<Rightarrow> (Inl (StatusError NotFound),
                       logCall VGet KDeploymentTargetClaim ns n (Some NotFound) w)
           | Some c \<Rightarrow> (Inr c, logCall VGet KDeploymentTargetClaim ns n None w)))"

definition k8sGet_Secret :: "string \<Rightarrow> string \<Rightarrow> world \<Rightarrow> (error + Secret) \<times> world" where
  "k8sGet_Secret ns n w =
     (case nextFault w of
        Some f \<Rightarrow> (Inl (StatusError f), logCall VGet KSecret ns n (Some f) w)
      | None \<Rightarrow>
          (case find (sec_at ns n) (secrets w) of
             None \<Rightarrow> (Inl (StatusError NotFound), logCall VGet KSecret ns n (Some NotFound) w)
           | Some s \<Rightarrow> (Inr s, logCall VGet KSecret ns n None w)))"

definition k8sGet_ManagedEnvironment ::
  "string \<Rightarrow> string \<Rightarrow> world \<Rightarrow> (error + GitOpsDeploymentManagedEnvironment) \<times> world" where
  "k8sGet_ManagedEnvironment ns n w =
     (case nextFault w of
        Some f \<Rightarrow> (Inl (StatusError f),
                    logCall VGet KGitOpsDeploymentManagedEnvironment ns n (Some f) w)
      | None \<Rightarrow>
          (case find (me_at ns n) (managedEnvironments w) of
             None \<Rightarrow> (Inl (StatusError NotFound),
                       logCall VGet KGitOpsDeploymentManagedEnvironment ns n (Some NotFound) w)
           | Some m \<Rightarrow> (Inr m, logCall VGet KGitOpsDeploymentManagedEnvironment ns n None w)))"

text \<open>\<^verbatim>\<open>client.List\<close> with \<^verbatim>\<open>ListOptions{Namespace: ns}\<close>.\<close>

definition k8sList_Environment :: "string \<Rightarrow> world \<Rightarrow> (error + Environment list) \<times> world" where
  "k8sList_Environment ns w =
     (case nextFault w of
        Some f \<Rightarrow> (Inl (StatusError f), logCall VList KEnvironment ns [] (Some f) w)
      | None \<Rightarrow> (Inr (filter (\<lambda>e. env_Namespace e = ns) (environments w)),
                 logCall VList KEnvironment ns [] None w))"

definition k8sList_DeploymentTargetClaim ::
  "string \<Rightarrow> world \<Rightarrow> (error + DeploymentTargetClaim list) \<times> world" where
  "k8sList_DeploymentTargetClaim ns w =
     (case nextFault w of
        Some f \<Rightarrow> (Inl (StatusError f), logCall VList KDeploymentTargetClaim ns [] (Some f) w)
      | None \<Rightarrow> (Inr (filter (\<lambda>c. dtc_Namespace c = ns) (deploymentTargetClaims w)),
                 logCall VList KDeploymentTargetClaim ns [] None w))"

definition k8sList_DeploymentTarget ::
  "string \<Rightarrow> world \<Rightarrow> (error + DeploymentTarget list) \<times> world" where
  "k8sList_DeploymentTarget ns w =
     (case nextFault w of
        Some f \<Rightarrow> (Inl (StatusError f), logCall VList KDeploymentTarget ns [] (Some f) w)
      | None \<Rightarrow> (Inr (filter (\<lambda>d. dt_Namespace d = ns) (deploymentTargets w)),
                 logCall VList KDeploymentTarget ns [] None w))"

text \<open>
  \<^verbatim>\<open>client.Create\<close> stores a new object and fails when the key is taken;
  \<^verbatim>\<open>client.Update\<close> replaces the stored object and \<^verbatim>\<open>client.Delete\<close> removes it, both
  failing with not-found when the key is free.
\<close>

definition k8sCreate_Secret :: "Secret \<Rightarrow> world \<Rightarrow> error option \<times> world" where
  "k8sCreate_Secret s w =
     (case nextFault w of
        Some f \<Rightarrow> (Some (StatusError f),
                    logCall VCreate KSecret (sec_Namespace s) (sec_Name s) (Some f) w)
      | None \<Rightarrow>
          (if find (sec_at (sec_Namespace s) (sec_Name s)) (secrets w) \<noteq> None
           then (Some (StatusError AlreadyExists),
                 logCall VCreate KSecret (sec_Namespace s) (sec_Name s) (Some AlreadyExists) w)
           else (None, logCall VCreate KSecret (sec_Namespace s) (sec_Name s) None
                         (w\<lparr>secrets := secrets w @ [s]\<rparr>))))"

definition k8sUpdate_Secret :: "Secret \<Rightarrow> world \<Rightarrow> error option \<times> world" where
  "k8sUpdate_Secret s w =
     (case nextFault w of
        Some f \<Rightarrow> (Some (StatusError f),
                    logCall VUpdate KSecret (sec_Namespace s) (sec_Name s) (Some f) w)
      | None \<Rightarrow>
          (if find (sec_at (sec_Namespace s) (sec_Name s)) (secrets w) = None
           then (Some (StatusError NotFound),
                 logCall VUpdate KSecret (sec_Namespace s) (sec_Name s) (Some NotFound) w)
           else (None, logCall VUpdate KSecret (sec_Namespace s) (sec_Name s) None
                         (w\<lparr>secrets := map (\<lambda>x. if sec_at (sec_Namespace s) (sec_Name s) x
                                                  then s else x) (secrets w)\<rparr>))))"

definition k8sDelete_Secret :: "Secret \<Rightarrow> world \<Rightarrow> error option \<times> world" where
  "k8sDelete_Secret s w =
     (case nextFault w of
        Some f \<Rightarrow> (Some (StatusError f),
                    logCall VDelete KSecret (sec_Namespace s) (sec_Name s) (Some f) w)
      | None \<Rightarrow>
          (if find (sec_at (sec_Namespace s) (sec_Name s)) (secrets w) = None
           then (Some (StatusError NotFound),
                 logCall VDelete KSecret (sec_Namespace s) (sec_Name s) (Some NotFound) w)
           else (None, logCall VDelete KSecret (sec_Namespace s) (sec_Name s) None
                         (w\<lparr>secrets := filter (\<lambda>x. \<not> sec_at (sec_Namespace s) (sec_Name s) x)
                                          (secrets w)\<rparr>))))"

definition k8sCreate_ManagedEnvironment ::
  "GitOpsDeploymentManagedEnvironment \<Rightarrow> world \<Rightarrow> error option \<times> world" where
  "k8sCreate_ManagedEnvironment m w =
     (case nextFault w of
        Some f \<Rightarrow> (Some (StatusError f),
                    logCall VCreate KGitOpsDeploymentManagedEnvironment
                      (me_Namespace m) (me_Name m) (Some f) w)
      | None \<Rightarrow>
          (if find (me_at (me_Namespace m) (me_Name m)) (managedEnvironments w) \<noteq> None
           then (Some (StatusError AlreadyExists),
                 logCall VCreate KGitOpsDeploymentManagedEnvironment
                   (me_Namespace m) (me_Name m) (Some AlreadyExists) w)
           else (None, logCall VCreate KGitOpsDeploymentManagedEnvironment
                         (me_Namespace m) (me_Name m) None
                         (w\<lparr>managedEnvironments := managedEnvironments w @ [m]\<rparr>))))"

definition k8sUpdate_ManagedEnvironment ::
  "GitOpsDeploymentManagedEnvironment \<Rightarrow> world \<Rightarrow> error option \<times> world" where
  "k8sUpdate_ManagedEnvironment m w =
     (case nextFault w of
        Some f \<Rightarrow> (Some (StatusError f),
                    logCall VUpdate KGitOpsDeploymentManagedEnvironment
                      (me_Namespace m) (me_Name m) (Some f) w)
      | None \<Rightarrow>
          (if find (me_at (me_Namespace m) (me_Name m)) (managedEnvironments w) = None
           then (Some (StatusError NotFound),
                 logCall VUpdate KGitOpsDeploymentManagedEnvironment
                   (me_Namespace m) (me_Name m) (Some NotFound) w)
           else (None, logCall VUpdate KGitOpsDeploymentManagedEnvironment
                         (me_Namespace m) (me_Name m) None
                         (w\<lparr>managedEnvironments :=
                              map (\<lambda>x. if me_at (me_Namespace m) (me_Name m) x then m else x)
                                (managedEnvironments w)\<rparr>))))"

definition k8sDelete_ManagedEnvironment ::
  "GitOpsDeploymentManagedEnvironment \<Rightarrow> world \<Rightarrow> error option \<times> world" where
  "k8sDelete_ManagedEnvironment m w =
     (case nextFault w of
        Some f \<Rightarrow> (Some (StatusError f),
                    logCall VDelete KGitOpsDeploymentManagedEnvironment
                      (me_Namespace m) (me_Name m) (Some f) w)
      | None \<Rightarrow>
          (if find (me_at (me_Namespace m) (me_Name m)) (managedEnvironments w) = None
           then (Some (StatusError NotFound),
                 logCall VDelete KGitOpsDeploymentManagedEnvironment
                   (me_Namespace m) (me_Name m) (Some NotFound) w)
           else (None, logCall VDelete KGitOpsDeploymentManagedEnvironment
                         (me_Namespace m) (me_Name m) None
                         (w\<lparr>managedEnvironments :=
                              filter (\<lambda>x. \<not> me_at (me_Namespace m) (me_Name m) x)
                                (managedEnvironments w)\<rparr>))))"

text \<open>
  \<^verbatim>\<open>client.Status().Update\<close> on an Environment writes the status of the given object,
  here its condition list, into the stored object.
\<close>

definition k8sStatusUpdate_Environment :: "Environment \<Rightarrow> world \<Rightarrow> error option \<times> world" where
  "k8sStatusUpdate_Environment e w =
     (case nextFault w of
        Some f \<Rightarrow> (Some (StatusError f),
                    logCall VStatusUpdate KEnvironment (env_Namespace e) (env_Name e) (Some f) w)
      | None \<Rightarrow>
          (if find (env_at (env_Namespace e) (env_Name e)) (environments w) = None
           then (Some (StatusError NotFound),
                 logCall VStatusUpdate KEnvironment (env_Namespace e) (env_Name e)
                   (Some NotFound) w)
           else (None, logCall VStatusUpdate KEnvironment (env_Namespace e) (env_Name e) None
                         (w\<lparr>environments :=
                              map (\<lambda>x. if env_at (env_Namespace e) (env_Name e) x
                                       then x\<lparr>env_Conditions := env_Conditions e\<rparr> else x)
                                (environments w)\<rparr>))))"

subsection \<open>Status conditions\<close>

definition EnvironmentConditionErrorOccurred :: string where
  "EnvironmentConditionErrorOccurred = ''ErrorOccurred''"

definition EnvironmentReasonErrorOccurred :: string where
  "EnvironmentReasonErrorOccurred = ''ErrorOccurred''"

text \<open>
  Modelled from the spec: \<^verbatim>\<open>insertOrUpdateConditionsInSlice\<close> is called by
  \<^verbatim>\<open>updateStatusConditionOfEnvironment\<close> and is not among the source files. The spec says
  that raising upserts the single condition of its type, updated in place and never
  duplicated, and is a no-op if an identical condition (same type, status, reason and
  message) is already present. The result is the flag \<^verbatim>\<open>changed\<close> and the new list.
\<close>

fun insertOrUpdateConditionsInSlice :: "Condition \<Rightarrow> Condition list \<Rightarrow> bool \<times> Condition list" where
  "insertOrUpdateConditionsInSlice newCondition [] = (True, [newCondition])"
| "insertOrUpdateConditionsInSlice newCondition (c # existingConditions) =
     (if cond_Type c = cond_Type newCondition then
        (if cond_Message c \<noteq> cond_Message newCondition
            \<or> cond_Reason c \<noteq> cond_Reason newCondition
            \<or> cond_Status c \<noteq> cond_Status newCondition
         then (True, newCondition # existingConditions)
         else (False, c # existingConditions))
      else (case insertOrUpdateConditionsInSlice newCondition existingConditions of
              (changed, conditions) \<Rightarrow> (changed, c # conditions)))"

text \<open>
  \<^verbatim>\<open>findCondition\<close> returns the first condition of the given type and \<^verbatim>\<open>true\<close>, or the
  zero condition and \<^verbatim>\<open>false\<close>; \<open>None\<close> stands for the second pair.
\<close>

fun findCondition :: "Condition list \<Rightarrow> string \<Rightarrow> Condition option" where
  "findCondition [] conditionType = None"
| "findCondition (condition # conditions) conditionType =
     (if cond_Type condition = conditionType then Some condition
      else findCondition conditions conditionType)"

text \<open>
  \<^verbatim>\<open>updateStatusConditionOfEnvironment\<close> takes the Environment by pointer: the result
  holds the error and the object as the caller sees it afterwards. The condition list of
  the object is assigned before the write, so it is changed also when the write fails.
\<close>

definition updateStatusConditionOfEnvironment ::
  "string \<Rightarrow> Environment \<Rightarrow> string \<Rightarrow> ConditionStatus \<Rightarrow> string \<Rightarrow> world
     \<Rightarrow> (error option \<times> Environment) \<times> world" where
  "updateStatusConditionOfEnvironment message environment conditionType status reason w =
     (let newCondition = \<lparr>cond_Type = conditionType, cond_Status = status,
                           cond_Reason = reason, cond_Message = message\<rparr>
      in case insertOrUpdateConditionsInSlice newCondition (env_Conditions environment) of
           (changed, newConditions) \<Rightarrow>
             if changed then
               (let environment' = environment\<lparr>env_Conditions := newConditions\<rparr>
                in case k8sStatusUpdate_Environment environment' w of
                     (Some err, w') \<Rightarrow> ((Some err, environment'), w')
                   | (None, w') \<Rightarrow> ((None, environment'), w'))
             else ((None, environment), w))"

text \<open>
  \<^verbatim>\<open>updateConditionErrorAsResolved\<close> ignores its message, type and status arguments: it
  looks for the condition \<^verbatim>\<open>ErrorOccurred\<close> and writes an empty message and the status
  false.
\<close>

definition updateConditionErrorAsResolved ::
  "string \<Rightarrow> Environment \<Rightarrow> string \<Rightarrow> ConditionStatus \<Rightarrow> string \<Rightarrow> world
     \<Rightarrow> (error option \<times> Environment) \<times> world" where
  "updateConditionErrorAsResolved message environment conditionType status reason w =
     (case findCondition (env_Conditions environment) EnvironmentConditionErrorOccurred of
        None \<Rightarrow> ((None, environment), w)
      | Some cond \<Rightarrow>
          (let reason' = reason @ ''Resolved''
           in if cond_Reason cond \<noteq> reason' then
                (case updateStatusConditionOfEnvironment [] environment
                        EnvironmentConditionErrorOccurred ConditionFalse reason' w of
                   ((Some err, environment'), w') \<Rightarrow>
                     ((Some (Errorf ''unable to update status of Environment: %v'' (Some err)),
                       environment'), w')
                 | ((None, environment'), w') \<Rightarrow> ((None, environment'), w'))
              else ((None, environment), w)))"

subsection \<open>The desired-state generator\<close>

definition managedEnvironmentSecretLabel :: string where
  "managedEnvironmentSecretLabel = ''appstudio.openshift.io/environment-secret''"

definition generateManagedEnvSecretName :: "string \<Rightarrow> string" where
  "generateManagedEnvSecretName envName = ''managed-environment-secret-'' @ envName"

definition generateEmptyManagedEnvironment ::
  "string \<Rightarrow> string \<Rightarrow> GitOpsDeploymentManagedEnvironment" where
  "generateEmptyManagedEnvironment environmentName environmentNamespace =
     \<lparr>me_Name = ''managed-environment-'' @ environmentName,
      me_Namespace = environmentNamespace,
      me_OwnerReferences = [],
      me_Spec = \<lparr>spec_APIURL = [], spec_ClusterCredentialsSecret = [],
                 spec_AllowInsecureSkipTLSVerify = False, spec_ClusterResources = False,
                 spec_Namespaces = []\<rparr>\<rparr>"

text \<open>
  \<^verbatim>\<open>managedgitopsv1alpha1.GroupVersion\<close> is declared outside the source files; the owner
  reference of the generated resource is its only use here.
\<close>

definition managedgitops_GroupVersion :: string where
  "managedgitops_GroupVersion = ''managed-gitops.redhat.com/v1alpha1''"

text \<open>
  Modelled from the spec: \<^verbatim>\<open>getDTBoundByDTC\<close> is not among the source files. The spec
  says that the target of a bound claim is found by a symmetric match (the claim's
  recorded target name equals the target's name, or the target's recorded claim reference
  equals the claim's name), that the resolution must prefer an exact bidirectional match
  (both equalities hold), and that the lookup can yield no target or fail.
  \<open>selectTarget\<close> takes, among the targets listed in the namespace of the claim, the first
  that matches in both directions and, when there is none, the first that matches in one.
  The result of \<^verbatim>\<open>getDTBoundByDTC\<close> is the pair of the target pointer and the error.
\<close>

definition selectTarget ::
  "DeploymentTargetClaim \<Rightarrow> DeploymentTarget list \<Rightarrow> DeploymentTarget option" where
  "selectTarget dtc items =
     (case find (\<lambda>d. dtc_TargetName dtc = dt_Name d \<and> dt_ClaimRef d = dtc_Name dtc) items of
        Some d \<Rightarrow> Some d
      | None \<Rightarrow>
          find (\<lambda>d. dtc_TargetName dtc = dt_Name d \<or> dt_ClaimRef d = dtc_Name dtc) items)"

definition getDTBoundByDTC ::
  "DeploymentTargetClaim \<Rightarrow> world \<Rightarrow> (DeploymentTarget option \<times> error option) \<times> world" where
  "getDTBoundByDTC dtc w =
     (case k8sList_DeploymentTarget (dtc_Namespace dtc) w of
        (Inl err, w') \<Rightarrow> ((None, Some err), w')
      | (Inr items, w') \<Rightarrow> ((selectTarget dtc items, None), w'))"

text \<open>
  The managed secret as \<^verbatim>\<open>generateDesiredResource\<close> builds it before any call
  (lines 434 to 453 of the source file).
\<close>

definition newManagedEnvSecret :: "Environment \<Rightarrow> Secret" where
  "newManagedEnvSecret env =
     \<lparr>sec_Name = generateManagedEnvSecretName (env_Name env),
      sec_Namespace = env_Namespace env,
      sec_Labels = [managedEnvironmentSecretLabel \<mapsto> env_Name env],
      sec_OwnerReferences =
        [\<lparr>or_APIVersion = env_APIVersion env, or_Kind = env_Kind env,
          or_Name = env_Name env, or_UID = env_UID env,
          or_BlockOwnerDeletion = Some True, or_Controller = Some True\<rparr>],
      sec_Type = ManagedEnvironmentSecretType,
      sec_Data = Map.empty\<rparr>"

text \<open>
  Lines 492 to 517: for a claim-driven Environment whose secret is not of the managed
  type, the data of the secret is copied into the managed secret, and the desired spec
  refers to the managed secret. The result is the error, if any, and the spec.
\<close>

definition reconcileManagedEnvSecret ::
  "Environment \<Rightarrow> string \<Rightarrow> Secret \<Rightarrow> GitOpsDeploymentManagedEnvironmentSpec \<Rightarrow> world
     \<Rightarrow> (error option \<times> GitOpsDeploymentManagedEnvironmentSpec) \<times> world" where
  "reconcileManagedEnvSecret env claimName secret manageEnvDetails w =
     (let managedEnvSecret = newManagedEnvSecret env
      in if claimName \<noteq> [] \<and> sec_Type secret \<noteq> ManagedEnvironmentSecretType then
           (case k8sGet_Secret (sec_Namespace managedEnvSecret) (sec_Name managedEnvSecret) w of
              (Inl err, w1) \<Rightarrow>
                if \<not> IsNotFound err then
                  ((Some (Errorf ''failed to fetch the secret %s for managed Environment %s: %v''
                            (Some err)), manageEnvDetails), w1)
                else
                  (let managedEnvSecret' = managedEnvSecret\<lparr>sec_Data := sec_Data secret\<rparr>
                   in case k8sCreate_Secret managedEnvSecret' w1 of
                        (Some err', w2) \<Rightarrow>
                          ((Some (Errorf ''failed to create a secret for managed Environment %s: %v''
                                    (Some err')), manageEnvDetails), w2)
                      | (None, w2) \<Rightarrow>
                          ((None, manageEnvDetails\<lparr>spec_ClusterCredentialsSecret :=
                                     sec_Name managedEnvSecret'\<rparr>), w2))
            | (Inr found, w1) \<Rightarrow>
                if sec_Data secret \<noteq> sec_Data found then
                  (let managedEnvSecret' = found\<lparr>sec_Data := sec_Data secret\<rparr>
                   in case k8sUpdate_Secret managedEnvSecret' w1 of
                        (Some err', w2) \<Rightarrow>
                          ((Some (Errorf ''failed to update the secret for managed Environment %s: %v''
                                    (Some err')), manageEnvDetails), w2)
                      | (None, w2) \<Rightarrow>
                          ((None, manageEnvDetails\<lparr>spec_ClusterCredentialsSecret :=
                                     sec_Name managedEnvSecret'\<rparr>), w2))
                else
                  ((None, manageEnvDetails\<lparr>spec_ClusterCredentialsSecret := sec_Name found\<rparr>),
                   w1))
         else ((None, manageEnvDetails), w))"

text \<open>
  Lines 418 to 536, the part of \<^verbatim>\<open>generateDesiredResource\<close> that both the claim branch
  and the inline branch reach with the credentials in \<open>manageEnvDetails\<close>. The result is the
  triple of the source: the desired resource (\<open>None\<close> for \<^verbatim>\<open>nil\<close>), the flag
  \<^verbatim>\<open>semanticErrOccurred_dontContinue\<close>, and the error.
\<close>

definition generateDesiredResource_secret ::
  "Environment \<Rightarrow> string \<Rightarrow> GitOpsDeploymentManagedEnvironmentSpec \<Rightarrow> world
     \<Rightarrow> (GitOpsDeploymentManagedEnvironment option \<times> bool \<times> error option) \<times> world" where
  "generateDesiredResource_secret env claimName details w =
     (let manageEnvDetails =
            (case env_UnstableConfigurationFields env of
               None \<Rightarrow> details
             | Some ucf \<Rightarrow> details\<lparr>spec_ClusterResources := ucf_ClusterResources ucf,
                                   spec_Namespaces := ucf_Namespaces ucf\<rparr>);
          secretName = spec_ClusterCredentialsSecret manageEnvDetails;
          managedEnvSecret = newManagedEnvSecret env
      in case k8sGet_Secret (env_Namespace env) secretName w of
           (Inl err, w1) \<Rightarrow>
             if IsNotFound err then
               (case updateStatusConditionOfEnvironment
                       (''the secret '' @ secretName
                          @ '' referenced by the Environment resource was not found'')
                       env EnvironmentConditionErrorOccurred ConditionTrue
                       EnvironmentReasonErrorOccurred w1 of
                  ((Some err', env'), w2) \<Rightarrow>
                    ((None, True,
                      Some (Errorf ''unable to update environment status condition. %v''
                              (Some err'))), w2)
                | ((None, env'), w2) \<Rightarrow>
                    (case k8sDelete_Secret managedEnvSecret w2 of
                       (Some derr, w3) \<Rightarrow>
                         if \<not> IsNotFound derr then
                           ((None, True,
                             Some (Errorf ''unable to delete the secret for managed Environment: %s''
                                     None)), w3)
                         else
                           ((None, True,
                             Some (Errorf ''the secret '%s' referenced by the Environment resource was not found: %v''
                                     (Some err))), w3)
                     | (None, w3) \<Rightarrow>
                         ((None, True,
                           Some (Errorf ''the secret '%s' referenced by the Environment resource was not found: %v''
                                   (Some err))), w3)))
             else
               (case updateStatusConditionOfEnvironment
                       ''Secret referenced by the Environment resource was not found''
                       env EnvironmentConditionErrorOccurred ConditionTrue
                       EnvironmentReasonErrorOccurred w1 of
                  ((Some err', env'), w2) \<Rightarrow>
                    ((None, True,
                      Some (Errorf ''unable to update environment status condition. %v''
                              (Some err'))), w2)
                | ((None, env'), w2) \<Rightarrow> ((None, True, Some err), w2))
         | (Inr secret, w1) \<Rightarrow>
             (let managedEnv = generateEmptyManagedEnvironment (env_Name env) (env_Namespace env)
              in case reconcileManagedEnvSecret env claimName secret manageEnvDetails w1 of
                   ((Some err, manageEnvDetails'), w2) \<Rightarrow> ((None, False, Some err), w2)
                 | ((None, manageEnvDetails'), w2) \<Rightarrow>
                     (case updateConditionErrorAsResolved [] env EnvironmentConditionErrorOccurred
                             ConditionFalse EnvironmentReasonErrorOccurred w2 of
                        ((Some err, env'), w3) \<Rightarrow> ((None, True, Some err), w3)
                      | ((None, env'), w3) \<Rightarrow>
                          ((Some (managedEnv\<lparr>
                                    me_OwnerReferences :=
                                      [\<lparr>or_APIVersion = managedgitops_GroupVersion,
                                        or_Kind = ''Environment'',
                                        or_Name = env_Name env, or_UID = env_UID env,
                                        or_BlockOwnerDeletion = None, or_Controller = None\<rparr>],
                                    me_Spec := manageEnvDetails'\<rparr>),
                            False, None), w3))))"

text \<open>
  Raising the condition and returning: the pattern of lines 319 to 337, 359 to 377 and
  384 to 391. When the status write fails its error is returned in an \<^verbatim>\<open>Errorf\<close>,
  otherwise \<open>ret\<close> is returned; the flag is true in both cases.
\<close>

definition raiseAndReturn ::
  "string \<Rightarrow> Environment \<Rightarrow> error option \<Rightarrow> world
     \<Rightarrow> (GitOpsDeploymentManagedEnvironment option \<times> bool \<times> error option) \<times> world" where
  "raiseAndReturn message env ret w =
     (case updateStatusConditionOfEnvironment message env EnvironmentConditionErrorOccurred
             ConditionTrue EnvironmentReasonErrorOccurred w of
        ((Some err', env'), w') \<Rightarrow>
          ((None, True,
            Some (Errorf ''unable to update environment status condition. %v'' (Some err'))), w')
      | ((None, env'), w') \<Rightarrow> ((None, True, ret), w'))"

text \<open>
  \<^verbatim>\<open>generateDesiredResource\<close> takes the Environment by value, so what it writes into the
  object is not seen by its caller.
\<close>

definition generateDesiredResource ::
  "Environment \<Rightarrow> world
     \<Rightarrow> (GitOpsDeploymentManagedEnvironment option \<times> bool \<times> error option) \<times> world" where
  "generateDesiredResource env w =
     (let claimName = env_ClaimName env
      in if claimName \<noteq> [] then
           (case k8sGet_DeploymentTargetClaim (env_Namespace env) claimName w of
              (Inl err, w1) \<Rightarrow>
                if IsNotFound err then
                  raiseAndReturn
                    ''DeploymentTargetClaim not found while generating the desired Environment resource''
                    env None w1
                else
                  raiseAndReturn ''Unable to find DeploymentTarget for DeploymentTargetClaim''
                    env (Some err) w1
            | (Inr dtc, w1) \<Rightarrow>
                (case updateConditionErrorAsResolved [] env EnvironmentConditionErrorOccurred
                        ConditionFalse EnvironmentReasonErrorOccurred w1 of
                   ((Some err, env1), w2) \<Rightarrow> ((None, True, Some err), w2)
                 | ((None, env1), w2) \<Rightarrow>
                     if dtc_Phase dtc \<noteq> DeploymentTargetClaimPhase_Bound then
                       ((None, False, None), w2)
                     else
                       (case getDTBoundByDTC dtc w2 of
                          ((dt, Some err), w3) \<Rightarrow>
                            if IsNotFound err then
                              raiseAndReturn ''DeploymentTarget not found for DeploymentTargetClaim''
                                env1 None w3
                            else
                              raiseAndReturn
                                ''Unable to find the DeploymentTarget for DeploymentTargetClaim''
                                env1 (Some err) w3
                        | ((None, None), w3) \<Rightarrow>
                            raiseAndReturn ''DeploymentTarget not found for DeploymentTargetClaim''
                              env1 None w3
                        | ((Some dt, None), w3) \<Rightarrow>
                            (case updateConditionErrorAsResolved [] env1
                                    EnvironmentConditionErrorOccurred ConditionFalse
                                    EnvironmentReasonErrorOccurred w3 of
                               ((Some err, env2), w4) \<Rightarrow> ((None, True, Some err), w4)
                             | ((None, env2), w4) \<Rightarrow>
                                 generateDesiredResource_secret env2 claimName
                                   \<lparr>spec_APIURL = dt_APIURL dt,
                                    spec_ClusterCredentialsSecret = dt_ClusterCredentialsSecret dt,
                                    spec_AllowInsecureSkipTLSVerify =
                                      dt_AllowInsecureSkipTLSVerify dt,
                                    spec_ClusterResources = False,
                                    spec_Namespaces = []\<rparr> w4))))
         else
           (case env_UnstableConfigurationFields env of
              Some ucf \<Rightarrow>
                generateDesiredResource_secret env claimName
                  \<lparr>spec_APIURL = ucf_APIURL ucf,
                   spec_ClusterCredentialsSecret = ucf_ClusterCredentialsSecret ucf,
                   spec_AllowInsecureSkipTLSVerify = ucf_AllowInsecureSkipTLSVerify ucf,
                   spec_ClusterResources = False,
                   spec_Namespaces = []\<rparr> w
            | None \<Rightarrow> ((None, False, None), w)))"

subsection \<open>The reconciler\<close>

text \<open>
  Lines 142 to 224 of \<^verbatim>\<open>Reconcile\<close>: what it does once the Environment has been
  fetched.
\<close>

definition reconcileEnvironment :: "Environment \<Rightarrow> world \<Rightarrow> (Result \<times> error option) \<times> world" where
  "reconcileEnvironment environment w =
     (if env_ClaimName environment \<noteq> [] \<and> env_UnstableConfigurationFields environment \<noteq> None
      then
        (case updateStatusConditionOfEnvironment
                ''Environment is invalid since it cannot have both DeploymentTargetClaim and credentials configuration set''
                environment EnvironmentConditionErrorOccurred ConditionTrue
                EnvironmentReasonErrorOccurred w of
           ((Some err, environment'), w1) \<Rightarrow>
             ((emptyResult,
               Some (Errorf ''unable to update environment status condition. %v'' (Some err))), w1)
         | ((None, environment'), w1) \<Rightarrow> ((emptyResult, None), w1))
      else
        (case generateDesiredResource environment w of
           ((desiredManagedEnv, semanticErrOccurred_dontContinue, Some err), w1) \<Rightarrow>
             ((emptyResult,
               Some (Errorf ''unable to generate expected GitOpsDeploymentManagedEnvironment resource: %v''
                       (Some err))), w1)
         | ((desiredManagedEnv, True, None), w1) \<Rightarrow> ((emptyResult, None), w1)
         | ((None, False, None), w1) \<Rightarrow>
             (case updateConditionErrorAsResolved [] environment
                     EnvironmentConditionErrorOccurred ConditionFalse
                     EnvironmentReasonErrorOccurred w1 of
                ((Some err, environment'), w2) \<Rightarrow>
                  ((emptyResult,
                    Some (Errorf ''unable to 'updateConditionErrorAsResolved': %v'' (Some err))),
                   w2)
              | ((None, environment'), w2) \<Rightarrow> ((emptyResult, None), w2))
         | ((Some desired, False, None), w1) \<Rightarrow>
             (let currentManagedEnv =
                    generateEmptyManagedEnvironment (env_Name environment)
                      (env_Namespace environment)
              in case k8sGet_ManagedEnvironment (me_Namespace currentManagedEnv)
                        (me_Name currentManagedEnv) w1 of
                   (Inl err, w2) \<Rightarrow>
                     if IsNotFound err then
                       (case k8sCreate_ManagedEnvironment desired w2 of
                          (Some err', w3) \<Rightarrow>
                            ((emptyResult,
                              Some (Errorf ''unable to create new GitOpsDeploymentManagedEnvironment: %v''
                                      (Some err'))), w3)
                        | (None, w3) \<Rightarrow> ((emptyResult, None), w3))
                     else
                       ((emptyResult,
                         Some (Errorf ''unable to retrieve existing GitOpsDeploymentManagedEnvironment '%s': %v''
                                 (Some err))), w2)
                 | (Inr current, w2) \<Rightarrow>
                     (case updateConditionErrorAsResolved [] environment
                             EnvironmentConditionErrorOccurred ConditionFalse
                             EnvironmentReasonErrorOccurred w2 of
                        ((Some err, environment'), w3) \<Rightarrow> ((emptyResult, Some err), w3)
                      | ((None, environment'), w3) \<Rightarrow>
                          if me_Spec current = me_Spec desired then ((emptyResult, None), w3)
                          else
                            (case k8sUpdate_ManagedEnvironment
                                    (current\<lparr>me_Spec := me_Spec desired\<rparr>) w3 of
                               (Some err', w4) \<Rightarrow>
                                 ((emptyResult,
                                   Some (Errorf ''unable to update existing GitOpsDeploymentManagedEnvironment '%s': %v''
                                           (Some err'))), w4)
                             | (None, w4) \<Rightarrow> ((emptyResult, None), w4))))))"

text \<open>
  \<^verbatim>\<open>Reconcile\<close>: the namespace check, the fetch of the Environment and, when the
  Environment is gone, the deletion of its GitOpsDeploymentManagedEnvironment.
\<close>

definition Reconcile :: "Request \<Rightarrow> world \<Rightarrow> (Result \<times> error option) \<times> world" where
  "Reconcile req w =
     (case isRequestNamespaceBeingDeleted (req_Namespace req) w of
        (isNamespaceBeingDeleted, err) \<Rightarrow>
          if isNamespaceBeingDeleted \<or> err \<noteq> None then ((emptyResult, err), w)
          else
            (case k8sGet_Environment (req_Namespace req) (req_Name req) w of
               (Inl err, w1) \<Rightarrow>
                 if \<not> IsNotFound err then
                   ((emptyResult,
                     Some (Errorf ''unable to retrieve Environment resource: %v'' (Some err))), w1)
                 else
                   (let gitOpsDeplManagedEnv =
                          generateEmptyManagedEnvironment (req_Name req) (req_Namespace req)
                    in case k8sGet_ManagedEnvironment (me_Namespace gitOpsDeplManagedEnv)
                              (me_Name gitOpsDeplManagedEnv) w1 of
                         (Inl err, w2) \<Rightarrow>
                           if IsNotFound err then ((emptyResult, None), w2)
                           else
                             ((emptyResult,
                               Some (Errorf ''unable to retrieve GitOpsDeploymentManagedEnvironment: %v''
                                       (Some err))), w2)
                       | (Inr found, w2) \<Rightarrow>
                           (case k8sDelete_ManagedEnvironment found w2 of
                              (Some err, w3) \<Rightarrow>
                                if \<not> IsNotFound err then
                                  ((emptyResult,
                                    Some (Errorf ''unable to delete GitOpsDeploymentMangedEnvironment resource: %v''
                                            (Some err))), w3)
                                else ((emptyResult, None), w3)
                            | (None, w3) \<Rightarrow> ((emptyResult, None), w3)))
             | (Inr environment, w1) \<Rightarrow> reconcileEnvironment environment w1))"

subsection \<open>From events to reconcile requests\<close>

definition requestFor :: "Environment \<Rightarrow> Request" where
  "requestFor env = \<lparr>req_Namespace = env_Namespace env, req_Name = env_Name env\<rparr>"

text \<open>
  \<^verbatim>\<open>findObjectsForGitOpsDeploymentManagedEnvironment\<close>: one request for each owner
  reference to an Environment.
\<close>

definition findObjectsForGitOpsDeploymentManagedEnvironment ::
  "GitOpsDeploymentManagedEnvironment \<Rightarrow> Request list" where
  "findObjectsForGitOpsDeploymentManagedEnvironment managedEnv =
     map (\<lambda>ownerRef. \<lparr>req_Namespace = me_Namespace managedEnv, req_Name = or_Name ownerRef\<rparr>)
       (filter (\<lambda>ownerRef. or_Kind ownerRef = ''Environment''
                  \<and> or_APIVersion ownerRef = managedgitops_GroupVersion)
          (me_OwnerReferences managedEnv))"

definition findObjectsForDeploymentTargetClaim ::
  "DeploymentTargetClaim \<Rightarrow> world \<Rightarrow> Request list \<times> world" where
  "findObjectsForDeploymentTargetClaim dtc w =
     (case k8sList_Environment (dtc_Namespace dtc) w of
        (Inl err, w1) \<Rightarrow> ([], w1)
      | (Inr items, w1) \<Rightarrow>
          (map requestFor (filter (\<lambda>env. env_ClaimName env = dtc_Name dtc) items), w1))"

text \<open>
  \<^verbatim>\<open>findObjectsForDeploymentTarget\<close>: the claims of the namespace that match the target
  are kept; then, for each Environment of the namespace in turn, one request is appended
  for each kept claim that the Environment names.
\<close>

definition findObjectsForDeploymentTarget ::
  "DeploymentTarget \<Rightarrow> world \<Rightarrow> Request list \<times> world" where
  "findObjectsForDeploymentTarget dt w =
     (case k8sList_DeploymentTargetClaim (dt_Namespace dt) w of
        (Inl err, w1) \<Rightarrow> ([], w1)
      | (Inr dtcItems, w1) \<Rightarrow>
          (let dtcs = filter (\<lambda>dtc. dtc_TargetName dtc = dt_Name dt
                                \<or> dt_ClaimRef dt = dtc_Name dtc) dtcItems
           in case k8sList_Environment (dt_Namespace dt) w1 of
                (Inl err, w2) \<Rightarrow> ([], w2)
              | (Inr envItems, w2) \<Rightarrow>
                  (concat (map (\<lambda>env. map (\<lambda>dtc. requestFor env)
                                        (filter (\<lambda>dtc. env_ClaimName env = dtc_Name dtc) dtcs))
                             envItems), w2)))"

definition emptyDeploymentTarget :: DeploymentTarget where
  "emptyDeploymentTarget =
     \<lparr>dt_Name = [], dt_Namespace = [], dt_ClaimRef = [], dt_APIURL = [],
      dt_ClusterCredentialsSecret = [], dt_AllowInsecureSkipTLSVerify = False\<rparr>"

text \<open>
  The loop of \<^verbatim>\<open>findObjectsForSecret\<close> (lines 745 to 780) over the listed Environments,
  with the requests collected so far. A failed fetch of a claim returns the empty list
  from the whole function.
\<close>

fun findObjectsForSecret_loop ::
  "Secret \<Rightarrow> DeploymentTarget list \<Rightarrow> Environment list \<Rightarrow> Request list \<Rightarrow> world
     \<Rightarrow> Request list \<times> world" where
  "findObjectsForSecret_loop secret dtItems [] envRequests w = (envRequests, w)"
| "findObjectsForSecret_loop secret dtItems (env # rest) envRequests w =
     (let dtcName = env_ClaimName env
      in if dtcName = [] then findObjectsForSecret_loop secret dtItems rest envRequests w
         else
           (case k8sGet_DeploymentTargetClaim (env_Namespace env) dtcName w of
              (Inl err, w1) \<Rightarrow> ([], w1)
            | (Inr dtc, w1) \<Rightarrow>
                (let dt = (case find (\<lambda>d. dtc_TargetName dtc = dt_Name d
                                          \<or> dt_ClaimRef d = dtc_Name dtc) dtItems of
                             None \<Rightarrow> emptyDeploymentTarget
                           | Some d \<Rightarrow> d)
                 in if dt_ClusterCredentialsSecret dt = sec_Name secret
                    then findObjectsForSecret_loop secret dtItems rest
                           (envRequests @ [requestFor env]) w1
                    else findObjectsForSecret_loop secret dtItems rest envRequests w1)))"

definition findObjectsForSecret :: "Secret \<Rightarrow> world \<Rightarrow> Request list \<times> world" where
  "findObjectsForSecret secret w =
     (if sec_Type secret \<noteq> SecretTypeOpaque \<and> sec_Type secret \<noteq> ManagedEnvironmentSecretType
      then ([], w)
      else if sec_Type secret = ManagedEnvironmentSecretType then
        (let envName = (case sec_Labels secret managedEnvironmentSecretLabel of
                          None \<Rightarrow> [] | Some v \<Rightarrow> v)
         in if envName \<noteq> []
            then ([\<lparr>req_Namespace = sec_Namespace secret, req_Name = envName\<rparr>], w)
            else ([], w))
      else
        (case k8sList_Environment (sec_Namespace secret) w of
           (Inl err, w1) \<Rightarrow> ([], w1)
         | (Inr envItems, w1) \<Rightarrow>
             (case k8sList_DeploymentTarget (sec_Namespace secret) w1 of
                (Inl err, w2) \<Rightarrow> ([], w2)
              | (Inr dtItems, w2) \<Rightarrow>
                  findObjectsForSecret_loop secret dtItems envItems [] w2)))"

subsection \<open>Notions used in the statements\<close>

text \<open>
  The failure injected into the i-th client call from now, the condition list after
  resolving, the condition that the reconciler raises with a message, and the calls that
  fail with an error other than not-found.
\<close>

definition newCalls :: "world \<Rightarrow> world \<Rightarrow> call list" where
  "newCalls w w' = drop (length (trace w)) (trace w')"

definition faultAt :: "world \<Rightarrow> nat \<Rightarrow> StatusReason option" where
  "faultAt w i = (if i < length (pending w) then pending w ! i else None)"

definition resolvedConditions :: "string \<Rightarrow> Condition list \<Rightarrow> Condition list" where
  "resolvedConditions r cs =
     snd (insertOrUpdateConditionsInSlice
            \<lparr>cond_Type = EnvironmentConditionErrorOccurred, cond_Status = ConditionFalse,
             cond_Reason = r @ ''Resolved'', cond_Message = []\<rparr> cs)"

definition errorCondition :: "string \<Rightarrow> Condition" where
  "errorCondition message =
     \<lparr>cond_Type = EnvironmentConditionErrorOccurred, cond_Status = ConditionTrue,
      cond_Reason = EnvironmentReasonErrorOccurred, cond_Message = message\<rparr>"

definition raisedConditions :: "string \<Rightarrow> Condition list \<Rightarrow> Condition list" where
  "raisedConditions message cs = snd (insertOrUpdateConditionsInSlice (errorCondition message) cs)"

text \<open>
  What a status write that succeeds leaves behind, and the object and the store after the
  condition has been resolved or raised with no failure injected.
\<close>

definition statusStored :: "Environment \<Rightarrow> world \<Rightarrow> world" where
  "statusStored e w =
     logCall VStatusUpdate KEnvironment (env_Namespace e) (env_Name e) None
       (w\<lparr>environments :=
            map (\<lambda>x. if env_at (env_Namespace e) (env_Name e) x
                     then x\<lparr>env_Conditions := env_Conditions e\<rparr> else x)
              (environments w)\<rparr>)"

definition needsResolve :: "Environment \<Rightarrow> bool" where
  "needsResolve env =
     (case findCondition (env_Conditions env) EnvironmentConditionErrorOccurred of
        None \<Rightarrow> False
      | Some c \<Rightarrow> cond_Reason c \<noteq> EnvironmentReasonErrorOccurred @ ''Resolved'')"

definition resolvedEnv :: "Environment \<Rightarrow> Environment" where
  "resolvedEnv env =
     (if needsResolve env
      then env\<lparr>env_Conditions :=
                 resolvedConditions EnvironmentReasonErrorOccurred (env_Conditions env)\<rparr>
      else env)"

definition resolvedWorld :: "Environment \<Rightarrow> world \<Rightarrow> world" where
  "resolvedWorld env w = (if needsResolve env then statusStored (resolvedEnv env) w else w)"

definition needsRaise :: "string \<Rightarrow> Environment \<Rightarrow> bool" where
  "needsRaise message env =
     fst (insertOrUpdateConditionsInSlice (errorCondition message) (env_Conditions env))"

definition raisedEnv :: "string \<Rightarrow> Environment \<Rightarrow> Environment" where
  "raisedEnv message env =
     env\<lparr>env_Conditions := raisedConditions message (env_Conditions env)\<rparr>"

definition raisedWorld :: "string \<Rightarrow> Environment \<Rightarrow> world \<Rightarrow> world" where
  "raisedWorld message env w =
     (if needsRaise message env then statusStored (raisedEnv message env) w else w)"


text \<open>
  The target that the lookup for a claim finds in the store when its listing succeeds: the
  exact bidirectional match when there is one, else the first match in one direction.
\<close>

definition boundTarget :: "DeploymentTargetClaim \<Rightarrow> world \<Rightarrow> DeploymentTarget option" where
  "boundTarget dtc w =
     selectTarget dtc (filter (\<lambda>d. dt_Namespace d = dtc_Namespace dtc) (deploymentTargets w))"

text \<open>The calls of a trace that write a secret, and the call that writes the managed secret.\<close>

definition secretWrites :: "call list \<Rightarrow> call list" where
  "secretWrites t = filter (\<lambda>c. c_kind c = KSecret \<and> c_verb c \<noteq> VGet) t"

definition managedSecretCall :: "verb \<Rightarrow> Request \<Rightarrow> call" where
  "managedSecretCall v req =
     \<lparr>c_verb = v, c_kind = KSecret, c_namespace = req_Namespace req,
      c_name = ''managed-environment-secret-'' @ req_Name req, c_outcome = None\<rparr>"

definition secretNotFoundMessage :: "string \<Rightarrow> string" where
  "secretNotFoundMessage secretName =
     ''the secret '' @ secretName @ '' referenced by the Environment resource was not found''"

text \<open>
  What \<^verbatim>\<open>Reconcile\<close> does for an Environment whose credential secret is missing: it
  returns the error of the generator, the stored Environment carries the condition with
  the message of the missing secret, the managed secret is not in the store, the managed
  environments are untouched, and the last call is the delete of the managed secret, which
  succeeded or returned not-found.
\<close>

definition missingSecretOutcome :: "Request \<Rightarrow> string \<Rightarrow> world \<Rightarrow> bool" where
  "missingSecretOutcome req secretName w =
     (case Reconcile req w of
        ((res, err), w') \<Rightarrow>
          res = emptyResult
          \<and> err = Some (Errorf ''unable to generate expected GitOpsDeploymentManagedEnvironment resource: %v''
                        (Some (Errorf ''the secret '%s' referenced by the Environment resource was not found: %v''
                                 (Some (StatusError NotFound)))))
          \<and> (case find (env_at (req_Namespace req) (req_Name req)) (environments w') of
                None \<Rightarrow> False
              | Some e' \<Rightarrow>
                  findCondition (env_Conditions e') EnvironmentConditionErrorOccurred
                    = Some (errorCondition (secretNotFoundMessage secretName)))
          \<and> find (sec_at (req_Namespace req) (''managed-environment-secret-'' @ req_Name req))
                (secrets w') = None
          \<and> managedEnvironments w' = managedEnvironments w
          \<and> (case rev (newCalls w w') of
                [] \<Rightarrow> False
              | c # cs \<Rightarrow>
                  c_verb c = VDelete \<and> c_kind c = KSecret
                  \<and> c_namespace c = req_Namespace req
                  \<and> c_name c = ''managed-environment-secret-'' @ req_Name req
                  \<and> (c_outcome c = None \<or> c_outcome c = Some NotFound)))"

definition hardFailure :: "call \<Rightarrow> bool" where
  "hardFailure c = (case c_outcome c of None \<Rightarrow> False | Some r \<Rightarrow> r \<noteq> NotFound)"

text \<open>
  Which call of a reconciliation failed. The fetch of the claim and the listing of the
  targets are told by their verb and kind. The first call on a secret is always the fetch
  of the credential secret (line 455); the later ones are the fetch, creation and update of
  the managed secret (lines 493 to 512) or its deletion (line 466). A failure is quiet when
  it is a failure, other than not-found, of the fetch of the Environment, of a call on a
  GitOpsDeploymentManagedEnvironment, or of the fetch, creation or update of the managed
  secret.
\<close>

definition failedStatusWrite :: "call \<Rightarrow> bool" where
  "failedStatusWrite c \<longleftrightarrow> c_verb c = VStatusUpdate \<and> c_outcome c \<noteq> None"

definition claimFetchFailure :: "call \<Rightarrow> bool" where
  "claimFetchFailure c \<longleftrightarrow>
     hardFailure c \<and> c_verb c = VGet \<and> c_kind c = KDeploymentTargetClaim"

definition targetLookupFailure :: "call \<Rightarrow> bool" where
  "targetLookupFailure c \<longleftrightarrow>
     hardFailure c \<and> c_verb c = VList \<and> c_kind c = KDeploymentTarget"

definition secretCalls :: "call list \<Rightarrow> call list" where
  "secretCalls t = filter (\<lambda>c. c_kind c = KSecret) t"

definition credentialSecretFailure :: "call list \<Rightarrow> bool" where
  "credentialSecretFailure t =
     (case secretCalls t of [] \<Rightarrow> False | c # cs \<Rightarrow> hardFailure c)"

definition managedSecretFailure :: "call list \<Rightarrow> bool" where
  "managedSecretFailure t =
     (case secretCalls t of
        [] \<Rightarrow> False
      | c # cs \<Rightarrow> list_ex (\<lambda>c'. hardFailure c' \<and> c_verb c' \<noteq> VDelete) cs)"

definition quietCall :: "call \<Rightarrow> bool" where
  "quietCall c \<longleftrightarrow>
     hardFailure c
     \<and> (c_kind c = KEnvironment \<and> c_verb c = VGet
        \<or> c_kind c = KGitOpsDeploymentManagedEnvironment)"

definition quietFailure :: "call list \<Rightarrow> bool" where
  "quietFailure t \<longleftrightarrow> list_ex quietCall t \<or> managedSecretFailure t"

text \<open>
  The stored Environment of a request carries the condition \<^verbatim>\<open>ErrorOccurred\<close> raised with
  a message.
\<close>

definition conditionRecorded :: "string \<Rightarrow> Request \<Rightarrow> world \<Rightarrow> bool" where
  "conditionRecorded message req w =
     (case find (env_at (req_Namespace req) (req_Name req)) (environments w) of
        None \<Rightarrow> False
      | Some e \<Rightarrow>
          findCondition (env_Conditions e) EnvironmentConditionErrorOccurred
            = Some (errorCondition message))"

definition failedClaimFetch :: "call \<Rightarrow> bool" where
  "failedClaimFetch c \<longleftrightarrow>
     c_verb c = VGet \<and> c_kind c = KDeploymentTargetClaim \<and> c_outcome c \<noteq> None"


text \<open>
  No condition has been raised between two stores: the Environments are as they were, or the
  earlier error condition of the Environment has been marked as resolved, which the
  generator does before it reaches the later calls. \<open>synced\<close> says that the object in hand
  carries the conditions of the stored one.
\<close>

definition unraised :: "Environment \<Rightarrow> world \<Rightarrow> world \<Rightarrow> bool" where
  "unraised env w w' \<longleftrightarrow>
     environments w' = environments w
     \<or> needsResolve env \<and> environments w' = environments (statusStored (resolvedEnv env) w)"

definition conditionNotRaised :: "Request \<Rightarrow> world \<Rightarrow> world \<Rightarrow> bool" where
  "conditionNotRaised req w w' \<longleftrightarrow>
     environments w' = environments w
     \<or> (case find (env_at (req_Namespace req) (req_Name req)) (environments w) of
          None \<Rightarrow> False
        | Some env \<Rightarrow> unraised env w w')"

definition synced :: "Environment \<Rightarrow> world \<Rightarrow> bool" where
  "synced env w =
     (case find (env_at (env_Namespace env) (env_Name env)) (environments w) of
        None \<Rightarrow> False
      | Some x \<Rightarrow> env_Conditions x = env_Conditions env)"

text \<open>
  A stretch of calls that are all status writes, and one that is made of the fetch, creation
  and update of a secret only.
\<close>

definition statusOnly :: "call list \<Rightarrow> bool" where
  "statusOnly t = list_all (\<lambda>c. c_verb c = VStatusUpdate \<and> c_kind c = KEnvironment) t"

definition mirrorOnly :: "call list \<Rightarrow> bool" where
  "mirrorOnly t =
     list_all (\<lambda>c. c_kind c = KSecret
                  \<and> (c_verb c = VGet \<or> c_verb c = VCreate \<or> c_verb c = VUpdate)) t"

subsection \<open>Example stores\<close>

text \<open>
  A namespace \<^verbatim>\<open>team-a\<close> with three Environments: \<^verbatim>\<open>staging\<close> carries inline
  credentials, \<^verbatim>\<open>prod\<close> references the claim \<^verbatim>\<open>prod-claim\<close>, and \<^verbatim>\<open>broken\<close> has both.
\<close>

definition stagingConfig :: UnstableEnvironmentConfiguration where
  "stagingConfig =
     \<lparr>ucf_APIURL = ''https://api.staging.example:6443'',
      ucf_ClusterCredentialsSecret = ''cluster-secret'',
      ucf_AllowInsecureSkipTLSVerify = True,
      ucf_ClusterResources = False,
      ucf_Namespaces = [''apps'']\<rparr>"

definition stagingEnv :: Environment where
  "stagingEnv =
     \<lparr>env_Name = ''staging'', env_Namespace = ''team-a'',
      env_APIVersion = ''appstudio.redhat.com/v1alpha1'', env_Kind = ''Environment'',
      env_UID = ''uid-staging'', env_ClaimName = [],
      env_UnstableConfigurationFields = Some stagingConfig, env_Conditions = []\<rparr>"

definition prodEnv :: Environment where
  "prodEnv =
     \<lparr>env_Name = ''prod'', env_Namespace = ''team-a'',
      env_APIVersion = ''appstudio.redhat.com/v1alpha1'', env_Kind = ''Environment'',
      env_UID = ''uid-prod'', env_ClaimName = ''prod-claim'',
      env_UnstableConfigurationFields = None, env_Conditions = []\<rparr>"


definition prodClaim :: DeploymentTargetClaim where
  "prodClaim =
     \<lparr>dtc_Name = ''prod-claim'', dtc_Namespace = ''team-a'', dtc_TargetName = ''prod-target'',
      dtc_Phase = DeploymentTargetClaimPhase_Bound\<rparr>"

definition prodTarget :: DeploymentTarget where
  "prodTarget =
     \<lparr>dt_Name = ''prod-target'', dt_Namespace = ''team-a'', dt_ClaimRef = ''prod-claim'',
      dt_APIURL = ''https://api.prod.example:6443'',
      dt_ClusterCredentialsSecret = ''target-secret'',
      dt_AllowInsecureSkipTLSVerify = False\<rparr>"

definition clusterSecret :: Secret where
  "clusterSecret =
     \<lparr>sec_Name = ''cluster-secret'', sec_Namespace = ''team-a'', sec_Labels = Map.empty,
      sec_OwnerReferences = [], sec_Type = SecretTypeOpaque,
      sec_Data = [''kubeconfig'' \<mapsto> ''staging-config'']\<rparr>"

definition targetSecret :: "string \<Rightarrow> Secret" where
  "targetSecret v =
     \<lparr>sec_Name = ''target-secret'', sec_Namespace = ''team-a'', sec_Labels = Map.empty,
      sec_OwnerReferences = [], sec_Type = SecretTypeOpaque,
      sec_Data = [''a'' \<mapsto> v]\<rparr>"

definition healthy :: "string \<Rightarrow> bool \<times> error option" where
  "healthy namespaceName = (False, None)"

definition emptyWorld :: world where
  "emptyWorld =
     \<lparr>namespaceCheck = healthy, environments = [], deploymentTargetClaims = [],
      deploymentTargets = [], secrets = [], managedEnvironments = [], pending = [],
      trace = []\<rparr>"

definition stagingRequest :: Request where
  "stagingRequest = \<lparr>req_Namespace = ''team-a'', req_Name = ''staging''\<rparr>"

definition prodRequest :: Request where
  "prodRequest = \<lparr>req_Namespace = ''team-a'', req_Name = ''prod''\<rparr>"



definition orphanManagedEnv :: GitOpsDeploymentManagedEnvironment where
  "orphanManagedEnv =
     \<lparr>me_Name = ''managed-environment-staging'', me_Namespace = ''team-a'',
      me_OwnerReferences = [],
      me_Spec = \<lparr>spec_APIURL = ''https://api.staging.example:6443'',
                 spec_ClusterCredentialsSecret = ''cluster-secret'',
                 spec_AllowInsecureSkipTLSVerify = True, spec_ClusterResources = False,
                 spec_Namespaces = [''apps'']\<rparr>\<rparr>"

definition orphanWorld :: world where
  "orphanWorld = emptyWorld\<lparr>managedEnvironments := [orphanManagedEnv]\<rparr>"

text \<open>
  For the mappers: the target \<^verbatim>\<open>prod-target\<close> is bound to the claim \<^verbatim>\<open>prod-claim\<close>, which
  the Environments \<^verbatim>\<open>prod\<close> and \<^verbatim>\<open>prod-eu\<close> reference; \<^verbatim>\<open>lab\<close> references the claim
  \<^verbatim>\<open>lab-claim\<close> of another target, and \<^verbatim>\<open>lost\<close> references a claim that does not exist.
\<close>

definition prodEuEnv :: Environment where
  "prodEuEnv = prodEnv\<lparr>env_Name := ''prod-eu'', env_UID := ''uid-prod-eu''\<rparr>"

definition labEnv :: Environment where
  "labEnv = prodEnv\<lparr>env_Name := ''lab'', env_UID := ''uid-lab'', env_ClaimName := ''lab-claim''\<rparr>"

definition lostEnv :: Environment where
  "lostEnv = prodEnv\<lparr>env_Name := ''lost'', env_UID := ''uid-lost'',
                       env_ClaimName := ''missing-claim''\<rparr>"

definition labClaim :: DeploymentTargetClaim where
  "labClaim =
     \<lparr>dtc_Name = ''lab-claim'', dtc_Namespace = ''team-a'', dtc_TargetName = ''lab-target'',
      dtc_Phase = DeploymentTargetClaimPhase_Bound\<rparr>"

definition fanoutWorld :: world where
  "fanoutWorld =
     emptyWorld\<lparr>environments := [prodEnv, labEnv, prodEuEnv],
                deploymentTargetClaims := [prodClaim, labClaim],
                deploymentTargets := [prodTarget]\<rparr>"

definition danglingWorld :: world where
  "danglingWorld =
     emptyWorld\<lparr>environments := [prodEnv, lostEnv, prodEuEnv],
                deploymentTargetClaims := [prodClaim],
                deploymentTargets := [prodTarget]\<rparr>"

definition managedCopy :: "string \<Rightarrow> Secret" where
  "managedCopy v =
     \<lparr>sec_Name = ''managed-environment-secret-prod'', sec_Namespace = ''team-a'',
      sec_Labels = [''appstudio.openshift.io/environment-secret'' \<mapsto> ''prod''],
      sec_OwnerReferences =
        [\<lparr>or_APIVersion = ''appstudio.redhat.com/v1alpha1'', or_Kind = ''Environment'',
          or_Name = ''prod'', or_UID = ''uid-prod'',
          or_BlockOwnerDeletion = Some True, or_Controller = Some True\<rparr>],
      sec_Type = ManagedEnvironmentSecretType,
      sec_Data = [''a'' \<mapsto> v]\<rparr>"

definition prodManagedEnv :: GitOpsDeploymentManagedEnvironment where
  "prodManagedEnv =
     \<lparr>me_Name = ''managed-environment-prod'', me_Namespace = ''team-a'',
      me_OwnerReferences =
        [\<lparr>or_APIVersion = ''managed-gitops.redhat.com/v1alpha1'', or_Kind = ''Environment'',
          or_Name = ''prod'', or_UID = ''uid-prod'',
          or_BlockOwnerDeletion = None, or_Controller = None\<rparr>],
      me_Spec = \<lparr>spec_APIURL = ''https://api.prod.example:6443'',
                 spec_ClusterCredentialsSecret = ''managed-environment-secret-prod'',
                 spec_AllowInsecureSkipTLSVerify = False, spec_ClusterResources = False,
                 spec_Namespaces = []\<rparr>\<rparr>"

definition prodWorld :: "Secret list \<Rightarrow> world" where
  "prodWorld ss =
     emptyWorld\<lparr>environments := [prodEnv], deploymentTargetClaims := [prodClaim],
                deploymentTargets := [prodTarget], secrets := ss\<rparr>"

text \<open>
  The store of \<^verbatim>\<open>prod\<close> with a second target listed first: \<^verbatim>\<open>decoy-target\<close> names the
  claim \<^verbatim>\<open>prod-claim\<close>, but the claim names \<^verbatim>\<open>prod-target\<close>, so only \<^verbatim>\<open>prod-target\<close>
  matches in both directions.
\<close>

definition decoyTarget :: DeploymentTarget where
  "decoyTarget =
     \<lparr>dt_Name = ''decoy-target'', dt_Namespace = ''team-a'', dt_ClaimRef = ''prod-claim'',
      dt_APIURL = ''https://api.decoy.example:6443'',
      dt_ClusterCredentialsSecret = ''decoy-secret'',
      dt_AllowInsecureSkipTLSVerify = True\<rparr>"

definition decoySecret :: Secret where
  "decoySecret =
     \<lparr>sec_Name = ''decoy-secret'', sec_Namespace = ''team-a'', sec_Labels = Map.empty,
      sec_OwnerReferences = [], sec_Type = SecretTypeOpaque,
      sec_Data = [''a'' \<mapsto> ''decoy'']\<rparr>"

definition decoyWorld :: "Secret list \<Rightarrow> world" where
  "decoyWorld ss = (prodWorld ss)\<lparr>deploymentTargets := [decoyTarget, prodTarget]\<rparr>"

text \<open>The store of \<^verbatim>\<open>prod\<close> in which the second client call fails with an internal error.\<close>

definition outageWorld :: world where
  "outageWorld =
     (prodWorld [targetSecret ''1''])\<lparr>pending := [None, Some (InternalError ''etcd timeout'')]\<rparr>"

text \<open>The store of \<^verbatim>\<open>prod\<close> with its claim bound and no target to be found.\<close>

definition untargetedWorld :: world where
  "untargetedWorld = (prodWorld [targetSecret ''1''])\<lparr>deploymentTargets := []\<rparr>"

definition stagingWorld :: world where
  "stagingWorld = emptyWorld\<lparr>environments := [stagingEnv], secrets := [clusterSecret]\<rparr>"

text \<open>
  Stores in which one client call fails with an internal error: of \<^verbatim>\<open>prod\<close>, the listing of
  the targets (third call), the fetch of the credential secret (fourth call) and the
  creation of the managed secret (sixth call); of \<^verbatim>\<open>staging\<close>, the fetch of the Environment
  (first call), the fetch of the credential secret (second call) and, for an Environment
  that carries an earlier error condition, the fetch of the
  GitOpsDeploymentManagedEnvironment (fourth call, after the status write that marks the
  earlier error as resolved).
\<close>

definition failingAt :: "nat \<Rightarrow> world \<Rightarrow> world" where
  "failingAt i w = w\<lparr>pending := replicate i None @ [Some (InternalError ''etcd timeout'')]\<rparr>"

definition staleEnv :: Environment where
  "staleEnv = stagingEnv\<lparr>env_Conditions := [errorCondition ''an earlier error'']\<rparr>"

definition staleWorld :: world where
  "staleWorld = stagingWorld\<lparr>environments := [staleEnv]\<rparr>"

section \<open>Properties\<close>

lemma nextFault_Nil [simp]: "pending w = [] \<Longrightarrow> nextFault w = None"
  by (simp add: nextFault_def)

lemma nextFault_Cons [simp]: "pending w = f # fs \<Longrightarrow> nextFault w = f"
  by (simp add: nextFault_def)

lemma logCall_simps [simp]:
  "namespaceCheck (logCall v k ns n out w) = namespaceCheck w"
  "environments (logCall v k ns n out w) = environments w"
  "deploymentTargetClaims (logCall v k ns n out w) = deploymentTargetClaims w"
  "deploymentTargets (logCall v k ns n out w) = deploymentTargets w"
  "secrets (logCall v k ns n out w) = secrets w"
  "managedEnvironments (logCall v k ns n out w) = managedEnvironments w"
  "pending (logCall v k ns n out w) = tl (pending w)"
  "trace (logCall v k ns n out w) = trace w @ [\<lparr>c_verb = v, c_kind = k, c_namespace = ns, c_name = n, c_outcome = out\<rparr>]"
  by (simp_all add: logCall_def)

lemma find_Some_P: "find P xs = Some x \<Longrightarrow> P x"
  by (induction xs) (auto split: if_splits)

lemma find_append_snoc:
  "find P (xs @ [x]) = (case find P xs of None \<Rightarrow> (if P x then Some x else None) | Some y \<Rightarrow> Some y)"
  by (induction xs) auto

lemma env_at_upd [simp]: "env_at ns n (x\<lparr>env_Conditions := cs\<rparr>) = env_at ns n x"
  by (simp add: env_at_def)

lemma env_at_self [simp]: "env_at (env_Namespace e) (env_Name e) e"
  by (simp add: env_at_def)

lemma find_env_statusUpdate [simp]:
  "find (env_at ns n) (map (\<lambda>x. if env_at ns n x then x\<lparr>env_Conditions := cs\<rparr> else x) xs)
     = map_option (\<lambda>x. x\<lparr>env_Conditions := cs\<rparr>) (find (env_at ns n) xs)"
  by (induction xs) auto

lemma insertOrUpdate_find_differs:
  "findCondition cs (cond_Type n) = Some c \<Longrightarrow> cond_Reason c \<noteq> cond_Reason n \<Longrightarrow>
   fst (insertOrUpdateConditionsInSlice n cs) \<and>
   findCondition (snd (insertOrUpdateConditionsInSlice n cs)) (cond_Type n) = Some n"
  by (induction cs) (auto split: if_splits prod.splits)

lemma statusUpdate_nofault:
  "pending w = [] \<Longrightarrow> find (env_at (env_Namespace e) (env_Name e)) (environments w) \<noteq> None \<Longrightarrow>
   k8sStatusUpdate_Environment e w =
     (None, logCall VStatusUpdate KEnvironment (env_Namespace e) (env_Name e) None
              (w\<lparr>environments := map (\<lambda>x. if env_at (env_Namespace e) (env_Name e) x
                                       then x\<lparr>env_Conditions := env_Conditions e\<rparr> else x)
                                (environments w)\<rparr>))"
  by (simp add: k8sStatusUpdate_Environment_def)

lemma resolve_nofault:
  assumes "pending w = []"
    and "find (env_at (env_Namespace env) (env_Name env)) (environments w) \<noteq> None"
  shows "updateConditionErrorAsResolved m env ct st r w =
     (case findCondition (env_Conditions env) EnvironmentConditionErrorOccurred of
        None \<Rightarrow> ((None, env), w)
      | Some c \<Rightarrow>
          if cond_Reason c = r @ ''Resolved'' then ((None, env), w)
          else ((None, env\<lparr>env_Conditions := resolvedConditions r (env_Conditions env)\<rparr>),
                logCall VStatusUpdate KEnvironment (env_Namespace env) (env_Name env) None
                  (w\<lparr>environments :=
                       map (\<lambda>x. if env_at (env_Namespace env) (env_Name env) x
                                then x\<lparr>env_Conditions := resolvedConditions r (env_Conditions env)\<rparr>
                                else x) (environments w)\<rparr>)))"
proof (cases "findCondition (env_Conditions env) EnvironmentConditionErrorOccurred")
  case None
  then show ?thesis by (simp add: updateConditionErrorAsResolved_def)
next
  case (Some c)
  show ?thesis
  proof (cases "cond_Reason c = r @ ''Resolved''")
    case True
    then show ?thesis using Some by (simp add: updateConditionErrorAsResolved_def)
  next
    case False
    define n where "n = \<lparr>cond_Type = EnvironmentConditionErrorOccurred, cond_Status = ConditionFalse,
       cond_Reason = r @ ''Resolved'', cond_Message = []\<rparr>"
    have "fst (insertOrUpdateConditionsInSlice n (env_Conditions env))"
      using insertOrUpdate_find_differs[of "env_Conditions env" n c] Some False
      by (simp add: n_def)
    then have ins: "insertOrUpdateConditionsInSlice n (env_Conditions env)
        = (True, resolvedConditions r (env_Conditions env))"
      by (cases "insertOrUpdateConditionsInSlice n (env_Conditions env)")
         (simp add: resolvedConditions_def n_def)
    show ?thesis
      using Some False assms ins
      by (simp add: updateConditionErrorAsResolved_def updateStatusConditionOfEnvironment_def
          n_def statusUpdate_nofault Let_def)
  qed
qed


lemma find_me_update [simp]:
  "me_at ns n m \<Longrightarrow>
   find (me_at ns n) (map (\<lambda>x. if me_at ns n x then m else x) xs)
     = (case find (me_at ns n) xs of None \<Rightarrow> None | Some _ \<Rightarrow> Some m)"
  by (induction xs) auto

lemma me_at_spec_upd [simp]: "me_at ns n (x\<lparr>me_Spec := sp\<rparr>) = me_at ns n x"
  by (simp add: me_at_def)

lemma me_at_or_upd [simp]: "me_at ns n (x\<lparr>me_OwnerReferences := ors\<rparr>) = me_at ns n x"
  by (simp add: me_at_def)

lemma me_at_gen [simp]:
  "me_at ns' n' (generateEmptyManagedEnvironment n ns) \<longleftrightarrow> ns = ns' \<and> ''managed-environment-'' @ n = n'"
  by (auto simp: me_at_def generateEmptyManagedEnvironment_def)

lemma me_at_self [simp]: "me_at (me_Namespace m) (me_Name m) m"
  by (simp add: me_at_def)

lemma gen_simps [simp]:
  "me_Namespace (generateEmptyManagedEnvironment n ns) = ns"
  "me_Name (generateEmptyManagedEnvironment n ns) = ''managed-environment-'' @ n"
  by (simp_all add: generateEmptyManagedEnvironment_def)

lemmas example_defs =
  stagingConfig_def stagingEnv_def prodEnv_def prodClaim_def prodTarget_def
  clusterSecret_def targetSecret_def healthy_def emptyWorld_def stagingRequest_def
  prodRequest_def stagingWorld_def prodWorld_def

lemmas exec_defs =
  Reconcile_def reconcileEnvironment_def generateDesiredResource_def
  generateDesiredResource_secret_def reconcileManagedEnvSecret_def raiseAndReturn_def
  getDTBoundByDTC_def selectTarget_def newManagedEnvSecret_def generateManagedEnvSecretName_def
  generateEmptyManagedEnvironment_def isRequestNamespaceBeingDeleted_def
  updateStatusConditionOfEnvironment_def updateConditionErrorAsResolved_def
  k8sGet_Environment_def k8sGet_DeploymentTargetClaim_def k8sGet_Secret_def
  k8sGet_ManagedEnvironment_def k8sList_Environment_def k8sList_DeploymentTargetClaim_def
  k8sList_DeploymentTarget_def k8sCreate_Secret_def k8sUpdate_Secret_def k8sDelete_Secret_def
  k8sCreate_ManagedEnvironment_def k8sUpdate_ManagedEnvironment_def
  k8sDelete_ManagedEnvironment_def k8sStatusUpdate_Environment_def
  env_at_def dtc_at_def sec_at_def me_at_def emptyResult_def
  EnvironmentConditionErrorOccurred_def EnvironmentReasonErrorOccurred_def
  errorCondition_def newCalls_def Let_def
  findObjectsForDeploymentTarget_def findObjectsForDeploymentTargetClaim_def
  findObjectsForSecret_def requestFor_def emptyDeploymentTarget_def


lemma updateStatus_changed:
  assumes "insertOrUpdateConditionsInSlice
             \<lparr>cond_Type = ct, cond_Status = st, cond_Reason = r, cond_Message = m\<rparr>
             (env_Conditions environment) = (True, cs)"
  shows "\<exists>out w'. updateStatusConditionOfEnvironment m environment ct st r w
            = ((map_option StatusError out, environment\<lparr>env_Conditions := cs\<rparr>), w')
          \<and> trace w' = trace w @ [\<lparr>c_verb = VStatusUpdate, c_kind = KEnvironment,
                     c_namespace = env_Namespace environment, c_name = env_Name environment,
                     c_outcome = out\<rparr>]
          \<and> (out = None \<longrightarrow>
                (\<exists>e. find (env_at (env_Namespace environment) (env_Name environment)) (environments w') = Some e
                   \<and> env_Conditions e = cs))"
proof (cases "nextFault w")
  case (Some f)
  then show ?thesis using assms
    by (simp add: updateStatusConditionOfEnvironment_def k8sStatusUpdate_Environment_def Let_def)
next
  case None
  show ?thesis
  proof (cases "find (env_at (env_Namespace environment) (env_Name environment)) (environments w)")
    case N: None
    then show ?thesis using assms None
      by (simp add: updateStatusConditionOfEnvironment_def k8sStatusUpdate_Environment_def Let_def)
  next
    case (Some e)
    then show ?thesis using assms None
      by (simp add: updateStatusConditionOfEnvironment_def k8sStatusUpdate_Environment_def Let_def)
  qed
qed

lemma resolve_noop:
  "findCondition (env_Conditions environment) EnvironmentConditionErrorOccurred = Some cond \<Longrightarrow>
   cond_Reason cond = reason @ ''Resolved'' \<Longrightarrow>
   updateConditionErrorAsResolved message environment conditionType status reason w
        = ((None, environment), w)"
  by (simp add: updateConditionErrorAsResolved_def)

text \<open>
  Claim C9. Resolving is idempotent. \<^verbatim>\<open>updateConditionErrorAsResolved\<close> changes nothing
  when the list has no condition \<^verbatim>\<open>ErrorOccurred\<close>, and nothing when the reason of that
  condition is already the given reason followed by \<^verbatim>\<open>Resolved\<close>. Otherwise it makes
  exactly one status write; the condition then has the status false, the resolved reason
  and an empty message, in the object and, when the write succeeds, in the store; and
  resolving again right after makes no call at all.
\<close>

theorem updateConditionErrorAsResolved_idempotent:
  "(findCondition (env_Conditions environment) EnvironmentConditionErrorOccurred = None \<longrightarrow>
      updateConditionErrorAsResolved message environment conditionType status reason w
        = ((None, environment), w))
   \<and> (\<forall>cond. findCondition (env_Conditions environment) EnvironmentConditionErrorOccurred = Some cond
          \<and> cond_Reason cond = reason @ ''Resolved'' \<longrightarrow>
      updateConditionErrorAsResolved message environment conditionType status reason w
        = ((None, environment), w))
   \<and> (\<forall>cond. findCondition (env_Conditions environment) EnvironmentConditionErrorOccurred = Some cond
          \<and> cond_Reason cond \<noteq> reason @ ''Resolved'' \<longrightarrow>
      (case updateConditionErrorAsResolved message environment conditionType status reason w of
         ((err, environment'), w') \<Rightarrow>
           (\<exists>out. trace w' = trace w @ [\<lparr>c_verb = VStatusUpdate, c_kind = KEnvironment,
                     c_namespace = env_Namespace environment, c_name = env_Name environment,
                     c_outcome = out\<rparr>] \<and> (err = None \<longleftrightarrow> out = None))
           \<and> findCondition (env_Conditions environment') EnvironmentConditionErrorOccurred
               = Some \<lparr>cond_Type = EnvironmentConditionErrorOccurred, cond_Status = ConditionFalse,
                       cond_Reason = reason @ ''Resolved'', cond_Message = []\<rparr>
           \<and> (err = None \<longrightarrow>
                (\<exists>e. find (env_at (env_Namespace environment) (env_Name environment)) (environments w') = Some e
                   \<and> env_Conditions e = env_Conditions environment'))
           \<and> updateConditionErrorAsResolved message environment' conditionType status reason w'
               = ((None, environment'), w')))"
proof (intro conjI allI impI)
  show "updateConditionErrorAsResolved message environment conditionType status reason w
        = ((None, environment), w)"
    if "findCondition (env_Conditions environment) EnvironmentConditionErrorOccurred = None"
    using that by (simp add: updateConditionErrorAsResolved_def)
next
  fix cond
  assume "findCondition (env_Conditions environment) EnvironmentConditionErrorOccurred = Some cond
          \<and> cond_Reason cond = reason @ ''Resolved''"
  then show "updateConditionErrorAsResolved message environment conditionType status reason w
        = ((None, environment), w)"
    by (simp add: resolve_noop)
next
  fix cond
  assume a: "findCondition (env_Conditions environment) EnvironmentConditionErrorOccurred = Some cond
          \<and> cond_Reason cond \<noteq> reason @ ''Resolved''"
  define n where "n = \<lparr>cond_Type = EnvironmentConditionErrorOccurred, cond_Status = ConditionFalse,
                       cond_Reason = reason @ ''Resolved'', cond_Message = []\<rparr>"
  have "fst (insertOrUpdateConditionsInSlice n (env_Conditions environment)) \<and>
   findCondition (snd (insertOrUpdateConditionsInSlice n (env_Conditions environment))) (cond_Type n) = Some n"
    using a by (intro insertOrUpdate_find_differs[where c=cond]) (auto simp: n_def)
  then obtain cs where ins: "insertOrUpdateConditionsInSlice n (env_Conditions environment) = (True, cs)"
    and fc: "findCondition cs EnvironmentConditionErrorOccurred = Some n"
    by (cases "insertOrUpdateConditionsInSlice n (env_Conditions environment)") (auto simp: n_def)
  from updateStatus_changed[OF ins[unfolded n_def], of w]
  obtain out w' where
    u: "updateStatusConditionOfEnvironment [] environment EnvironmentConditionErrorOccurred
          ConditionFalse (reason @ ''Resolved'') w
        = ((map_option StatusError out, environment\<lparr>env_Conditions := cs\<rparr>), w')"
    and t: "trace w' = trace w @ [\<lparr>c_verb = VStatusUpdate, c_kind = KEnvironment,
                     c_namespace = env_Namespace environment, c_name = env_Name environment,
                     c_outcome = out\<rparr>]"
    and s: "out = None \<longrightarrow>
                (\<exists>e. find (env_at (env_Namespace environment) (env_Name environment)) (environments w') = Some e
                   \<and> env_Conditions e = cs)"
    by blast
  have r: "updateConditionErrorAsResolved message environment conditionType status reason w
     = ((map_option (\<lambda>e. Errorf ''unable to update status of Environment: %v'' (Some (StatusError e))) out,
        environment\<lparr>env_Conditions := cs\<rparr>), w')"
    using a u by (cases out) (simp_all add: updateConditionErrorAsResolved_def)
  have again: "updateConditionErrorAsResolved message (environment\<lparr>env_Conditions := cs\<rparr>)
      conditionType status reason w' = ((None, environment\<lparr>env_Conditions := cs\<rparr>), w')"
    by (rule resolve_noop[where cond=n]) (simp_all add: fc, simp add: n_def)
  show "(case updateConditionErrorAsResolved message environment conditionType status reason w of
         ((err, environment'), w') \<Rightarrow>
           (\<exists>out. trace w' = trace w @ [\<lparr>c_verb = VStatusUpdate, c_kind = KEnvironment,
                     c_namespace = env_Namespace environment, c_name = env_Name environment,
                     c_outcome = out\<rparr>] \<and> (err = None \<longleftrightarrow> out = None))
           \<and> findCondition (env_Conditions environment') EnvironmentConditionErrorOccurred
               = Some \<lparr>cond_Type = EnvironmentConditionErrorOccurred, cond_Status = ConditionFalse,
                       cond_Reason = reason @ ''Resolved'', cond_Message = []\<rparr>
           \<and> (err = None \<longrightarrow>
                (\<exists>e. find (env_at (env_Namespace environment) (env_Name environment)) (environments w') = Some e
                   \<and> env_Conditions e = env_Conditions environment'))
           \<and> updateConditionErrorAsResolved message environment' conditionType status reason w'
               = ((None, environment'), w'))"
    unfolding r using t s fc again by (simp add: n_def)
qed


theorem updateConditionErrorAsResolved_idempotent_witness:
  "updateConditionErrorAsResolved [] stagingEnv EnvironmentConditionErrorOccurred ConditionFalse
      EnvironmentReasonErrorOccurred stagingWorld = ((None, stagingEnv), stagingWorld)
   \<and> updateConditionErrorAsResolved []
        (stagingEnv\<lparr>env_Conditions := [(errorCondition ''x'')\<lparr>cond_Reason := ''ErrorOccurredResolved''\<rparr>]\<rparr>)
        EnvironmentConditionErrorOccurred ConditionFalse EnvironmentReasonErrorOccurred stagingWorld
      = ((None, stagingEnv\<lparr>env_Conditions := [(errorCondition ''x'')\<lparr>cond_Reason := ''ErrorOccurredResolved''\<rparr>]\<rparr>),
         stagingWorld)
   \<and> (case updateConditionErrorAsResolved []
             (stagingEnv\<lparr>env_Conditions := [errorCondition ''x'']\<rparr>)
             EnvironmentConditionErrorOccurred ConditionFalse EnvironmentReasonErrorOccurred
             stagingWorld of
         ((err, environment'), w') \<Rightarrow>
           err = None
           \<and> trace w' = [\<lparr>c_verb = VStatusUpdate, c_kind = KEnvironment,
                 c_namespace = ''team-a'', c_name = ''staging'', c_outcome = None\<rparr>]
           \<and> env_Conditions environment'
               = [\<lparr>cond_Type = ''ErrorOccurred'', cond_Status = ConditionFalse,
                   cond_Reason = ''ErrorOccurredResolved'', cond_Message = []\<rparr>]
           \<and> map env_Conditions (environments w') = [env_Conditions environment']
           \<and> updateConditionErrorAsResolved [] environment' EnvironmentConditionErrorOccurred
                ConditionFalse EnvironmentReasonErrorOccurred w' = ((None, environment'), w'))"
  using updateConditionErrorAsResolved_idempotent
          [of stagingEnv "[]" EnvironmentConditionErrorOccurred ConditionFalse
              EnvironmentReasonErrorOccurred stagingWorld]
        updateConditionErrorAsResolved_idempotent
          [of "stagingEnv\<lparr>env_Conditions := [(errorCondition ''x'')\<lparr>cond_Reason := ''ErrorOccurredResolved''\<rparr>]\<rparr>" "[]"
              EnvironmentConditionErrorOccurred ConditionFalse
              EnvironmentReasonErrorOccurred stagingWorld]
        updateConditionErrorAsResolved_idempotent
          [of "stagingEnv\<lparr>env_Conditions := [errorCondition ''x'']\<rparr>" "[]"
              EnvironmentConditionErrorOccurred ConditionFalse
              EnvironmentReasonErrorOccurred stagingWorld]
  by (simp add: example_defs errorCondition_def EnvironmentConditionErrorOccurred_def
      EnvironmentReasonErrorOccurred_def updateConditionErrorAsResolved_def
      updateStatusConditionOfEnvironment_def k8sStatusUpdate_Environment_def env_at_def Let_def)

text \<open>
  Claim C1. Let an Environment have inline credentials and no claim reference, let the
  secret it names exist in its namespace, let the namespace not be in deletion, and let no
  failure be injected. Then one call of \<^verbatim>\<open>Reconcile\<close> returns no error, and afterwards
  the store holds the GitOpsDeploymentManagedEnvironment named
  \<^verbatim>\<open>managed-environment-<name>\<close> in the namespace of the Environment, whose spec has the
  API URL, the secret name, the TLS flag, the cluster-resources flag and the namespace list
  of the inline credentials.
\<close>

theorem Reconcile_inline_converges:
  assumes ns: "namespaceCheck w (req_Namespace req) = (False, None)"
    and nf: "pending w = []"
    and env: "find (env_at (req_Namespace req) (req_Name req)) (environments w) = Some env"
    and claim: "env_ClaimName env = []"
    and ucf: "env_UnstableConfigurationFields env = Some ucf"
    and sec: "find (sec_at (req_Namespace req) (ucf_ClusterCredentialsSecret ucf)) (secrets w) = Some secret"
  shows "case Reconcile req w of
           ((res, err), w') \<Rightarrow>
             err = None \<and>
             (\<exists>m. find (me_at (req_Namespace req) (''managed-environment-'' @ req_Name req))
                    (managedEnvironments w') = Some m
                \<and> me_Name m = ''managed-environment-'' @ req_Name req
                \<and> me_Namespace m = req_Namespace req
                \<and> me_Spec m = \<lparr>spec_APIURL = ucf_APIURL ucf,
                     spec_ClusterCredentialsSecret = ucf_ClusterCredentialsSecret ucf,
                     spec_AllowInsecureSkipTLSVerify = ucf_AllowInsecureSkipTLSVerify ucf,
                     spec_ClusterResources = ucf_ClusterResources ucf,
                     spec_Namespaces = ucf_Namespaces ucf\<rparr>)"
proof -
  have e: "env_Namespace env = req_Namespace req" "env_Name env = req_Name req"
    using find_Some_P[OF env] by (auto simp: env_at_def)
  show ?thesis
  proof (cases "find (me_at (req_Namespace req) (''managed-environment-'' @ req_Name req)) (managedEnvironments w)")
    case None
    show ?thesis
      using assms e None
      by (simp add: Reconcile_def isRequestNamespaceBeingDeleted_def k8sGet_Environment_def
        reconcileEnvironment_def generateDesiredResource_def generateDesiredResource_secret_def
        k8sGet_Secret_def reconcileManagedEnvSecret_def Let_def resolve_nofault
        k8sGet_ManagedEnvironment_def k8sCreate_ManagedEnvironment_def find_append_snoc
        split: option.splits)
  next
    case (Some cur)
    have c: "me_Namespace cur = req_Namespace req" "me_Name cur = ''managed-environment-'' @ req_Name req"
      using find_Some_P[OF Some] by (auto simp: me_at_def)
    note m = find_Some_P[OF Some]
    show ?thesis
      using assms e Some c m
      by (simp add: Reconcile_def isRequestNamespaceBeingDeleted_def k8sGet_Environment_def
        reconcileEnvironment_def generateDesiredResource_def generateDesiredResource_secret_def
        k8sGet_Secret_def reconcileManagedEnvSecret_def Let_def resolve_nofault
        k8sGet_ManagedEnvironment_def k8sUpdate_ManagedEnvironment_def
        split: option.splits)
  qed
qed


theorem Reconcile_inline_converges_witness:
  "namespaceCheck stagingWorld (req_Namespace stagingRequest) = (False, None)
   \<and> pending stagingWorld = []
   \<and> find (env_at (req_Namespace stagingRequest) (req_Name stagingRequest))
        (environments stagingWorld) = Some stagingEnv
   \<and> env_ClaimName stagingEnv = []
   \<and> env_UnstableConfigurationFields stagingEnv = Some stagingConfig
   \<and> find (sec_at (req_Namespace stagingRequest) (ucf_ClusterCredentialsSecret stagingConfig))
        (secrets stagingWorld) = Some clusterSecret
   \<and> (case Reconcile stagingRequest stagingWorld of
           ((res, err), w') \<Rightarrow>
             err = None \<and>
             (\<exists>m. find (me_at ''team-a'' ''managed-environment-staging'')
                    (managedEnvironments w') = Some m
                \<and> me_Name m = ''managed-environment-staging''
                \<and> me_Namespace m = ''team-a''
                \<and> me_Spec m = \<lparr>spec_APIURL = ''https://api.staging.example:6443'',
                     spec_ClusterCredentialsSecret = ''cluster-secret'',
                     spec_AllowInsecureSkipTLSVerify = True,
                     spec_ClusterResources = False,
                     spec_Namespaces = [''apps'']\<rparr>))"
proof -
  have h: "namespaceCheck stagingWorld (req_Namespace stagingRequest) = (False, None)"
    "pending stagingWorld = []"
    "find (env_at (req_Namespace stagingRequest) (req_Name stagingRequest))
        (environments stagingWorld) = Some stagingEnv"
    "env_ClaimName stagingEnv = []"
    "env_UnstableConfigurationFields stagingEnv = Some stagingConfig"
    "find (sec_at (req_Namespace stagingRequest) (ucf_ClusterCredentialsSecret stagingConfig))
        (secrets stagingWorld) = Some clusterSecret"
    by (simp_all add: example_defs env_at_def sec_at_def)
  from Reconcile_inline_converges[OF h] h show ?thesis
    by (simp add: stagingRequest_def stagingConfig_def)
qed



lemma nextFault_faultAt: "nextFault w = faultAt w 0"
  by (cases "pending w") (simp_all add: nextFault_def faultAt_def)

lemma faultAt_logCall [simp]: "faultAt (logCall v k ns n out w) i = faultAt w (Suc i)"
  by (cases "pending w") (simp_all add: faultAt_def logCall_def)

lemma faultAt_upd [simp]:
  "faultAt (w\<lparr>environments := es\<rparr>) i = faultAt w i"
  "faultAt (w\<lparr>secrets := ss\<rparr>) i = faultAt w i"
  "faultAt (w\<lparr>managedEnvironments := ms\<rparr>) i = faultAt w i"
  by (simp_all add: faultAt_def)

lemma newCalls_append [simp]: "trace w' = trace w @ t \<Longrightarrow> newCalls w w' = t"
  by (simp add: newCalls_def)

lemma insertOrUpdate_find:
  "findCondition (snd (insertOrUpdateConditionsInSlice n cs)) (cond_Type n) = Some n"
  by (induction cs) (auto split: prod.splits)


lemma insertOrUpdate_unchanged:
  "\<not> fst (insertOrUpdateConditionsInSlice n cs) \<Longrightarrow>
   snd (insertOrUpdateConditionsInSlice n cs) = cs"
  by (induction cs) (auto split: prod.splits if_splits)


lemma raise_nofault:
  assumes "pending w = []"
    and "find (env_at (env_Namespace env) (env_Name env)) (environments w) \<noteq> None"
  shows "updateStatusConditionOfEnvironment m env EnvironmentConditionErrorOccurred ConditionTrue
           EnvironmentReasonErrorOccurred w =
     (if fst (insertOrUpdateConditionsInSlice (errorCondition m) (env_Conditions env))
      then ((None, env\<lparr>env_Conditions := raisedConditions m (env_Conditions env)\<rparr>),
            logCall VStatusUpdate KEnvironment (env_Namespace env) (env_Name env) None
              (w\<lparr>environments :=
                   map (\<lambda>x. if env_at (env_Namespace env) (env_Name env) x
                            then x\<lparr>env_Conditions := raisedConditions m (env_Conditions env)\<rparr>
                            else x) (environments w)\<rparr>))
      else ((None, env), w))"
  using assms
  by (cases "insertOrUpdateConditionsInSlice (errorCondition m) (env_Conditions env)")
     (simp add: updateStatusConditionOfEnvironment_def statusUpdate_nofault Let_def
        errorCondition_def raisedConditions_def)





lemma find_filter_not [simp]: "find P (filter (\<lambda>x. \<not> P x) xs) = None"
  by (induction xs) auto

lemma get_env_notfound:
  assumes "fst (k8sGet_Environment ns n w) = Inl (StatusError NotFound)"
  shows "k8sGet_Environment ns n w
           = (Inl (StatusError NotFound), logCall VGet KEnvironment ns n (Some NotFound) w)"
  using assms by (auto simp: k8sGet_Environment_def split: option.splits)

text \<open>
  Claim C2. Let the fetch of the Environment return not-found, in a namespace that is not
  in deletion. \<^verbatim>\<open>Reconcile\<close> then fetches the GitOpsDeploymentManagedEnvironment named
  \<^verbatim>\<open>managed-environment-<name>\<close> in the namespace of the request. If that fetch returns
  not-found, the result is success and no object has changed. If the object is there and
  the fetch and the delete succeed, it is gone afterwards and the result is success. If
  the fetch or the delete fails with an error other than not-found, the result is an
  error; a delete that returns not-found gives success.
\<close>

theorem Reconcile_environment_gone:
  assumes ns: "namespaceCheck w (req_Namespace req) = (False, None)"
    and gone: "fst (k8sGet_Environment (req_Namespace req) (req_Name req) w)
                 = Inl (StatusError NotFound)"
  shows "((find (me_at (req_Namespace req) (''managed-environment-'' @ req_Name req))
             (managedEnvironments w) = None \<and> faultAt w 1 = None)
          \<or> faultAt w 1 = Some NotFound \<longrightarrow>
            (case Reconcile req w of
               ((res, err), w') \<Rightarrow>
                 res = emptyResult \<and> err = None
                 \<and> environments w' = environments w
                 \<and> deploymentTargetClaims w' = deploymentTargetClaims w
                 \<and> deploymentTargets w' = deploymentTargets w
                 \<and> secrets w' = secrets w
                 \<and> managedEnvironments w' = managedEnvironments w
                 \<and> newCalls w w'
                     = [\<lparr>c_verb = VGet, c_kind = KEnvironment, c_namespace = req_Namespace req,
                         c_name = req_Name req, c_outcome = Some NotFound\<rparr>,
                        \<lparr>c_verb = VGet, c_kind = KGitOpsDeploymentManagedEnvironment,
                         c_namespace = req_Namespace req,
                         c_name = ''managed-environment-'' @ req_Name req,
                         c_outcome = Some NotFound\<rparr>]))
       \<and> (\<forall>m. find (me_at (req_Namespace req) (''managed-environment-'' @ req_Name req))
                 (managedEnvironments w) = Some m
               \<and> faultAt w 1 = None \<and> faultAt w 2 = None \<longrightarrow>
            (case Reconcile req w of
               ((res, err), w') \<Rightarrow>
                 res = emptyResult \<and> err = None
                 \<and> find (me_at (req_Namespace req) (''managed-environment-'' @ req_Name req))
                      (managedEnvironments w') = None
                 \<and> managedEnvironments w'
                     = filter (\<lambda>x. \<not> me_at (req_Namespace req)
                                       (''managed-environment-'' @ req_Name req) x)
                         (managedEnvironments w)
                 \<and> environments w' = environments w
                 \<and> secrets w' = secrets w
                 \<and> newCalls w w'
                     = [\<lparr>c_verb = VGet, c_kind = KEnvironment, c_namespace = req_Namespace req,
                         c_name = req_Name req, c_outcome = Some NotFound\<rparr>,
                        \<lparr>c_verb = VGet, c_kind = KGitOpsDeploymentManagedEnvironment,
                         c_namespace = req_Namespace req,
                         c_name = ''managed-environment-'' @ req_Name req, c_outcome = None\<rparr>,
                        \<lparr>c_verb = VDelete, c_kind = KGitOpsDeploymentManagedEnvironment,
                         c_namespace = req_Namespace req,
                         c_name = ''managed-environment-'' @ req_Name req, c_outcome = None\<rparr>]))
       \<and> (\<forall>r. faultAt w 1 = Some r \<and> r \<noteq> NotFound \<longrightarrow>
            (case Reconcile req w of
               ((res, err), w') \<Rightarrow>
                 res = emptyResult \<and> err \<noteq> None
                 \<and> managedEnvironments w' = managedEnvironments w))
       \<and> (\<forall>m r. find (me_at (req_Namespace req) (''managed-environment-'' @ req_Name req))
                   (managedEnvironments w) = Some m
               \<and> faultAt w 1 = None \<and> faultAt w 2 = Some r \<longrightarrow>
            (case Reconcile req w of
               ((res, err), w') \<Rightarrow>
                 res = emptyResult \<and> (err = None \<longleftrightarrow> r = NotFound)
                 \<and> managedEnvironments w' = managedEnvironments w))"
proof -
  note g = get_env_notfound[OF gone]
  have p1: "case Reconcile req w of
               ((res, err), w') \<Rightarrow>
                 res = emptyResult \<and> err = None
                 \<and> environments w' = environments w
                 \<and> deploymentTargetClaims w' = deploymentTargetClaims w
                 \<and> deploymentTargets w' = deploymentTargets w
                 \<and> secrets w' = secrets w
                 \<and> managedEnvironments w' = managedEnvironments w
                 \<and> newCalls w w'
                     = [\<lparr>c_verb = VGet, c_kind = KEnvironment, c_namespace = req_Namespace req,
                         c_name = req_Name req, c_outcome = Some NotFound\<rparr>,
                        \<lparr>c_verb = VGet, c_kind = KGitOpsDeploymentManagedEnvironment,
                         c_namespace = req_Namespace req,
                         c_name = ''managed-environment-'' @ req_Name req,
                         c_outcome = Some NotFound\<rparr>]"
    if "(find (me_at (req_Namespace req) (''managed-environment-'' @ req_Name req))
             (managedEnvironments w) = None \<and> faultAt w 1 = None)
          \<or> faultAt w 1 = Some NotFound"
    using that ns g
    by (auto simp: Reconcile_def isRequestNamespaceBeingDeleted_def
        k8sGet_ManagedEnvironment_def nextFault_faultAt)
  have p2: "case Reconcile req w of
               ((res, err), w') \<Rightarrow>
                 res = emptyResult \<and> err = None
                 \<and> find (me_at (req_Namespace req) (''managed-environment-'' @ req_Name req))
                      (managedEnvironments w') = None
                 \<and> managedEnvironments w'
                     = filter (\<lambda>x. \<not> me_at (req_Namespace req)
                                       (''managed-environment-'' @ req_Name req) x)
                         (managedEnvironments w)
                 \<and> environments w' = environments w
                 \<and> secrets w' = secrets w
                 \<and> newCalls w w'
                     = [\<lparr>c_verb = VGet, c_kind = KEnvironment, c_namespace = req_Namespace req,
                         c_name = req_Name req, c_outcome = Some NotFound\<rparr>,
                        \<lparr>c_verb = VGet, c_kind = KGitOpsDeploymentManagedEnvironment,
                         c_namespace = req_Namespace req,
                         c_name = ''managed-environment-'' @ req_Name req, c_outcome = None\<rparr>,
                        \<lparr>c_verb = VDelete, c_kind = KGitOpsDeploymentManagedEnvironment,
                         c_namespace = req_Namespace req,
                         c_name = ''managed-environment-'' @ req_Name req, c_outcome = None\<rparr>]"
    if "find (me_at (req_Namespace req) (''managed-environment-'' @ req_Name req))
                 (managedEnvironments w) = Some m
               \<and> faultAt w 1 = None \<and> faultAt w 2 = None" for m
  proof -
    have "me_at (req_Namespace req) (''managed-environment-'' @ req_Name req) m"
      using that find_Some_P by fastforce
    then have k: "me_Namespace m = req_Namespace req"
      "me_Name m = ''managed-environment-'' @ req_Name req"
      by (simp_all add: me_at_def)
    show ?thesis
      using that ns g k
      by (simp add: Reconcile_def isRequestNamespaceBeingDeleted_def
        k8sGet_ManagedEnvironment_def k8sDelete_ManagedEnvironment_def nextFault_faultAt
        numeral_2_eq_2)
  qed
  have p3: "case Reconcile req w of
               ((res, err), w') \<Rightarrow>
                 res = emptyResult \<and> err \<noteq> None
                 \<and> managedEnvironments w' = managedEnvironments w"
    if "faultAt w 1 = Some r \<and> r \<noteq> NotFound" for r
    using that ns g
    by (cases r) (simp_all add: Reconcile_def isRequestNamespaceBeingDeleted_def
        k8sGet_ManagedEnvironment_def nextFault_faultAt)
  have p4: "case Reconcile req w of
               ((res, err), w') \<Rightarrow>
                 res = emptyResult \<and> (err = None \<longleftrightarrow> r = NotFound)
                 \<and> managedEnvironments w' = managedEnvironments w"
    if "find (me_at (req_Namespace req) (''managed-environment-'' @ req_Name req))
                   (managedEnvironments w) = Some m
               \<and> faultAt w 1 = None \<and> faultAt w 2 = Some r" for m r
    using that ns g
    by (cases r) (simp_all add: Reconcile_def isRequestNamespaceBeingDeleted_def
        k8sGet_ManagedEnvironment_def k8sDelete_ManagedEnvironment_def nextFault_faultAt
        numeral_2_eq_2)
  from p1 p2 p3 p4 show ?thesis by blast
qed


theorem Reconcile_environment_gone_witness:
  "namespaceCheck emptyWorld (req_Namespace stagingRequest) = (False, None)
   \<and> fst (k8sGet_Environment (req_Namespace stagingRequest) (req_Name stagingRequest)
            emptyWorld) = Inl (StatusError NotFound)
   \<and> fst (Reconcile stagingRequest emptyWorld) = (emptyResult, None)
   \<and> map c_verb (trace (snd (Reconcile stagingRequest emptyWorld))) = [VGet, VGet]
   \<and> managedEnvironments orphanWorld = [orphanManagedEnv]
   \<and> fst (Reconcile stagingRequest orphanWorld) = (emptyResult, None)
   \<and> managedEnvironments (snd (Reconcile stagingRequest orphanWorld)) = []
   \<and> map c_verb (trace (snd (Reconcile stagingRequest orphanWorld))) = [VGet, VGet, VDelete]
   \<and> fst (Reconcile stagingRequest (orphanWorld\<lparr>pending := [None, Some (InternalError ''down'')]\<rparr>))
       = (emptyResult,
          Some (Errorf ''unable to retrieve GitOpsDeploymentManagedEnvironment: %v''
                  (Some (StatusError (InternalError ''down'')))))
   \<and> fst (Reconcile stagingRequest
            (orphanWorld\<lparr>pending := [None, None, Some (InternalError ''down'')]\<rparr>))
       = (emptyResult,
          Some (Errorf ''unable to delete GitOpsDeploymentMangedEnvironment resource: %v''
                  (Some (StatusError (InternalError ''down'')))))
   \<and> managedEnvironments (snd (Reconcile stagingRequest
            (orphanWorld\<lparr>pending := [None, None, Some (InternalError ''down'')]\<rparr>)))
       = [orphanManagedEnv]"
  using Reconcile_environment_gone[of emptyWorld stagingRequest]
        Reconcile_environment_gone[of orphanWorld stagingRequest]
        Reconcile_environment_gone
          [of "orphanWorld\<lparr>pending := [None, Some (InternalError ''down'')]\<rparr>" stagingRequest]
        Reconcile_environment_gone
          [of "orphanWorld\<lparr>pending := [None, None, Some (InternalError ''down'')]\<rparr>"
              stagingRequest]
  by (simp add: example_defs orphanManagedEnv_def orphanWorld_def exec_defs logCall_def nextFault_def faultAt_def)


text \<open>
  Claim C8. When both listings succeed, the requests that
  \<^verbatim>\<open>findObjectsForDeploymentTarget\<close> returns are exactly those of the Environments of the
  target's namespace that name a claim of that namespace matching the target: the claim's
  target name is the target's name, or the target's claim reference is the claim's name.
  When a listing fails the result is empty.
\<close>

theorem findObjectsForDeploymentTarget_fanout:
  "set (fst (findObjectsForDeploymentTarget dt w)) =
     (if faultAt w 0 = None \<and> faultAt w 1 = None then
        {requestFor env | env.
           env \<in> set (environments w) \<and> env_Namespace env = dt_Namespace dt
           \<and> (\<exists>dtc \<in> set (deploymentTargetClaims w).
                 dtc_Namespace dtc = dt_Namespace dt
                 \<and> (dtc_TargetName dtc = dt_Name dt \<or> dt_ClaimRef dt = dtc_Name dtc)
                 \<and> env_ClaimName env = dtc_Name dtc)}
      else {})"
  by (auto simp: findObjectsForDeploymentTarget_def k8sList_DeploymentTargetClaim_def
      k8sList_Environment_def nextFault_faultAt split: option.splits)

theorem findObjectsForDeploymentTarget_fanout_witness:
  "faultAt fanoutWorld 0 = None \<and> faultAt fanoutWorld 1 = None
   \<and> fst (findObjectsForDeploymentTarget prodTarget fanoutWorld)
       = [requestFor prodEnv, requestFor prodEuEnv]
   \<and> {requestFor env | env.
           env \<in> set (environments fanoutWorld) \<and> env_Namespace env = dt_Namespace prodTarget
           \<and> (\<exists>dtc \<in> set (deploymentTargetClaims fanoutWorld).
                 dtc_Namespace dtc = dt_Namespace prodTarget
                 \<and> (dtc_TargetName dtc = dt_Name prodTarget
                      \<or> dt_ClaimRef prodTarget = dtc_Name dtc)
                 \<and> env_ClaimName env = dtc_Name dtc)}
       = {\<lparr>req_Namespace = ''team-a'', req_Name = ''prod''\<rparr>,
          \<lparr>req_Namespace = ''team-a'', req_Name = ''prod-eu''\<rparr>}
   \<and> requestFor labEnv \<notin> set (fst (findObjectsForDeploymentTarget prodTarget fanoutWorld))"
proof -
  have f: "faultAt fanoutWorld 0 = None" "faultAt fanoutWorld 1 = None"
    by (simp_all add: example_defs prodEuEnv_def labEnv_def labClaim_def fanoutWorld_def faultAt_def)
  have e: "fst (findObjectsForDeploymentTarget prodTarget fanoutWorld)
             = [requestFor prodEnv, requestFor prodEuEnv]"
    by (simp add: example_defs prodEuEnv_def labEnv_def labClaim_def fanoutWorld_def exec_defs logCall_def nextFault_def)
  have t: "set (fst (findObjectsForDeploymentTarget prodTarget fanoutWorld))
       = {requestFor env | env.
           env \<in> set (environments fanoutWorld) \<and> env_Namespace env = dt_Namespace prodTarget
           \<and> (\<exists>dtc \<in> set (deploymentTargetClaims fanoutWorld).
                 dtc_Namespace dtc = dt_Namespace prodTarget
                 \<and> (dtc_TargetName dtc = dt_Name prodTarget
                      \<or> dt_ClaimRef prodTarget = dtc_Name dtc)
                 \<and> env_ClaimName env = dtc_Name dtc)}"
    using findObjectsForDeploymentTarget_fanout[of prodTarget fanoutWorld] f
    by (simp only: if_True simp_thms)
  have s: "set [requestFor prodEnv, requestFor prodEuEnv]
             = {\<lparr>req_Namespace = ''team-a'', req_Name = ''prod''\<rparr>,
                \<lparr>req_Namespace = ''team-a'', req_Name = ''prod-eu''\<rparr>}"
    by (simp add: example_defs prodEuEnv_def labEnv_def labClaim_def fanoutWorld_def requestFor_def)
  have n: "requestFor labEnv \<notin> set [requestFor prodEnv, requestFor prodEuEnv]"
    by (simp add: example_defs prodEuEnv_def labEnv_def labClaim_def fanoutWorld_def requestFor_def)
  show ?thesis
    using f e t[symmetric, unfolded e s] n[folded e] by (intro conjI)
qed

lemma get_dtc_objects [simp]:
  "deploymentTargetClaims (snd (k8sGet_DeploymentTargetClaim ns n w)) = deploymentTargetClaims w"
  by (simp add: k8sGet_DeploymentTargetClaim_def split: option.splits)

lemma get_dtc_Inr:
  "k8sGet_DeploymentTargetClaim ns n w = (Inr c, w') \<Longrightarrow>
   find (dtc_at ns n) (deploymentTargetClaims w) = Some c
   \<and> w' = logCall VGet KDeploymentTargetClaim ns n None w"
  by (auto simp: k8sGet_DeploymentTargetClaim_def split: option.splits)

lemma get_dtc_Inl:
  "k8sGet_DeploymentTargetClaim ns n w = (Inl e, w') \<Longrightarrow>
   \<exists>r. w' = logCall VGet KDeploymentTargetClaim ns n (Some r) w"
  by (auto simp: k8sGet_DeploymentTargetClaim_def split: option.splits)

lemma loop_dangling:
  "env \<in> set envs \<Longrightarrow> env_ClaimName env \<noteq> [] \<Longrightarrow>
   find (dtc_at (env_Namespace env) (env_ClaimName env)) (deploymentTargetClaims w) = None \<Longrightarrow>
   fst (findObjectsForSecret_loop secret dtItems envs acc w) = []"
proof (induction envs arbitrary: acc w)
  case Nil
  then show ?case by simp
next
  case (Cons e rest)
  show ?case
  proof (cases "env_ClaimName e = []")
    case True
    then have "env \<in> set rest" using Cons.prems by auto
    then show ?thesis using True Cons by simp
  next
    case False
    show ?thesis
    proof (cases "k8sGet_DeploymentTargetClaim (env_Namespace e) (env_ClaimName e) w")
      case (Pair r w1)
      have dt: "deploymentTargetClaims w1 = deploymentTargetClaims w"
        using get_dtc_objects[of "env_Namespace e" "env_ClaimName e" w] Pair by simp
      show ?thesis
      proof (cases r)
        case (Inl err)
        then show ?thesis using False Pair by simp
      next
        case (Inr dtc)
        then have "find (dtc_at (env_Namespace e) (env_ClaimName e)) (deploymentTargetClaims w)
                     = Some dtc"
          using get_dtc_Inr Pair by blast
        then have "env \<noteq> e" using Cons.prems by auto
        then have "env \<in> set rest" using Cons.prems by auto
        then show ?thesis
          using False Pair Inr Cons.IH[of w1] Cons.prems dt by (simp add: Let_def)
      qed
    qed
  qed
qed

lemma loop_failed_fetch:
  "\<exists>t. trace (snd (findObjectsForSecret_loop secret dtItems envs acc w)) = trace w @ t
       \<and> (list_ex failedClaimFetch t \<longrightarrow>
            fst (findObjectsForSecret_loop secret dtItems envs acc w) = [])"
proof (induction envs arbitrary: acc w)
  case Nil
  then show ?case by simp
next
  case (Cons e rest)
  show ?case
  proof (cases "env_ClaimName e = []")
    case True
    then show ?thesis using Cons.IH[of acc w] by simp
  next
    case False
    show ?thesis
    proof (cases "k8sGet_DeploymentTargetClaim (env_Namespace e) (env_ClaimName e) w")
      case (Pair r w1)
      show ?thesis
      proof (cases r)
        case (Inl err)
        then obtain x where "w1 = logCall VGet KDeploymentTargetClaim (env_Namespace e)
                                    (env_ClaimName e) (Some x) w"
          using get_dtc_Inl Pair by blast
        then show ?thesis using False Pair Inl by simp
      next
        case (Inr dtc)
        then have w1: "w1 = logCall VGet KDeploymentTargetClaim (env_Namespace e)
                                    (env_ClaimName e) None w"
          using get_dtc_Inr Pair by blast
        define acc' where "acc' =
          (if dt_ClusterCredentialsSecret
                (case find (\<lambda>d. dtc_TargetName dtc = dt_Name d \<or> dt_ClaimRef d = dtc_Name dtc)
                        dtItems of None \<Rightarrow> emptyDeploymentTarget | Some d \<Rightarrow> d)
              = sec_Name secret
           then acc @ [requestFor e] else acc)"
        have step: "findObjectsForSecret_loop secret dtItems (e # rest) acc w
                      = findObjectsForSecret_loop secret dtItems rest acc' w1"
          using False Pair Inr by (simp add: acc'_def Let_def)
        from Cons.IH[of acc' w1] obtain t where
          t: "trace (snd (findObjectsForSecret_loop secret dtItems rest acc' w1)) = trace w1 @ t"
          and f: "list_ex failedClaimFetch t \<longrightarrow>
                    fst (findObjectsForSecret_loop secret dtItems rest acc' w1) = []"
          by blast
        have nc: "\<not> failedClaimFetch \<lparr>c_verb = VGet, c_kind = KDeploymentTargetClaim,
                     c_namespace = env_Namespace e, c_name = env_ClaimName e, c_outcome = None\<rparr>"
          by (simp add: failedClaimFetch_def)
        show ?thesis
          unfolding step using t f w1 nc by auto
      qed
    qed
  qed
qed

text \<open>
  Claim C10. For an event on a secret of the opaque type, if a fetch of a
  DeploymentTargetClaim made by \<^verbatim>\<open>findObjectsForSecret\<close> fails, for whatever reason, the
  result is the empty list. In particular, if one Environment of the namespace names a
  claim that does not exist, the result is empty whatever the other Environments are and
  whatever failures are injected.
\<close>

theorem findObjectsForSecret_failed_claim_fetch:
  assumes "sec_Type secret = SecretTypeOpaque"
  shows "(list_ex failedClaimFetch (newCalls w (snd (findObjectsForSecret secret w))) \<longrightarrow>
            fst (findObjectsForSecret secret w) = [])
       \<and> (\<forall>env. env \<in> set (environments w) \<and> env_Namespace env = sec_Namespace secret
               \<and> env_ClaimName env \<noteq> []
               \<and> find (dtc_at (env_Namespace env) (env_ClaimName env))
                    (deploymentTargetClaims w) = None \<longrightarrow>
            fst (findObjectsForSecret secret w) = [])"
proof (intro conjI allI impI)
  assume a: "list_ex failedClaimFetch (newCalls w (snd (findObjectsForSecret secret w)))"
  show "fst (findObjectsForSecret secret w) = []"
  proof (cases "faultAt w 0 = None \<and> faultAt w 1 = None")
    case False
    then show ?thesis
      using assms
      by (auto simp: findObjectsForSecret_def k8sList_Environment_def
          k8sList_DeploymentTarget_def nextFault_faultAt split: option.splits)
  next
    case True
    define w2 where "w2 = logCall VList KDeploymentTarget (sec_Namespace secret) [] None
                           (logCall VList KEnvironment (sec_Namespace secret) [] None w)"
    define envItems where "envItems = filter (\<lambda>e. env_Namespace e = sec_Namespace secret) (environments w)"
    define dtItems where "dtItems = filter (\<lambda>d. dt_Namespace d = sec_Namespace secret) (deploymentTargets w)"
    have eq: "findObjectsForSecret secret w = findObjectsForSecret_loop secret dtItems envItems [] w2"
      using assms True
      by (simp add: findObjectsForSecret_def k8sList_Environment_def
          k8sList_DeploymentTarget_def nextFault_faultAt w2_def envItems_def dtItems_def)
    from loop_failed_fetch[of secret dtItems envItems "[]" w2] obtain t where
      t: "trace (snd (findObjectsForSecret_loop secret dtItems envItems [] w2)) = trace w2 @ t"
      and f: "list_ex failedClaimFetch t \<longrightarrow>
                fst (findObjectsForSecret_loop secret dtItems envItems [] w2) = []"
      by blast
    have "newCalls w (snd (findObjectsForSecret secret w))
            = [\<lparr>c_verb = VList, c_kind = KEnvironment, c_namespace = sec_Namespace secret,
                c_name = [], c_outcome = None\<rparr>,
               \<lparr>c_verb = VList, c_kind = KDeploymentTarget, c_namespace = sec_Namespace secret,
                c_name = [], c_outcome = None\<rparr>] @ t"
      unfolding eq using t by (simp add: w2_def)
    then have "list_ex failedClaimFetch t"
      using a by (simp add: failedClaimFetch_def)
    then show ?thesis using f eq by simp
  qed
next
  fix env
  assume a: "env \<in> set (environments w) \<and> env_Namespace env = sec_Namespace secret
               \<and> env_ClaimName env \<noteq> []
               \<and> find (dtc_at (env_Namespace env) (env_ClaimName env))
                    (deploymentTargetClaims w) = None"
  show "fst (findObjectsForSecret secret w) = []"
    using assms a
    by (auto simp: findObjectsForSecret_def k8sList_Environment_def
        k8sList_DeploymentTarget_def intro!: loop_dangling[where env=env]
        split: option.splits)
qed

theorem findObjectsForSecret_failed_claim_fetch_witness:
  "sec_Type (targetSecret ''1'') = SecretTypeOpaque
   \<and> lostEnv \<in> set (environments danglingWorld)
   \<and> env_Namespace lostEnv = sec_Namespace (targetSecret ''1'')
   \<and> env_ClaimName lostEnv \<noteq> []
   \<and> find (dtc_at (env_Namespace lostEnv) (env_ClaimName lostEnv))
        (deploymentTargetClaims danglingWorld) = None
   \<and> fst (findObjectsForSecret (targetSecret ''1'') danglingWorld) = []
   \<and> map c_outcome (newCalls danglingWorld
                       (snd (findObjectsForSecret (targetSecret ''1'') danglingWorld)))
       = [None, None, None, Some NotFound]
   \<and> fst (findObjectsForSecret (targetSecret ''1'')
            (danglingWorld\<lparr>environments := [prodEnv, prodEuEnv]\<rparr>))
       = [requestFor prodEnv, requestFor prodEuEnv]"
proof -
  have h: "sec_Type (targetSecret ''1'') = SecretTypeOpaque"
    by (simp add: example_defs prodEuEnv_def lostEnv_def danglingWorld_def)
  from findObjectsForSecret_failed_claim_fetch[OF h, of danglingWorld] show ?thesis
    by (simp add: example_defs prodEuEnv_def lostEnv_def danglingWorld_def exec_defs logCall_def nextFault_def failedClaimFetch_def)
qed


lemma statusStored_simps [simp]:
  "namespaceCheck (statusStored e w) = namespaceCheck w"
  "deploymentTargetClaims (statusStored e w) = deploymentTargetClaims w"
  "deploymentTargets (statusStored e w) = deploymentTargets w"
  "secrets (statusStored e w) = secrets w"
  "managedEnvironments (statusStored e w) = managedEnvironments w"
  "pending (statusStored e w) = tl (pending w)"
  "trace (statusStored e w) = trace w @ [\<lparr>c_verb = VStatusUpdate, c_kind = KEnvironment,
      c_namespace = env_Namespace e, c_name = env_Name e, c_outcome = None\<rparr>]"
  by (simp_all add: statusStored_def)

lemma find_statusStored [simp]:
  "env_Namespace e = ns \<Longrightarrow> env_Name e = n \<Longrightarrow>
   find (env_at ns n) (environments (statusStored e w))
     = map_option (\<lambda>x. x\<lparr>env_Conditions := env_Conditions e\<rparr>)
         (find (env_at ns n) (environments w))"
  by (auto simp: statusStored_def)

lemma statusUpdate_eq:
  "pending w = [] \<Longrightarrow> find (env_at (env_Namespace e) (env_Name e)) (environments w) \<noteq> None \<Longrightarrow>
   k8sStatusUpdate_Environment e w = (None, statusStored e w)"
  by (simp add: statusUpdate_nofault statusStored_def)

lemma resolvedEnv_simps [simp]:
  "env_Name (resolvedEnv env) = env_Name env"
  "env_Namespace (resolvedEnv env) = env_Namespace env"
  "env_APIVersion (resolvedEnv env) = env_APIVersion env"
  "env_Kind (resolvedEnv env) = env_Kind env"
  "env_UID (resolvedEnv env) = env_UID env"
  "env_ClaimName (resolvedEnv env) = env_ClaimName env"
  "env_UnstableConfigurationFields (resolvedEnv env) = env_UnstableConfigurationFields env"
  by (simp_all add: resolvedEnv_def)

lemma raisedEnv_simps [simp]:
  "env_Name (raisedEnv m env) = env_Name env"
  "env_Namespace (raisedEnv m env) = env_Namespace env"
  "env_APIVersion (raisedEnv m env) = env_APIVersion env"
  "env_Kind (raisedEnv m env) = env_Kind env"
  "env_UID (raisedEnv m env) = env_UID env"
  "env_ClaimName (raisedEnv m env) = env_ClaimName env"
  "env_UnstableConfigurationFields (raisedEnv m env) = env_UnstableConfigurationFields env"
  "env_Conditions (raisedEnv m env) = raisedConditions m (env_Conditions env)"
  by (simp_all add: raisedEnv_def)

lemma resolvedWorld_simps [simp]:
  "namespaceCheck (resolvedWorld env w) = namespaceCheck w"
  "deploymentTargetClaims (resolvedWorld env w) = deploymentTargetClaims w"
  "deploymentTargets (resolvedWorld env w) = deploymentTargets w"
  "secrets (resolvedWorld env w) = secrets w"
  "managedEnvironments (resolvedWorld env w) = managedEnvironments w"
  "pending w = [] \<Longrightarrow> pending (resolvedWorld env w) = []"
  by (simp_all add: resolvedWorld_def)

lemma raisedWorld_simps [simp]:
  "namespaceCheck (raisedWorld m env w) = namespaceCheck w"
  "deploymentTargetClaims (raisedWorld m env w) = deploymentTargetClaims w"
  "deploymentTargets (raisedWorld m env w) = deploymentTargets w"
  "secrets (raisedWorld m env w) = secrets w"
  "managedEnvironments (raisedWorld m env w) = managedEnvironments w"
  "pending w = [] \<Longrightarrow> pending (raisedWorld m env w) = []"
  by (simp_all add: raisedWorld_def)

lemma resolvedWorld_trace:
  "trace (resolvedWorld env w) = trace w @
     (if needsResolve env
      then [\<lparr>c_verb = VStatusUpdate, c_kind = KEnvironment, c_namespace = env_Namespace env,
             c_name = env_Name env, c_outcome = None\<rparr>]
      else [])"
  by (simp add: resolvedWorld_def)

lemma raisedWorld_trace:
  "trace (raisedWorld m env w) = trace w @
     (if needsRaise m env
      then [\<lparr>c_verb = VStatusUpdate, c_kind = KEnvironment, c_namespace = env_Namespace env,
             c_name = env_Name env, c_outcome = None\<rparr>]
      else [])"
  by (simp add: raisedWorld_def)

lemma resolvedWorld_exists [simp]:
  "find (env_at (env_Namespace env) (env_Name env)) (environments (resolvedWorld env w)) = None
     \<longleftrightarrow> find (env_at (env_Namespace env) (env_Name env)) (environments w) = None"
  by (simp add: resolvedWorld_def)

lemma raisedWorld_exists [simp]:
  "find (env_at (env_Namespace env) (env_Name env)) (environments (raisedWorld m env w)) = None
     \<longleftrightarrow> find (env_at (env_Namespace env) (env_Name env)) (environments w) = None"
  by (simp add: raisedWorld_def)

lemma resolvedWorld_exists' [simp]:
  "(\<exists>y. find (env_at (env_Namespace env) (env_Name env)) (environments (resolvedWorld env w))
          = Some y)
     \<longleftrightarrow> (\<exists>y. find (env_at (env_Namespace env) (env_Name env)) (environments w) = Some y)"
  using resolvedWorld_exists[of env w] by (metis not_None_eq)

lemma raisedWorld_exists' [simp]:
  "(\<exists>y. find (env_at (env_Namespace env) (env_Name env)) (environments (raisedWorld m env w))
          = Some y)
     \<longleftrightarrow> (\<exists>y. find (env_at (env_Namespace env) (env_Name env)) (environments w) = Some y)"
  using raisedWorld_exists[of env m w] by (metis not_None_eq)

lemma resolvedWorld_synced:
  "find (env_at (env_Namespace env) (env_Name env)) (environments w) = Some env \<Longrightarrow>
   find (env_at (env_Namespace env) (env_Name env)) (environments (resolvedWorld env w))
     = Some (resolvedEnv env)"
  by (simp add: resolvedWorld_def resolvedEnv_def)

lemma raisedWorld_synced:
  "find (env_at (env_Namespace env) (env_Name env)) (environments w) = Some env \<Longrightarrow>
   find (env_at (env_Namespace env) (env_Name env)) (environments (raisedWorld m env w))
     = Some (raisedEnv m env)"
  by (auto simp: raisedWorld_def raisedEnv_def raisedConditions_def needsRaise_def
      insertOrUpdate_unchanged)

lemma resolve_eq:
  assumes "pending w = []"
    and "find (env_at (env_Namespace env) (env_Name env)) (environments w) \<noteq> None"
  shows "updateConditionErrorAsResolved m env ct st EnvironmentReasonErrorOccurred w
           = ((None, resolvedEnv env), resolvedWorld env w)"
  using assms
  by (simp add: resolve_nofault resolvedEnv_def resolvedWorld_def needsResolve_def
      statusStored_def split: option.splits)

lemma raise_eq:
  assumes "pending w = []"
    and "find (env_at (env_Namespace env) (env_Name env)) (environments w) \<noteq> None"
  shows "updateStatusConditionOfEnvironment m env EnvironmentConditionErrorOccurred ConditionTrue
           EnvironmentReasonErrorOccurred w
           = ((None, raisedEnv m env), raisedWorld m env w)"
  using assms
  by (simp add: raise_nofault raisedEnv_def raisedWorld_def needsRaise_def statusStored_def
      raisedConditions_def insertOrUpdate_unchanged)

lemma needsResolve_resolvedEnv [simp]: "\<not> needsResolve (resolvedEnv env)"
proof (cases "needsResolve env")
  case False
  then show ?thesis by (simp add: resolvedEnv_def)
next
  case True
  have "findCondition (resolvedConditions EnvironmentReasonErrorOccurred (env_Conditions env))
          EnvironmentConditionErrorOccurred
        = Some \<lparr>cond_Type = EnvironmentConditionErrorOccurred, cond_Status = ConditionFalse,
                cond_Reason = EnvironmentReasonErrorOccurred @ ''Resolved'', cond_Message = []\<rparr>"
    using insertOrUpdate_find[of "\<lparr>cond_Type = EnvironmentConditionErrorOccurred,
                cond_Status = ConditionFalse,
                cond_Reason = EnvironmentReasonErrorOccurred @ ''Resolved'', cond_Message = []\<rparr>"
             "env_Conditions env"]
    by (simp add: resolvedConditions_def)
  then show ?thesis using True by (simp add: resolvedEnv_def needsResolve_def)
qed

lemma resolved_twice [simp]:
  "resolvedEnv (resolvedEnv env) = resolvedEnv env"
  "resolvedWorld (resolvedEnv env) w = w"
  by (simp_all add: resolvedEnv_def[of "resolvedEnv env"] resolvedWorld_def)


lemma sec_at_new [simp]:
  "sec_Namespace (newManagedEnvSecret env) = env_Namespace env"
  "sec_Name (newManagedEnvSecret env) = generateManagedEnvSecretName (env_Name env)"
  by (simp_all add: newManagedEnvSecret_def)

lemma find_sec_filter_not [simp]:
  "find (sec_at ns n) (filter (\<lambda>x. \<not> sec_at ns n x) xs) = None"
  by (induction xs) auto

lemma raisedConditions_find [simp]:
  "findCondition (raisedConditions m cs) EnvironmentConditionErrorOccurred = Some (errorCondition m)"
  using insertOrUpdate_find[of "errorCondition m" cs]
  by (simp add: raisedConditions_def errorCondition_def)

lemma secret_missing:
  assumes nf: "pending w = []"
    and sync: "find (env_at (env_Namespace env) (env_Name env)) (environments w) = Some env"
    and miss: "find (sec_at (env_Namespace env) (spec_ClusterCredentialsSecret details))
                 (secrets w) = None"
  shows "case generateDesiredResource_secret env claimName details w of
           ((desired, flag, err), w') \<Rightarrow>
             desired = None \<and> flag
             \<and> err = Some (Errorf ''the secret '%s' referenced by the Environment resource was not found: %v''
                                 (Some (StatusError NotFound)))
             \<and> find (env_at (env_Namespace env) (env_Name env)) (environments w')
                 = Some (raisedEnv (secretNotFoundMessage (spec_ClusterCredentialsSecret details)) env)
             \<and> find (sec_at (env_Namespace env) (generateManagedEnvSecretName (env_Name env)))
                 (secrets w') = None
             \<and> managedEnvironments w' = managedEnvironments w
             \<and> (\<exists>t out. trace w' = trace w @ t @
                   [\<lparr>c_verb = VDelete, c_kind = KSecret, c_namespace = env_Namespace env,
                     c_name = generateManagedEnvSecretName (env_Name env), c_outcome = out\<rparr>]
                   \<and> (out = None \<or> out = Some NotFound))"
proof -
  have s: "spec_ClusterCredentialsSecret
             (case env_UnstableConfigurationFields env of
                None \<Rightarrow> details
              | Some ucf \<Rightarrow> details\<lparr>spec_ClusterResources := ucf_ClusterResources ucf,
                                    spec_Namespaces := ucf_Namespaces ucf\<rparr>)
           = spec_ClusterCredentialsSecret details"
    by (simp split: option.splits)
  show ?thesis
    using assms s
    by (simp add: generateDesiredResource_secret_def k8sGet_Secret_def raise_eq Let_def
        k8sDelete_Secret_def raisedWorld_synced raisedWorld_trace
        secretNotFoundMessage_def)
qed


lemma claim_prefix:
  assumes nf: "pending w = []"
    and ex: "find (env_at (env_Namespace env) (env_Name env)) (environments w) \<noteq> None"
    and claim: "env_ClaimName env \<noteq> []"
    and dtc: "find (dtc_at (env_Namespace env) (env_ClaimName env)) (deploymentTargetClaims w)
                = Some dtc"
    and bound: "dtc_Phase dtc = DeploymentTargetClaimPhase_Bound"
    and dt: "boundTarget dtc w = Some dt"
  shows "generateDesiredResource env w =
           generateDesiredResource_secret (resolvedEnv env) (env_ClaimName env)
             \<lparr>spec_APIURL = dt_APIURL dt,
              spec_ClusterCredentialsSecret = dt_ClusterCredentialsSecret dt,
              spec_AllowInsecureSkipTLSVerify = dt_AllowInsecureSkipTLSVerify dt,
              spec_ClusterResources = False, spec_Namespaces = []\<rparr>
             (logCall VList KDeploymentTarget (env_Namespace env) [] None
                (resolvedWorld env
                   (logCall VGet KDeploymentTargetClaim (env_Namespace env) (env_ClaimName env)
                      None w)))"
proof -
  have k: "dtc_Namespace dtc = env_Namespace env"
    using find_Some_P[OF dtc] by (simp add: dtc_at_def)
  show ?thesis
    using assms k
    by (simp add: generateDesiredResource_def k8sGet_DeploymentTargetClaim_def resolve_eq
        getDTBoundByDTC_def k8sList_DeploymentTarget_def boundTarget_def Let_def)
qed

lemma claim_missing:
  assumes nf: "pending w = []"
    and ex: "find (env_at (env_Namespace env) (env_Name env)) (environments w) \<noteq> None"
    and claim: "env_ClaimName env \<noteq> []"
    and dtc: "find (dtc_at (env_Namespace env) (env_ClaimName env)) (deploymentTargetClaims w)
                = None"
  shows "fst (generateDesiredResource env w) = (None, True, None)"
  using assms
  by (simp add: generateDesiredResource_def k8sGet_DeploymentTargetClaim_def raiseAndReturn_def
      raise_eq Let_def)

lemma target_missing:
  assumes nf: "pending w = []"
    and ex: "find (env_at (env_Namespace env) (env_Name env)) (environments w) \<noteq> None"
    and claim: "env_ClaimName env \<noteq> []"
    and dtc: "find (dtc_at (env_Namespace env) (env_ClaimName env)) (deploymentTargetClaims w)
                = Some dtc"
    and bound: "dtc_Phase dtc = DeploymentTargetClaimPhase_Bound"
    and dt: "boundTarget dtc w = None"
  shows "fst (generateDesiredResource env w) = (None, True, None)"
proof -
  have k: "dtc_Namespace dtc = env_Namespace env"
    using find_Some_P[OF dtc] by (simp add: dtc_at_def)
  show ?thesis
    using assms k
    by (simp add: generateDesiredResource_def k8sGet_DeploymentTargetClaim_def resolve_eq
        getDTBoundByDTC_def k8sList_DeploymentTarget_def boundTarget_def raiseAndReturn_def
        raise_eq Let_def)
qed

lemma Reconcile_found:
  assumes "namespaceCheck w (req_Namespace req) = (False, None)"
    and "pending w = []"
    and "find (env_at (req_Namespace req) (req_Name req)) (environments w) = Some env"
  shows "Reconcile req w
           = reconcileEnvironment env
               (logCall VGet KEnvironment (req_Namespace req) (req_Name req) None w)"
  using assms
  by (simp add: Reconcile_def isRequestNamespaceBeingDeleted_def k8sGet_Environment_def)

lemma missing_outcome:
  assumes ns: "namespaceCheck w (req_Namespace req) = (False, None)"
    and nf: "pending w = []"
    and env: "find (env_at (req_Namespace req) (req_Name req)) (environments w) = Some env"
    and notboth: "env_ClaimName env = [] \<or> env_UnstableConfigurationFields env = None"
    and gen: "generateDesiredResource env
                (logCall VGet KEnvironment (req_Namespace req) (req_Name req) None w)
              = generateDesiredResource_secret env1 claimName details w1"
    and e1: "env_Namespace env1 = req_Namespace req" "env_Name env1 = req_Name req"
    and w1: "pending w1 = []" "find (env_at (req_Namespace req) (req_Name req)) (environments w1)
               = Some env1"
         "secrets w1 = secrets w" "managedEnvironments w1 = managedEnvironments w"
         "\<exists>t. trace w1 = trace w @ t"
    and miss: "find (sec_at (req_Namespace req) (spec_ClusterCredentialsSecret details))
                 (secrets w) = None"
  shows "missingSecretOutcome req (spec_ClusterCredentialsSecret details) w"
proof -
  obtain desired flag err w' where
    g: "generateDesiredResource_secret env1 claimName details w1 = ((desired, flag, err), w')"
    by (metis prod.exhaust)
  from w1(5) obtain t0 where t0: "trace w1 = trace w @ t0" by blast
  have "case generateDesiredResource_secret env1 claimName details w1 of
           ((desired, flag, err), w') \<Rightarrow>
             desired = None \<and> flag
             \<and> err = Some (Errorf ''the secret '%s' referenced by the Environment resource was not found: %v''
                                 (Some (StatusError NotFound)))
             \<and> find (env_at (env_Namespace env1) (env_Name env1)) (environments w')
                 = Some (raisedEnv (secretNotFoundMessage (spec_ClusterCredentialsSecret details)) env1)
             \<and> find (sec_at (env_Namespace env1) (generateManagedEnvSecretName (env_Name env1)))
                 (secrets w') = None
             \<and> managedEnvironments w' = managedEnvironments w1
             \<and> (\<exists>t out. trace w' = trace w1 @ t @
                   [\<lparr>c_verb = VDelete, c_kind = KSecret, c_namespace = env_Namespace env1,
                     c_name = generateManagedEnvSecretName (env_Name env1), c_outcome = out\<rparr>]
                   \<and> (out = None \<or> out = Some NotFound))"
    by (rule secret_missing) (use w1 e1 miss in simp_all)
  then obtain t out where
    r: "desired = None" "flag"
       "err = Some (Errorf ''the secret '%s' referenced by the Environment resource was not found: %v''
                                 (Some (StatusError NotFound)))"
       "find (env_at (req_Namespace req) (req_Name req)) (environments w')
                 = Some (raisedEnv (secretNotFoundMessage (spec_ClusterCredentialsSecret details)) env1)"
       "find (sec_at (req_Namespace req) (generateManagedEnvSecretName (req_Name req)))
                 (secrets w') = None"
       "managedEnvironments w' = managedEnvironments w"
       "trace w' = trace w @ t0 @ t @
                   [\<lparr>c_verb = VDelete, c_kind = KSecret, c_namespace = req_Namespace req,
                     c_name = generateManagedEnvSecretName (req_Name req), c_outcome = out\<rparr>]"
       "out = None \<or> out = Some NotFound"
    unfolding g using e1 w1 t0 by auto
  have rec: "Reconcile req w =
     ((emptyResult,
       Some (Errorf ''unable to generate expected GitOpsDeploymentManagedEnvironment resource: %v''
               err)), w')"
    using notboth gen g r(1,2,3)
    by (auto simp: Reconcile_found[OF ns nf env] reconcileEnvironment_def)
  show ?thesis
    unfolding missingSecretOutcome_def rec using r
    by (auto simp: newCalls_def generateManagedEnvSecretName_def)
qed


text \<open>
  Claim C6. Let the Environment exist, the namespace not be in deletion and no failure be
  injected. If the secret that the Environment resolves to (the one named by its inline
  credentials, or the one of the target that the lookup resolves for its claim: the exact
  bidirectional match when there is one) is not in the namespace, the generator raises the
  condition with the message of the missing secret, deletes the secret named
  \<^verbatim>\<open>managed-environment-secret-<name>\<close>, a not-found on that delete being ignored, and
  returns an error, which \<^verbatim>\<open>Reconcile\<close> returns to its caller. The other semantic
  errors, a missing claim and a missing target, end with success.
\<close>

theorem Reconcile_missing_secret:
  assumes ns: "namespaceCheck w (req_Namespace req) = (False, None)"
    and nf: "pending w = []"
    and env: "find (env_at (req_Namespace req) (req_Name req)) (environments w) = Some env"
  shows "(\<forall>ucf. env_ClaimName env = [] \<and> env_UnstableConfigurationFields env = Some ucf
             \<and> find (sec_at (req_Namespace req) (ucf_ClusterCredentialsSecret ucf)) (secrets w)
                 = None \<longrightarrow>
            missingSecretOutcome req (ucf_ClusterCredentialsSecret ucf) w)
       \<and> (\<forall>dtc dt. env_ClaimName env \<noteq> [] \<and> env_UnstableConfigurationFields env = None
             \<and> find (dtc_at (req_Namespace req) (env_ClaimName env)) (deploymentTargetClaims w)
                 = Some dtc
             \<and> dtc_Phase dtc = DeploymentTargetClaimPhase_Bound
             \<and> boundTarget dtc w = Some dt
             \<and> find (sec_at (req_Namespace req) (dt_ClusterCredentialsSecret dt)) (secrets w)
                 = None \<longrightarrow>
            missingSecretOutcome req (dt_ClusterCredentialsSecret dt) w)
       \<and> (env_ClaimName env \<noteq> [] \<and> env_UnstableConfigurationFields env = None
             \<and> find (dtc_at (req_Namespace req) (env_ClaimName env)) (deploymentTargetClaims w)
                 = None \<longrightarrow>
            fst (Reconcile req w) = (emptyResult, None))
       \<and> (\<forall>dtc. env_ClaimName env \<noteq> [] \<and> env_UnstableConfigurationFields env = None
             \<and> find (dtc_at (req_Namespace req) (env_ClaimName env)) (deploymentTargetClaims w)
                 = Some dtc
             \<and> dtc_Phase dtc = DeploymentTargetClaimPhase_Bound
             \<and> boundTarget dtc w = None \<longrightarrow>
            fst (Reconcile req w) = (emptyResult, None))"
proof -
  have e: "env_Namespace env = req_Namespace req" "env_Name env = req_Name req"
    using find_Some_P[OF env] by (auto simp: env_at_def)
  define w0 where "w0 = logCall VGet KEnvironment (req_Namespace req) (req_Name req) None w"
  have w0: "pending w0 = []"
    "find (env_at (req_Namespace req) (req_Name req)) (environments w0) = Some env"
    "secrets w0 = secrets w" "managedEnvironments w0 = managedEnvironments w"
    "deploymentTargetClaims w0 = deploymentTargetClaims w"
    "deploymentTargets w0 = deploymentTargets w"
    using nf env by (simp_all add: w0_def)
  have p1: "missingSecretOutcome req (ucf_ClusterCredentialsSecret ucf) w"
    if h: "env_ClaimName env = [] \<and> env_UnstableConfigurationFields env = Some ucf
             \<and> find (sec_at (req_Namespace req) (ucf_ClusterCredentialsSecret ucf)) (secrets w)
                 = None" for ucf
  proof -
    define details where "details =
      \<lparr>spec_APIURL = ucf_APIURL ucf,
       spec_ClusterCredentialsSecret = ucf_ClusterCredentialsSecret ucf,
       spec_AllowInsecureSkipTLSVerify = ucf_AllowInsecureSkipTLSVerify ucf,
       spec_ClusterResources = False, spec_Namespaces = []\<rparr>"
    have gen: "generateDesiredResource env w0
                 = generateDesiredResource_secret env [] details w0"
      using h by (simp add: generateDesiredResource_def details_def)
    have "missingSecretOutcome req (spec_ClusterCredentialsSecret details) w"
      by (rule missing_outcome[OF ns nf env _ gen[unfolded w0_def]])
         (use h e w0 in \<open>simp_all add: w0_def[symmetric] details_def, simp add: w0_def\<close>)
    then show ?thesis by (simp add: details_def)
  qed
  have p2: "missingSecretOutcome req (dt_ClusterCredentialsSecret dt) w"
    if h: "env_ClaimName env \<noteq> [] \<and> env_UnstableConfigurationFields env = None
             \<and> find (dtc_at (req_Namespace req) (env_ClaimName env)) (deploymentTargetClaims w)
                 = Some dtc
             \<and> dtc_Phase dtc = DeploymentTargetClaimPhase_Bound
             \<and> boundTarget dtc w = Some dt
             \<and> find (sec_at (req_Namespace req) (dt_ClusterCredentialsSecret dt)) (secrets w)
                 = None" for dtc dt
  proof -
    define details where "details =
      \<lparr>spec_APIURL = dt_APIURL dt,
       spec_ClusterCredentialsSecret = dt_ClusterCredentialsSecret dt,
       spec_AllowInsecureSkipTLSVerify = dt_AllowInsecureSkipTLSVerify dt,
       spec_ClusterResources = False, spec_Namespaces = []\<rparr>"
    define w1 where "w1 = logCall VList KDeploymentTarget (env_Namespace env) [] None
                (resolvedWorld env
                   (logCall VGet KDeploymentTargetClaim (env_Namespace env) (env_ClaimName env)
                      None w0))"
    have bt: "boundTarget dtc w0 = Some dt"
      using h by (simp add: boundTarget_def w0)
    have gen: "generateDesiredResource env w0
                 = generateDesiredResource_secret (resolvedEnv env) (env_ClaimName env) details w1"
      unfolding details_def w1_def
      by (rule claim_prefix[where dtc=dtc]) (use h e w0 bt in simp_all)
    have sync: "find (env_at (req_Namespace req) (req_Name req)) (environments w1)
                  = Some (resolvedEnv env)"
      using resolvedWorld_synced[of env "logCall VGet KDeploymentTargetClaim (env_Namespace env)
                (env_ClaimName env) None w0"] w0 e
      by (simp add: w1_def)
    have tr: "\<exists>t. trace w1 = trace w @ t"
      by (simp add: w1_def w0_def resolvedWorld_trace)
    have "missingSecretOutcome req (spec_ClusterCredentialsSecret details) w"
      by (rule missing_outcome[OF ns nf env _ gen[unfolded w0_def]])
         (use h e w0 sync tr in \<open>simp_all add: details_def, simp_all add: w1_def\<close>)
    then show ?thesis by (simp add: details_def)
  qed
  have p3: "fst (Reconcile req w) = (emptyResult, None)"
    if h: "env_ClaimName env \<noteq> [] \<and> env_UnstableConfigurationFields env = None
             \<and> find (dtc_at (req_Namespace req) (env_ClaimName env)) (deploymentTargetClaims w)
                 = None"
  proof -
    have "fst (generateDesiredResource env w0) = (None, True, None)"
      by (rule claim_missing) (use h e w0 in simp_all)
    then show ?thesis
      using h by (cases "generateDesiredResource env w0")
        (auto simp: Reconcile_found[OF ns nf env] reconcileEnvironment_def w0_def)
  qed
  have p4: "fst (Reconcile req w) = (emptyResult, None)"
    if h: "env_ClaimName env \<noteq> [] \<and> env_UnstableConfigurationFields env = None
             \<and> find (dtc_at (req_Namespace req) (env_ClaimName env)) (deploymentTargetClaims w)
                 = Some dtc
             \<and> dtc_Phase dtc = DeploymentTargetClaimPhase_Bound
             \<and> boundTarget dtc w = None" for dtc
  proof -
    have bt: "boundTarget dtc w0 = None"
      using h by (simp add: boundTarget_def w0)
    have "fst (generateDesiredResource env w0) = (None, True, None)"
      by (rule target_missing[where dtc=dtc]) (use h e w0 bt in simp_all)
    then show ?thesis
      using h by (cases "generateDesiredResource env w0")
        (auto simp: Reconcile_found[OF ns nf env] reconcileEnvironment_def w0_def)
  qed
  from p1 p2 p3 p4 show ?thesis by blast
qed


theorem Reconcile_missing_secret_witness:
  "find (env_at (req_Namespace stagingRequest) (req_Name stagingRequest))
     (environments (stagingWorld\<lparr>secrets := []\<rparr>)) = Some stagingEnv
   \<and> find (sec_at (req_Namespace stagingRequest) (ucf_ClusterCredentialsSecret stagingConfig))
        (secrets (stagingWorld\<lparr>secrets := []\<rparr>)) = None
   \<and> missingSecretOutcome stagingRequest ''cluster-secret'' (stagingWorld\<lparr>secrets := []\<rparr>)
   \<and> Reconcile stagingRequest (stagingWorld\<lparr>secrets := []\<rparr>)
       = ((emptyResult,
           Some (Errorf ''unable to generate expected GitOpsDeploymentManagedEnvironment resource: %v''
                   (Some (Errorf ''the secret '%s' referenced by the Environment resource was not found: %v''
                            (Some (StatusError NotFound)))))),
          stagingWorld\<lparr>secrets := [],
            environments := [stagingEnv\<lparr>env_Conditions := [errorCondition
              ''the secret cluster-secret referenced by the Environment resource was not found'']\<rparr>],
            trace := [\<lparr>c_verb = VGet, c_kind = KEnvironment, c_namespace = ''team-a'',
                       c_name = ''staging'', c_outcome = None\<rparr>,
                      \<lparr>c_verb = VGet, c_kind = KSecret, c_namespace = ''team-a'',
                       c_name = ''cluster-secret'', c_outcome = Some NotFound\<rparr>,
                      \<lparr>c_verb = VStatusUpdate, c_kind = KEnvironment, c_namespace = ''team-a'',
                       c_name = ''staging'', c_outcome = None\<rparr>,
                      \<lparr>c_verb = VDelete, c_kind = KSecret, c_namespace = ''team-a'',
                       c_name = ''managed-environment-secret-staging'',
                       c_outcome = Some NotFound\<rparr>]\<rparr>)
   \<and> boundTarget prodClaim (decoyWorld [decoySecret, managedCopy ''1'']) = Some prodTarget
   \<and> missingSecretOutcome prodRequest ''target-secret''
        (decoyWorld [decoySecret, managedCopy ''1''])
   \<and> secrets (snd (Reconcile prodRequest (decoyWorld [decoySecret, managedCopy ''1''])))
       = [decoySecret]
   \<and> last (trace (snd (Reconcile prodRequest (decoyWorld [decoySecret, managedCopy ''1'']))))
       = \<lparr>c_verb = VDelete, c_kind = KSecret, c_namespace = ''team-a'',
          c_name = ''managed-environment-secret-prod'', c_outcome = None\<rparr>
   \<and> fst (Reconcile prodRequest ((prodWorld [])\<lparr>deploymentTargetClaims := []\<rparr>))
       = (emptyResult, None)
   \<and> fst (Reconcile prodRequest ((prodWorld [])\<lparr>deploymentTargets := []\<rparr>))
       = (emptyResult, None)"
proof -
  have a: "namespaceCheck (stagingWorld\<lparr>secrets := []\<rparr>) (req_Namespace stagingRequest)
             = (False, None)"
    "pending (stagingWorld\<lparr>secrets := []\<rparr>) = []"
    "find (env_at (req_Namespace stagingRequest) (req_Name stagingRequest))
       (environments (stagingWorld\<lparr>secrets := []\<rparr>)) = Some stagingEnv"
    by (simp_all add: example_defs env_at_def)
  have b: "namespaceCheck (decoyWorld ss) (req_Namespace prodRequest) = (False, None)"
    "pending (decoyWorld ss) = []"
    "find (env_at (req_Namespace prodRequest) (req_Name prodRequest))
       (environments (decoyWorld ss)) = Some prodEnv" for ss
    by (simp_all add: example_defs decoyWorld_def env_at_def)
  have c: "namespaceCheck ((prodWorld [])\<lparr>deploymentTargetClaims := []\<rparr>)
             (req_Namespace prodRequest) = (False, None)"
    "pending ((prodWorld [])\<lparr>deploymentTargetClaims := []\<rparr>) = []"
    "find (env_at (req_Namespace prodRequest) (req_Name prodRequest))
       (environments ((prodWorld [])\<lparr>deploymentTargetClaims := []\<rparr>)) = Some prodEnv"
    by (simp_all add: example_defs env_at_def)
  have d: "namespaceCheck ((prodWorld [])\<lparr>deploymentTargets := []\<rparr>)
             (req_Namespace prodRequest) = (False, None)"
    "pending ((prodWorld [])\<lparr>deploymentTargets := []\<rparr>) = []"
    "find (env_at (req_Namespace prodRequest) (req_Name prodRequest))
       (environments ((prodWorld [])\<lparr>deploymentTargets := []\<rparr>)) = Some prodEnv"
    by (simp_all add: example_defs env_at_def)
  have bt: "boundTarget prodClaim (decoyWorld ss) = Some prodTarget" for ss
    by (simp add: example_defs decoyWorld_def decoyTarget_def boundTarget_def selectTarget_def)
  have m1: "missingSecretOutcome stagingRequest ''cluster-secret'' (stagingWorld\<lparr>secrets := []\<rparr>)"
    using Reconcile_missing_secret[OF a]
    by (simp add: example_defs sec_at_def)
  have m2: "missingSecretOutcome prodRequest ''target-secret''
              (decoyWorld [decoySecret, managedCopy ''1''])"
    using Reconcile_missing_secret[OF b, of "[decoySecret, managedCopy ''1'']",
            THEN conjunct2, THEN conjunct1, rule_format, of prodClaim prodTarget] bt
    by (simp add: example_defs decoyWorld_def decoySecret_def managedCopy_def sec_at_def
        dtc_at_def)
  have m3: "fst (Reconcile prodRequest ((prodWorld [])\<lparr>deploymentTargetClaims := []\<rparr>))
       = (emptyResult, None)"
    using Reconcile_missing_secret[OF c]
    by (simp add: example_defs sec_at_def dtc_at_def boundTarget_def selectTarget_def)
  have m4: "fst (Reconcile prodRequest ((prodWorld [])\<lparr>deploymentTargets := []\<rparr>))
       = (emptyResult, None)"
    using Reconcile_missing_secret[OF d]
    by (simp add: example_defs sec_at_def dtc_at_def boundTarget_def selectTarget_def)
  have ev: "Reconcile stagingRequest (stagingWorld\<lparr>secrets := []\<rparr>)
      = ((emptyResult,
          Some (Errorf ''unable to generate expected GitOpsDeploymentManagedEnvironment resource: %v''
                  (Some (Errorf ''the secret '%s' referenced by the Environment resource was not found: %v''
                           (Some (StatusError NotFound)))))),
         stagingWorld\<lparr>secrets := [],
           environments := [stagingEnv\<lparr>env_Conditions := [errorCondition
             ''the secret cluster-secret referenced by the Environment resource was not found'']\<rparr>],
           trace := [\<lparr>c_verb = VGet, c_kind = KEnvironment, c_namespace = ''team-a'',
                      c_name = ''staging'', c_outcome = None\<rparr>,
                     \<lparr>c_verb = VGet, c_kind = KSecret, c_namespace = ''team-a'',
                      c_name = ''cluster-secret'', c_outcome = Some NotFound\<rparr>,
                     \<lparr>c_verb = VStatusUpdate, c_kind = KEnvironment, c_namespace = ''team-a'',
                      c_name = ''staging'', c_outcome = None\<rparr>,
                     \<lparr>c_verb = VDelete, c_kind = KSecret, c_namespace = ''team-a'',
                      c_name = ''managed-environment-secret-staging'',
                      c_outcome = Some NotFound\<rparr>]\<rparr>)"
    by (simp add: example_defs exec_defs logCall_def nextFault_def)
  have ev2: "secrets (snd (Reconcile prodRequest (decoyWorld [decoySecret, managedCopy ''1''])))
               = [decoySecret]"
    "last (trace (snd (Reconcile prodRequest (decoyWorld [decoySecret, managedCopy ''1'']))))
       = \<lparr>c_verb = VDelete, c_kind = KSecret, c_namespace = ''team-a'',
          c_name = ''managed-environment-secret-prod'', c_outcome = None\<rparr>"
    by (simp_all add: example_defs decoyWorld_def decoyTarget_def decoySecret_def managedCopy_def
        exec_defs logCall_def nextFault_def)
  have a3: "find (sec_at (req_Namespace stagingRequest) (ucf_ClusterCredentialsSecret stagingConfig))
        (secrets (stagingWorld\<lparr>secrets := []\<rparr>)) = None"
    by (simp add: example_defs)
  show ?thesis
    using a(3) a3 m1 ev bt[of "[decoySecret, managedCopy ''1'']"] m2 ev2 m3 m4
    by (intro conjI)
qed


lemma find_sec_update [simp]:
  "sec_at ns n s \<Longrightarrow>
   find (sec_at ns n) (map (\<lambda>x. if sec_at ns n x then s else x) xs)
     = (case find (sec_at ns n) xs of None \<Rightarrow> None | Some _ \<Rightarrow> Some s)"
  by (induction xs) auto

lemma sec_at_data_upd [simp]: "sec_at ns n (x\<lparr>sec_Data := d\<rparr>) = sec_at ns n x"
  by (simp add: sec_at_def)

lemma sec_at_newManaged [simp]:
  "sec_at ns n (newManagedEnvSecret env)
     \<longleftrightarrow> env_Namespace env = ns \<and> generateManagedEnvSecretName (env_Name env) = n"
  by (auto simp: sec_at_def)

lemma secretWrites_simps [simp]:
  "secretWrites [] = []"
  "secretWrites (t @ u) = secretWrites t @ secretWrites u"
  "secretWrites (c # t) = (if c_kind c = KSecret \<and> c_verb c \<noteq> VGet then c # secretWrites t
                           else secretWrites t)"
  by (simp_all add: secretWrites_def)

lemma apply_desired:
  assumes nf1: "pending w1 = []"
    and ex: "find (env_at (env_Namespace env) (env_Name env)) (environments w1) \<noteq> None"
    and gen: "generateDesiredResource env w0 = ((Some desired, False, None), w1)"
    and notboth: "env_ClaimName env = [] \<or> env_UnstableConfigurationFields env = None"
    and key: "me_Namespace desired = env_Namespace env"
             "me_Name desired = ''managed-environment-'' @ env_Name env"
  shows "case reconcileEnvironment env w0 of
           ((res, err), w') \<Rightarrow>
             res = emptyResult \<and> err = None
             \<and> (\<exists>m. find (me_at (env_Namespace env) (''managed-environment-'' @ env_Name env))
                      (managedEnvironments w') = Some m
                    \<and> me_Spec m = me_Spec desired)
             \<and> secrets w' = secrets w1
             \<and> (\<exists>t. trace w' = trace w1 @ t \<and> secretWrites t = [])"
proof (cases "find (me_at (env_Namespace env) (''managed-environment-'' @ env_Name env))
                (managedEnvironments w1)")
  case None
  have d: "me_at (env_Namespace env) (''managed-environment-'' @ env_Name env) desired"
    using key by (simp add: me_at_def)
  show ?thesis
    using assms None d
    by (auto simp: reconcileEnvironment_def k8sGet_ManagedEnvironment_def
        k8sCreate_ManagedEnvironment_def find_append_snoc)
next
  case (Some cur)
  note m = find_Some_P[OF Some]
  then have c: "me_Namespace cur = env_Namespace env"
    "me_Name cur = ''managed-environment-'' @ env_Name env"
    by (simp_all add: me_at_def)
  show ?thesis
    using assms Some c m
    by (auto simp: reconcileEnvironment_def k8sGet_ManagedEnvironment_def
        k8sUpdate_ManagedEnvironment_def resolve_eq resolvedWorld_trace)
qed

lemma secret_mirrored:
  assumes nf: "pending w = []"
    and ex: "find (env_at (env_Namespace env) (env_Name env)) (environments w) \<noteq> None"
    and noucf: "env_UnstableConfigurationFields env = None"
    and src: "find (sec_at (env_Namespace env) (spec_ClusterCredentialsSecret details))
                (secrets w) = Some secret"
    and claim: "claimName \<noteq> []"
    and nonmanaged: "sec_Type secret \<noteq> ManagedEnvironmentSecretType"
  shows "case generateDesiredResource_secret env claimName details w of
           ((desired, flag, err), w') \<Rightarrow>
             (\<exists>m. desired = Some m
                  \<and> me_Namespace m = env_Namespace env
                  \<and> me_Name m = ''managed-environment-'' @ env_Name env
                  \<and> me_Spec m = details\<lparr>spec_ClusterCredentialsSecret :=
                                           generateManagedEnvSecretName (env_Name env)\<rparr>)
             \<and> \<not> flag \<and> err = None \<and> pending w' = []
             \<and> find (env_at (env_Namespace env) (env_Name env)) (environments w') \<noteq> None
             \<and> managedEnvironments w' = managedEnvironments w
             \<and> (\<exists>t. trace w' = trace w @ t
                   \<and> (find (sec_at (env_Namespace env)
                              (generateManagedEnvSecretName (env_Name env))) (secrets w) = None \<longrightarrow>
                           find (sec_at (env_Namespace env)
                                   (generateManagedEnvSecretName (env_Name env))) (secrets w')
                             = Some ((newManagedEnvSecret env)\<lparr>sec_Data := sec_Data secret\<rparr>)
                           \<and> secretWrites t
                               = [\<lparr>c_verb = VCreate, c_kind = KSecret,
                                   c_namespace = env_Namespace env,
                                   c_name = generateManagedEnvSecretName (env_Name env),
                                   c_outcome = None\<rparr>])
                   \<and> (\<forall>old. find (sec_at (env_Namespace env)
                              (generateManagedEnvSecretName (env_Name env))) (secrets w)
                              = Some old \<longrightarrow>
                           find (sec_at (env_Namespace env)
                                   (generateManagedEnvSecretName (env_Name env))) (secrets w')
                             = Some (old\<lparr>sec_Data := sec_Data secret\<rparr>)
                           \<and> secretWrites t
                               = (if sec_Data secret \<noteq> sec_Data old
                                  then [\<lparr>c_verb = VUpdate, c_kind = KSecret,
                                         c_namespace = env_Namespace env,
                                         c_name = generateManagedEnvSecretName (env_Name env),
                                         c_outcome = None\<rparr>]
                                  else [])))"
proof (cases "find (sec_at (env_Namespace env) (generateManagedEnvSecretName (env_Name env)))
                (secrets w)")
  case None
  show ?thesis
    using assms None
    by (simp add: generateDesiredResource_secret_def k8sGet_Secret_def
        reconcileManagedEnvSecret_def k8sCreate_Secret_def resolve_eq Let_def
        find_append_snoc resolvedWorld_trace)
next
  case (Some old)
  note m = find_Some_P[OF Some]
  then have c: "sec_Namespace old = env_Namespace env"
    "sec_Name old = generateManagedEnvSecretName (env_Name env)"
    by (simp_all add: sec_at_def)
  show ?thesis
    using assms Some c m
    by (simp add: generateDesiredResource_secret_def k8sGet_Secret_def
        reconcileManagedEnvSecret_def k8sUpdate_Secret_def resolve_eq Let_def
        resolvedWorld_trace)
qed


text \<open>
  Claim C7. Let the Environment exist and be claim-driven, with its claim bound, the target
  of the claim resolved (the exact bidirectional match when there is one), and the secret
  of the target in the namespace and not of the managed type; let no failure be injected. Then \<^verbatim>\<open>Reconcile\<close> succeeds and the stored
  GitOpsDeploymentManagedEnvironment refers to the secret named
  \<^verbatim>\<open>managed-environment-secret-<name>\<close> instead of the secret of the target. If no secret
  of that name existed, exactly one secret is written, by a create: it has the data of the
  source secret, the label with the name of the Environment, the owner reference to the
  Environment and the managed type. If one existed, it keeps its name, labels, owner
  references and type and has the data of the source secret afterwards; one update is made
  when the data differed and no secret is written when it did not.
\<close>

theorem Reconcile_mirrors_secret:
  assumes ns: "namespaceCheck w (req_Namespace req) = (False, None)"
    and nf: "pending w = []"
    and env: "find (env_at (req_Namespace req) (req_Name req)) (environments w) = Some env"
    and claim: "env_ClaimName env \<noteq> []"
    and ucf: "env_UnstableConfigurationFields env = None"
    and dtc: "find (dtc_at (req_Namespace req) (env_ClaimName env)) (deploymentTargetClaims w)
                = Some dtc"
    and bound: "dtc_Phase dtc = DeploymentTargetClaimPhase_Bound"
    and dt: "boundTarget dtc w = Some dt"
    and src: "find (sec_at (req_Namespace req) (dt_ClusterCredentialsSecret dt)) (secrets w)
                = Some secret"
    and nonmanaged: "sec_Type secret \<noteq> ManagedEnvironmentSecretType"
  shows "case Reconcile req w of
           ((res, err), w') \<Rightarrow>
             res = emptyResult \<and> err = None
             \<and> (\<exists>m. find (me_at (req_Namespace req) (''managed-environment-'' @ req_Name req))
                      (managedEnvironments w') = Some m
                    \<and> me_Spec m =
                        \<lparr>spec_APIURL = dt_APIURL dt,
                         spec_ClusterCredentialsSecret =
                           ''managed-environment-secret-'' @ req_Name req,
                         spec_AllowInsecureSkipTLSVerify = dt_AllowInsecureSkipTLSVerify dt,
                         spec_ClusterResources = False, spec_Namespaces = []\<rparr>)
             \<and> (case find (sec_at (req_Namespace req)
                             (''managed-environment-secret-'' @ req_Name req)) (secrets w) of
                   None \<Rightarrow>
                     (\<exists>ms. find (sec_at (req_Namespace req)
                                   (''managed-environment-secret-'' @ req_Name req)) (secrets w')
                             = Some ms
                          \<and> sec_Name ms = ''managed-environment-secret-'' @ req_Name req
                          \<and> sec_Namespace ms = req_Namespace req
                          \<and> sec_Data ms = sec_Data secret
                          \<and> sec_Labels ms managedEnvironmentSecretLabel = Some (req_Name req)
                          \<and> sec_OwnerReferences ms =
                              [\<lparr>or_APIVersion = env_APIVersion env, or_Kind = env_Kind env,
                                or_Name = req_Name req, or_UID = env_UID env,
                                or_BlockOwnerDeletion = Some True, or_Controller = Some True\<rparr>]
                          \<and> sec_Type ms = ManagedEnvironmentSecretType)
                     \<and> secretWrites (newCalls w w') = [managedSecretCall VCreate req]
                 | Some old \<Rightarrow>
                     find (sec_at (req_Namespace req)
                             (''managed-environment-secret-'' @ req_Name req)) (secrets w')
                       = Some (old\<lparr>sec_Data := sec_Data secret\<rparr>)
                     \<and> secretWrites (newCalls w w')
                         = (if sec_Data secret \<noteq> sec_Data old
                            then [managedSecretCall VUpdate req] else []))"
proof -
  have e: "env_Namespace env = req_Namespace req" "env_Name env = req_Name req"
    using find_Some_P[OF env] by (auto simp: env_at_def)
  define w0 where "w0 = logCall VGet KEnvironment (req_Namespace req) (req_Name req) None w"
  have w0: "pending w0 = []"
    "find (env_at (req_Namespace req) (req_Name req)) (environments w0) = Some env"
    "secrets w0 = secrets w" "managedEnvironments w0 = managedEnvironments w"
    "deploymentTargetClaims w0 = deploymentTargetClaims w"
    "deploymentTargets w0 = deploymentTargets w"
    using nf env by (simp_all add: w0_def)
  define details where "details =
      \<lparr>spec_APIURL = dt_APIURL dt,
       spec_ClusterCredentialsSecret = dt_ClusterCredentialsSecret dt,
       spec_AllowInsecureSkipTLSVerify = dt_AllowInsecureSkipTLSVerify dt,
       spec_ClusterResources = False, spec_Namespaces = []\<rparr>"
  define w1 where "w1 = logCall VList KDeploymentTarget (env_Namespace env) [] None
                (resolvedWorld env
                   (logCall VGet KDeploymentTargetClaim (env_Namespace env) (env_ClaimName env)
                      None w0))"
  have bt: "boundTarget dtc w0 = Some dt"
    using dt by (simp add: boundTarget_def w0)
  have gen: "generateDesiredResource env w0
               = generateDesiredResource_secret (resolvedEnv env) (env_ClaimName env) details w1"
    unfolding details_def w1_def
    by (rule claim_prefix[where dtc=dtc]) (use claim dtc bound e w0 bt in simp_all)
  have w1: "pending w1 = []" "secrets w1 = secrets w"
    "managedEnvironments w1 = managedEnvironments w"
    "find (env_at (req_Namespace req) (req_Name req)) (environments w1) \<noteq> None"
    "\<exists>t. trace w1 = trace w @ t \<and> secretWrites t = []"
    using w0 e resolvedWorld_exists[of env "logCall VGet KDeploymentTargetClaim
            (env_Namespace env) (env_ClaimName env) None w0"]
    by (simp_all add: w1_def resolvedWorld_trace, simp add: w0_def)
  obtain desired flag err w2 where
    g: "generateDesiredResource_secret (resolvedEnv env) (env_ClaimName env) details w1
          = ((desired, flag, err), w2)"
    by (metis prod.exhaust)
  have F: "(\<exists>m. desired = Some m
                  \<and> me_Namespace m = req_Namespace req
                  \<and> me_Name m = ''managed-environment-'' @ req_Name req
                  \<and> me_Spec m = details\<lparr>spec_ClusterCredentialsSecret :=
                                           generateManagedEnvSecretName (req_Name req)\<rparr>)
             \<and> \<not> flag \<and> err = None \<and> pending w2 = []
             \<and> find (env_at (req_Namespace req) (req_Name req)) (environments w2) \<noteq> None
             \<and> managedEnvironments w2 = managedEnvironments w
             \<and> (\<exists>t. trace w2 = trace w1 @ t
                   \<and> (find (sec_at (req_Namespace req)
                              (generateManagedEnvSecretName (req_Name req))) (secrets w) = None \<longrightarrow>
                           find (sec_at (req_Namespace req)
                                   (generateManagedEnvSecretName (req_Name req))) (secrets w2)
                             = Some ((newManagedEnvSecret (resolvedEnv env))
                                       \<lparr>sec_Data := sec_Data secret\<rparr>)
                           \<and> secretWrites t = [managedSecretCall VCreate req])
                   \<and> (\<forall>old. find (sec_at (req_Namespace req)
                              (generateManagedEnvSecretName (req_Name req))) (secrets w)
                              = Some old \<longrightarrow>
                           find (sec_at (req_Namespace req)
                                   (generateManagedEnvSecretName (req_Name req))) (secrets w2)
                             = Some (old\<lparr>sec_Data := sec_Data secret\<rparr>)
                           \<and> secretWrites t
                               = (if sec_Data secret \<noteq> sec_Data old
                                  then [managedSecretCall VUpdate req] else [])))"
    using secret_mirrored[of w1 "resolvedEnv env" details secret "env_ClaimName env",
            unfolded g]
      w1 e ucf src claim nonmanaged
    by (simp add: details_def managedSecretCall_def generateManagedEnvSecretName_def
        cong: if_cong)
  from F obtain m where
    r: "desired = Some m" "me_Namespace m = req_Namespace req"
       "me_Name m = ''managed-environment-'' @ req_Name req"
       "me_Spec m = details\<lparr>spec_ClusterCredentialsSecret :=
                              generateManagedEnvSecretName (req_Name req)\<rparr>"
    by (elim conjE exE)
  from F have r2: "\<not> flag" "err = None" "pending w2 = []"
       "find (env_at (req_Namespace req) (req_Name req)) (environments w2) \<noteq> None"
       "managedEnvironments w2 = managedEnvironments w"
    by simp_all
  from F obtain t where
    tr: "trace w2 = trace w1 @ t"
    and sw1: "find (sec_at (req_Namespace req)
                              (generateManagedEnvSecretName (req_Name req))) (secrets w) = None \<longrightarrow>
                 find (sec_at (req_Namespace req) (generateManagedEnvSecretName (req_Name req)))
                   (secrets w2)
                   = Some ((newManagedEnvSecret (resolvedEnv env))\<lparr>sec_Data := sec_Data secret\<rparr>)
                 \<and> secretWrites t = [managedSecretCall VCreate req]"
    and sw2: "\<forall>old. find (sec_at (req_Namespace req)
                              (generateManagedEnvSecretName (req_Name req))) (secrets w)
                              = Some old \<longrightarrow>
                 find (sec_at (req_Namespace req) (generateManagedEnvSecretName (req_Name req)))
                   (secrets w2)
                   = Some (old\<lparr>sec_Data := sec_Data secret\<rparr>)
                 \<and> secretWrites t
                     = (if sec_Data secret \<noteq> sec_Data old
                        then [managedSecretCall VUpdate req] else [])"
    by (elim conjE exE)
  obtain res err' w' where rr: "reconcileEnvironment env w0 = ((res, err'), w')"
    by (metis prod.exhaust)
  have "case reconcileEnvironment env w0 of
           ((res, err), w') \<Rightarrow>
             res = emptyResult \<and> err = None
             \<and> (\<exists>m'. find (me_at (env_Namespace env) (''managed-environment-'' @ env_Name env))
                      (managedEnvironments w') = Some m'
                    \<and> me_Spec m' = me_Spec m)
             \<and> secrets w' = secrets w2
             \<and> (\<exists>t. trace w' = trace w2 @ t \<and> secretWrites t = [])"
    by (rule apply_desired)
       (use gen g r r2 e ucf in simp_all)
  then obtain t' where
    f: "res = emptyResult" "err' = None"
       "\<exists>m'. find (me_at (req_Namespace req) (''managed-environment-'' @ req_Name req))
                      (managedEnvironments w') = Some m'
                    \<and> me_Spec m' = me_Spec m"
       "secrets w' = secrets w2" "trace w' = trace w2 @ t'" "secretWrites t' = []"
    unfolding rr using e by auto
  from w1(5) obtain t1 where t1: "trace w1 = trace w @ t1" "secretWrites t1 = []" by blast
  have nc: "secretWrites (newCalls w w') = secretWrites t"
    using f(5,6) tr t1 by (simp add: newCalls_def)
  have lab: "sec_Labels (newManagedEnvSecret (resolvedEnv env)) managedEnvironmentSecretLabel
               = Some (req_Name req)"
    "sec_OwnerReferences (newManagedEnvSecret (resolvedEnv env)) =
       [\<lparr>or_APIVersion = env_APIVersion env, or_Kind = env_Kind env,
         or_Name = req_Name req, or_UID = env_UID env,
         or_BlockOwnerDeletion = Some True, or_Controller = Some True\<rparr>]"
    "sec_Type (newManagedEnvSecret (resolvedEnv env)) = ManagedEnvironmentSecretType"
    using e by (simp_all add: newManagedEnvSecret_def)
  show ?thesis
  proof (cases "find (sec_at (req_Namespace req) (generateManagedEnvSecretName (req_Name req)))
                  (secrets w)")
    case None
    then show ?thesis
      unfolding Reconcile_found[OF ns nf env] w0_def[symmetric] rr
      using f(1,2,3,4) r(4) sw1 nc lab e
      by (simp add: details_def generateManagedEnvSecretName_def)
  next
    case (Some old)
    then show ?thesis
      unfolding Reconcile_found[OF ns nf env] w0_def[symmetric] rr
      using f(1,2,3,4) r(4) sw2 nc lab e
      by (simp add: details_def generateManagedEnvSecretName_def)
  qed
qed


lemma singleton_map_eq [simp]: "(Map.empty(k \<mapsto> v) = Map.empty(k \<mapsto> v')) = (v = v')"
  by (auto dest: map_upd_eqD1)

theorem Reconcile_mirrors_secret_witness:
  "boundTarget prodClaim (decoyWorld [targetSecret ''1'', decoySecret]) = Some prodTarget
   \<and> sec_Type (targetSecret ''1'') \<noteq> ManagedEnvironmentSecretType
   \<and> fst (Reconcile prodRequest (decoyWorld [targetSecret ''1'', decoySecret])) = (emptyResult, None)
   \<and> secrets (snd (Reconcile prodRequest (decoyWorld [targetSecret ''1'', decoySecret])))
       = [targetSecret ''1'', decoySecret, managedCopy ''1'']
   \<and> managedEnvironments (snd (Reconcile prodRequest (decoyWorld [targetSecret ''1'', decoySecret])))
       = [prodManagedEnv]
   \<and> secretWrites (trace (snd (Reconcile prodRequest (decoyWorld [targetSecret ''1'', decoySecret]))))
       = [\<lparr>c_verb = VCreate, c_kind = KSecret, c_namespace = ''team-a'',
           c_name = ''managed-environment-secret-prod'', c_outcome = None\<rparr>]
   \<and> fst (Reconcile prodRequest
            ((decoyWorld [targetSecret ''2'', decoySecret, managedCopy ''1''])
               \<lparr>managedEnvironments := [prodManagedEnv]\<rparr>)) = (emptyResult, None)
   \<and> secrets (snd (Reconcile prodRequest
            ((decoyWorld [targetSecret ''2'', decoySecret, managedCopy ''1''])
               \<lparr>managedEnvironments := [prodManagedEnv]\<rparr>)))
       = [targetSecret ''2'', decoySecret, managedCopy ''2'']
   \<and> managedEnvironments (snd (Reconcile prodRequest
            ((decoyWorld [targetSecret ''2'', decoySecret, managedCopy ''1''])
               \<lparr>managedEnvironments := [prodManagedEnv]\<rparr>)))
       = [prodManagedEnv]
   \<and> secretWrites (trace (snd (Reconcile prodRequest
            ((decoyWorld [targetSecret ''2'', decoySecret, managedCopy ''1''])
               \<lparr>managedEnvironments := [prodManagedEnv]\<rparr>))))
       = [\<lparr>c_verb = VUpdate, c_kind = KSecret, c_namespace = ''team-a'',
           c_name = ''managed-environment-secret-prod'', c_outcome = None\<rparr>]"
proof -
  define wa where "wa = decoyWorld [targetSecret ''1'', decoySecret]"
  define wb where "wb = (decoyWorld [targetSecret ''2'', decoySecret, managedCopy ''1''])
               \<lparr>managedEnvironments := [prodManagedEnv]\<rparr>"
  have a: "namespaceCheck wa (req_Namespace prodRequest) = (False, None)"
    "pending wa = []"
    "find (env_at (req_Namespace prodRequest) (req_Name prodRequest)) (environments wa)
       = Some prodEnv"
    "env_ClaimName prodEnv \<noteq> []"
    "env_UnstableConfigurationFields prodEnv = None"
    "find (dtc_at (req_Namespace prodRequest) (env_ClaimName prodEnv))
       (deploymentTargetClaims wa) = Some prodClaim"
    "dtc_Phase prodClaim = DeploymentTargetClaimPhase_Bound"
    "boundTarget prodClaim wa = Some prodTarget"
    "find (sec_at (req_Namespace prodRequest) (dt_ClusterCredentialsSecret prodTarget))
       (secrets wa) = Some (targetSecret ''1'')"
    "sec_Type (targetSecret ''1'') \<noteq> ManagedEnvironmentSecretType"
    by (simp_all add: wa_def example_defs decoyWorld_def decoyTarget_def decoySecret_def managedCopy_def prodManagedEnv_def env_at_def dtc_at_def sec_at_def boundTarget_def selectTarget_def)
  have b: "namespaceCheck wb (req_Namespace prodRequest) = (False, None)"
    "pending wb = []"
    "find (env_at (req_Namespace prodRequest) (req_Name prodRequest)) (environments wb)
       = Some prodEnv"
    "env_ClaimName prodEnv \<noteq> []"
    "env_UnstableConfigurationFields prodEnv = None"
    "find (dtc_at (req_Namespace prodRequest) (env_ClaimName prodEnv))
       (deploymentTargetClaims wb) = Some prodClaim"
    "dtc_Phase prodClaim = DeploymentTargetClaimPhase_Bound"
    "boundTarget prodClaim wb = Some prodTarget"
    "find (sec_at (req_Namespace prodRequest) (dt_ClusterCredentialsSecret prodTarget))
       (secrets wb) = Some (targetSecret ''2'')"
    "sec_Type (targetSecret ''2'') \<noteq> ManagedEnvironmentSecretType"
    by (simp_all add: wb_def example_defs decoyWorld_def decoyTarget_def decoySecret_def managedCopy_def prodManagedEnv_def env_at_def dtc_at_def sec_at_def boundTarget_def selectTarget_def)
  have ta: "trace wa = []" and tb: "trace wb = []"
    by (simp_all add: wa_def wb_def example_defs decoyWorld_def decoyTarget_def decoySecret_def managedCopy_def prodManagedEnv_def)
  have ea: "fst (Reconcile prodRequest wa) = (emptyResult, None)"
    "secrets (snd (Reconcile prodRequest wa)) = [targetSecret ''1'', decoySecret, managedCopy ''1'']"
    "managedEnvironments (snd (Reconcile prodRequest wa)) = [prodManagedEnv]"
    by (simp_all add: wa_def example_defs decoyWorld_def decoyTarget_def decoySecret_def managedCopy_def prodManagedEnv_def exec_defs logCall_def nextFault_def
        managedEnvironmentSecretLabel_def managedgitops_GroupVersion_def)
  have eb: "fst (Reconcile prodRequest wb) = (emptyResult, None)"
    "secrets (snd (Reconcile prodRequest wb)) = [targetSecret ''2'', decoySecret, managedCopy ''2'']"
    "managedEnvironments (snd (Reconcile prodRequest wb)) = [prodManagedEnv]"
    by (simp_all add: wb_def example_defs decoyWorld_def decoyTarget_def decoySecret_def managedCopy_def prodManagedEnv_def exec_defs logCall_def nextFault_def
        managedEnvironmentSecretLabel_def managedgitops_GroupVersion_def)
  have sa: "secretWrites (trace (snd (Reconcile prodRequest wa)))
              = [\<lparr>c_verb = VCreate, c_kind = KSecret, c_namespace = ''team-a'',
           c_name = ''managed-environment-secret-prod'', c_outcome = None\<rparr>]"
    using Reconcile_mirrors_secret[OF a] ta
    by (cases "Reconcile prodRequest wa")
       (auto simp: newCalls_def wa_def example_defs decoyWorld_def decoyTarget_def decoySecret_def managedCopy_def prodManagedEnv_def sec_at_def managedSecretCall_def
          split: option.splits)
  have sb: "secretWrites (trace (snd (Reconcile prodRequest wb)))
              = [\<lparr>c_verb = VUpdate, c_kind = KSecret, c_namespace = ''team-a'',
           c_name = ''managed-environment-secret-prod'', c_outcome = None\<rparr>]"
    using Reconcile_mirrors_secret[OF b] tb
    by (cases "Reconcile prodRequest wb")
       (auto simp: newCalls_def wb_def example_defs decoyWorld_def decoyTarget_def decoySecret_def managedCopy_def prodManagedEnv_def sec_at_def managedSecretCall_def
          split: option.splits)
  show ?thesis
    using a(8,10) ea eb sa sb by (simp add: wa_def wb_def)
qed

lemma hard_simps [simp]:
  "hardFailure \<lparr>c_verb = v, c_kind = k, c_namespace = ns, c_name = n, c_outcome = out\<rparr>
     \<longleftrightarrow> (\<exists>r. out = Some r \<and> r \<noteq> NotFound)"
  by (auto simp: hardFailure_def split: option.splits)

lemma IsNotFound_StatusError [simp]: "IsNotFound (StatusError r) \<longleftrightarrow> r = NotFound"
  by (cases r) simp_all

lemma IsNotFound_Errorf [simp]: "\<not> IsNotFound (Errorf m e)"
  by simp

lemma tr_get_env:
  "k8sGet_Environment ns n w = (r, w') \<Longrightarrow>
   \<exists>c. trace w' = trace w @ [c] \<and> (hardFailure c \<longleftrightarrow> (\<exists>e. r = Inl e \<and> \<not> IsNotFound e))"
  by (auto simp: k8sGet_Environment_def split: option.splits)

lemma tr_get_dtc:
  "k8sGet_DeploymentTargetClaim ns n w = (r, w') \<Longrightarrow>
   \<exists>c. trace w' = trace w @ [c] \<and> (hardFailure c \<longleftrightarrow> (\<exists>e. r = Inl e \<and> \<not> IsNotFound e))"
  by (auto simp: k8sGet_DeploymentTargetClaim_def split: option.splits)

lemma tr_get_sec:
  "k8sGet_Secret ns n w = (r, w') \<Longrightarrow>
   \<exists>c. trace w' = trace w @ [c] \<and> (hardFailure c \<longleftrightarrow> (\<exists>e. r = Inl e \<and> \<not> IsNotFound e))"
  by (auto simp: k8sGet_Secret_def split: option.splits)

lemma tr_get_me:
  "k8sGet_ManagedEnvironment ns n w = (r, w') \<Longrightarrow>
   \<exists>c. trace w' = trace w @ [c] \<and> (hardFailure c \<longleftrightarrow> (\<exists>e. r = Inl e \<and> \<not> IsNotFound e))"
  by (auto simp: k8sGet_ManagedEnvironment_def split: option.splits)

lemma tr_list_dt:
  "k8sList_DeploymentTarget ns w = (r, w') \<Longrightarrow>
   \<exists>c. trace w' = trace w @ [c] \<and> (hardFailure c \<longleftrightarrow> (\<exists>e. r = Inl e \<and> \<not> IsNotFound e))"
  by (auto simp: k8sList_DeploymentTarget_def split: option.splits)

lemma tr_create_sec:
  "k8sCreate_Secret s w = (r, w') \<Longrightarrow>
   \<exists>c. trace w' = trace w @ [c] \<and> (hardFailure c \<longrightarrow> r \<noteq> None)"
  by (auto simp: k8sCreate_Secret_def split: option.splits if_splits)

lemma tr_update_sec:
  "k8sUpdate_Secret s w = (r, w') \<Longrightarrow>
   \<exists>c. trace w' = trace w @ [c] \<and> (hardFailure c \<longrightarrow> r \<noteq> None)"
  by (auto simp: k8sUpdate_Secret_def split: option.splits if_splits)

lemma tr_delete_sec:
  "k8sDelete_Secret s w = (r, w') \<Longrightarrow>
   \<exists>c. trace w' = trace w @ [c] \<and> (hardFailure c \<longleftrightarrow> (\<exists>e. r = Some e \<and> \<not> IsNotFound e))"
  by (auto simp: k8sDelete_Secret_def split: option.splits if_splits)

lemma tr_create_me:
  "k8sCreate_ManagedEnvironment s w = (r, w') \<Longrightarrow>
   \<exists>c. trace w' = trace w @ [c] \<and> (hardFailure c \<longrightarrow> r \<noteq> None)"
  by (auto simp: k8sCreate_ManagedEnvironment_def split: option.splits if_splits)

lemma tr_update_me:
  "k8sUpdate_ManagedEnvironment s w = (r, w') \<Longrightarrow>
   \<exists>c. trace w' = trace w @ [c] \<and> (hardFailure c \<longrightarrow> r \<noteq> None)"
  by (auto simp: k8sUpdate_ManagedEnvironment_def split: option.splits if_splits)

lemma tr_delete_me:
  "k8sDelete_ManagedEnvironment s w = (r, w') \<Longrightarrow>
   \<exists>c. trace w' = trace w @ [c] \<and> (hardFailure c \<longleftrightarrow> (\<exists>e. r = Some e \<and> \<not> IsNotFound e))"
  by (auto simp: k8sDelete_ManagedEnvironment_def split: option.splits if_splits)

lemma tr_status:
  "k8sStatusUpdate_Environment e w = (r, w') \<Longrightarrow>
   \<exists>c. trace w' = trace w @ [c] \<and> (hardFailure c \<longrightarrow> r \<noteq> None)"
  by (auto simp: k8sStatusUpdate_Environment_def split: option.splits if_splits)

lemma tr_raise:
  "updateStatusConditionOfEnvironment m env ct st r w = ((err, env'), w') \<Longrightarrow>
   \<exists>t. trace w' = trace w @ t \<and> (list_ex hardFailure t \<longrightarrow> err \<noteq> None)"
  by (auto simp: updateStatusConditionOfEnvironment_def Let_def
      split: prod.splits option.splits if_splits dest!: tr_status)

lemma tr_resolve:
  "updateConditionErrorAsResolved m env ct st r w = ((err, env'), w') \<Longrightarrow>
   \<exists>t. trace w' = trace w @ t \<and> (list_ex hardFailure t \<longrightarrow> err \<noteq> None)"
  by (auto simp: updateConditionErrorAsResolved_def Let_def
      split: prod.splits option.splits if_splits dest!: tr_raise)

lemma tr_raiseAndReturn:
  "raiseAndReturn m env ret w = ((d, flag, err), w') \<Longrightarrow>
   \<exists>t. trace w' = trace w @ t \<and> (list_ex hardFailure t \<longrightarrow> err \<noteq> None)
       \<and> (ret \<noteq> None \<longrightarrow> err \<noteq> None)"
  by (auto simp: raiseAndReturn_def
      split: prod.splits option.splits if_splits dest!: tr_raise)

lemma tr_getDT:
  "getDTBoundByDTC dtc w = ((dt, err), w') \<Longrightarrow>
   \<exists>t. trace w' = trace w @ t
       \<and> (list_ex hardFailure t \<longleftrightarrow> (\<exists>e. err = Some e \<and> \<not> IsNotFound e))"
  by (auto simp: getDTBoundByDTC_def
      split: prod.splits sum.splits option.splits if_splits dest!: tr_list_dt)

lemma tr_mirror:
  "reconcileManagedEnvSecret env claimName secret details w = ((err, details'), w') \<Longrightarrow>
   \<exists>t. trace w' = trace w @ t \<and> (list_ex hardFailure t \<longrightarrow> err \<noteq> None)"
  by (auto simp: reconcileManagedEnvSecret_def Let_def
      split: prod.splits sum.splits option.splits if_splits
      dest!: tr_get_sec tr_create_sec tr_update_sec)


lemma tr_secret:
  "generateDesiredResource_secret env claimName details w = ((d, flag, err), w') \<Longrightarrow>
   \<exists>t. trace w' = trace w @ t \<and> (list_ex hardFailure t \<longrightarrow> err \<noteq> None)"
  by (auto simp: generateDesiredResource_secret_def Let_def
      split: prod.splits sum.splits option.splits if_splits
      dest!: tr_get_sec tr_delete_sec tr_raise tr_resolve tr_mirror)

lemma tr_generate:
  "generateDesiredResource env w = ((d, flag, err), w') \<Longrightarrow>
   \<exists>t. trace w' = trace w @ t \<and> (list_ex hardFailure t \<longrightarrow> err \<noteq> None)"
  by (auto simp: generateDesiredResource_def Let_def
      split: prod.splits sum.splits option.splits if_splits
      dest!: tr_get_dtc tr_raiseAndReturn tr_resolve tr_getDT tr_secret)

lemma tr_reconcileEnvironment:
  assumes "reconcileEnvironment env w = ((res, err), w')"
  shows "\<exists>t. trace w' = trace w @ t \<and> (list_ex hardFailure t \<longrightarrow> err \<noteq> None)"
proof (cases "env_ClaimName env \<noteq> [] \<and> env_UnstableConfigurationFields env \<noteq> None")
  case True
  then show ?thesis
    using assms
    by (auto simp: reconcileEnvironment_def split: prod.splits option.splits dest!: tr_raise)
next
  case False
  obtain d flag gerr w1 where g: "generateDesiredResource env w = ((d, flag, gerr), w1)"
    by (metis prod.exhaust)
  from tr_generate[OF g] obtain t1 where
    t1: "trace w1 = trace w @ t1" "list_ex hardFailure t1 \<longrightarrow> gerr \<noteq> None"
    by blast
  show ?thesis
  proof (cases gerr)
    case (Some e)
    then show ?thesis using assms False g t1
      by (cases d; cases flag) (auto simp: reconcileEnvironment_def)
  next
    case None
    note gn = None
    show ?thesis
    proof (cases flag)
      case True
      then show ?thesis using assms False g t1 gn
        by (cases d) (auto simp: reconcileEnvironment_def)
    next
      case nf: False
      show ?thesis
      proof (cases d)
        case None
        then show ?thesis
          using assms False g t1 gn nf
          by (auto simp: reconcileEnvironment_def split: prod.splits option.splits
              dest!: tr_resolve)
      next
        case (Some desired)
        define ns where "ns = me_Namespace (generateEmptyManagedEnvironment (env_Name env)
                                              (env_Namespace env))"
        define n where "n = me_Name (generateEmptyManagedEnvironment (env_Name env)
                                       (env_Namespace env))"
        obtain r2 w2 where gm: "k8sGet_ManagedEnvironment ns n w1 = (r2, w2)"
          by (metis prod.exhaust)
        from tr_get_me[OF gm] obtain c2 where
          c2: "trace w2 = trace w1 @ [c2]"
              "hardFailure c2 \<longleftrightarrow> (\<exists>e. r2 = Inl e \<and> \<not> IsNotFound e)"
          by blast
        have unf: "reconcileEnvironment env w =
            (case (r2, w2) of
               (Inl err, w2) \<Rightarrow>
                 if IsNotFound err then
                   (case k8sCreate_ManagedEnvironment desired w2 of
                      (Some err', w3) \<Rightarrow>
                        ((emptyResult,
                          Some (Errorf ''unable to create new GitOpsDeploymentManagedEnvironment: %v''
                                  (Some err'))), w3)
                    | (None, w3) \<Rightarrow> ((emptyResult, None), w3))
                 else
                   ((emptyResult,
                     Some (Errorf ''unable to retrieve existing GitOpsDeploymentManagedEnvironment '%s': %v''
                             (Some err))), w2)
             | (Inr current, w2) \<Rightarrow>
                 (case updateConditionErrorAsResolved [] env
                         EnvironmentConditionErrorOccurred ConditionFalse
                         EnvironmentReasonErrorOccurred w2 of
                    ((Some err, environment'), w3) \<Rightarrow> ((emptyResult, Some err), w3)
                  | ((None, environment'), w3) \<Rightarrow>
                      if me_Spec current = me_Spec desired then ((emptyResult, None), w3)
                      else
                        (case k8sUpdate_ManagedEnvironment
                                (current\<lparr>me_Spec := me_Spec desired\<rparr>) w3 of
                           (Some err', w4) \<Rightarrow>
                             ((emptyResult,
                               Some (Errorf ''unable to update existing GitOpsDeploymentManagedEnvironment '%s': %v''
                                       (Some err'))), w4)
                         | (None, w4) \<Rightarrow> ((emptyResult, None), w4))))"
          using False g gn nf Some gm
          by (cases "env_ClaimName env = []")
             (simp_all add: reconcileEnvironment_def Let_def ns_def n_def)
        show ?thesis
        proof (cases r2)
          case (Inl e2)
          show ?thesis
          proof (cases "IsNotFound e2")
            case True
            obtain r3 w3 where cm: "k8sCreate_ManagedEnvironment desired w2 = (r3, w3)"
              by (metis prod.exhaust)
            from tr_create_me[OF cm] obtain c3 where
              "trace w3 = trace w2 @ [c3]" "hardFailure c3 \<longrightarrow> r3 \<noteq> None"
              by blast
            then show ?thesis
              using assms unf Inl True cm c2 t1 gn
              by (cases r3) auto
          next
            case False
            then show ?thesis
              using assms unf Inl c2 t1 gn by auto
          qed
        next
          case (Inr current)
          obtain e3 env3 w3 where rs: "updateConditionErrorAsResolved [] env
                         EnvironmentConditionErrorOccurred ConditionFalse
                         EnvironmentReasonErrorOccurred w2 = ((e3, env3), w3)"
            by (metis prod.exhaust)
          from tr_resolve[OF rs] obtain t3 where
            t3: "trace w3 = trace w2 @ t3" "list_ex hardFailure t3 \<longrightarrow> e3 \<noteq> None"
            by blast
          show ?thesis
          proof (cases e3)
            case (Some e)
            then show ?thesis
              using assms unf Inr rs c2 t1 t3 gn by auto
          next
            case None
            note e3n = None
            show ?thesis
            proof (cases "me_Spec current = me_Spec desired")
              case True
              then show ?thesis
                using assms unf Inr rs c2 t1 t3 gn e3n by auto
            next
              case False
              obtain r4 w4 where um: "k8sUpdate_ManagedEnvironment
                                (current\<lparr>me_Spec := me_Spec desired\<rparr>) w3 = (r4, w4)"
                by (metis prod.exhaust)
              from tr_update_me[OF um] obtain c4 where
                "trace w4 = trace w3 @ [c4]" "hardFailure c4 \<longrightarrow> r4 \<noteq> None"
                by blast
              then show ?thesis
                using assms unf Inr rs c2 t1 t3 gn e3n False um
                by (cases r4) auto
            qed
          qed
        qed
      qed
    qed
  qed
qed

lemma tr_Reconcile:
  "Reconcile req w = ((res, err), w') \<Longrightarrow>
   \<exists>t. trace w' = trace w @ t \<and> (list_ex hardFailure t \<longrightarrow> err \<noteq> None)"
  by (auto simp: Reconcile_def Let_def isRequestNamespaceBeingDeleted_def
      split: prod.splits sum.splits option.splits if_splits
      dest!: tr_get_env tr_get_me tr_delete_me tr_reconcileEnvironment)

lemma statusOnly_simps [simp]:
  "statusOnly []"
  "statusOnly (t @ u) \<longleftrightarrow> statusOnly t \<and> statusOnly u"
  "statusOnly (c # t) \<longleftrightarrow> c_verb c = VStatusUpdate \<and> c_kind c = KEnvironment \<and> statusOnly t"
  by (auto simp: statusOnly_def)

lemma statusOnly_facts [simp]:
  assumes "statusOnly t"
  shows "secretCalls t = []" "\<not> list_ex quietCall t" "\<not> list_ex claimFetchFailure t"
    "\<not> list_ex targetLookupFailure t"
  using assms
  by (induction t)
     (auto simp: secretCalls_def quietCall_def claimFetchFailure_def targetLookupFailure_def)

lemma mirrorOnly_simps [simp]:
  "mirrorOnly []"
  "mirrorOnly (t @ u) \<longleftrightarrow> mirrorOnly t \<and> mirrorOnly u"
  "mirrorOnly (c # t) \<longleftrightarrow>
     c_kind c = KSecret \<and> (c_verb c = VGet \<or> c_verb c = VCreate \<or> c_verb c = VUpdate)
     \<and> mirrorOnly t"
  by (auto simp: mirrorOnly_def)

lemma mirrorOnly_facts [simp]:
  assumes "mirrorOnly t"
  shows "secretCalls t = t" "\<not> list_ex quietCall t" "\<not> list_ex claimFetchFailure t"
    "\<not> list_ex targetLookupFailure t" "\<not> list_ex failedStatusWrite t"
  using assms
  by (induction t)
     (auto simp: secretCalls_def quietCall_def claimFetchFailure_def targetLookupFailure_def
        failedStatusWrite_def)

lemma secretCalls_simps [simp]:
  "secretCalls [] = []"
  "secretCalls (t @ u) = secretCalls t @ secretCalls u"
  "secretCalls (c # t) = (if c_kind c = KSecret then c # secretCalls t else secretCalls t)"
  by (simp_all add: secretCalls_def)

lemma cd_status:
  "k8sStatusUpdate_Environment e w = (r, w') \<Longrightarrow>
   \<exists>c. trace w' = trace w @ [c] \<and> c_verb c = VStatusUpdate \<and> c_kind c = KEnvironment
       \<and> (r = None \<longleftrightarrow> c_outcome c = None)
       \<and> environments w'
           = (if r = None then environments (statusStored e w) else environments w)"
  by (auto simp: k8sStatusUpdate_Environment_def statusStored_def
      split: option.splits if_splits)

lemma cd_update:
  assumes "updateStatusConditionOfEnvironment m env ct st rs w = ((err, env'), w')"
  shows "\<exists>t. trace w' = trace w @ t \<and> statusOnly t
           \<and> (err = None \<longleftrightarrow> \<not> list_ex failedStatusWrite t)
           \<and> env' = env\<lparr>env_Conditions :=
                        snd (insertOrUpdateConditionsInSlice
                               \<lparr>cond_Type = ct, cond_Status = st, cond_Reason = rs,
                                cond_Message = m\<rparr> (env_Conditions env))\<rparr>
           \<and> environments w'
               = (if err = None
                     \<and> fst (insertOrUpdateConditionsInSlice
                               \<lparr>cond_Type = ct, cond_Status = st, cond_Reason = rs,
                                cond_Message = m\<rparr> (env_Conditions env))
                  then environments (statusStored env' w) else environments w)"
proof (cases "insertOrUpdateConditionsInSlice
                \<lparr>cond_Type = ct, cond_Status = st, cond_Reason = rs, cond_Message = m\<rparr>
                (env_Conditions env)")
  case (Pair changed cs)
  show ?thesis
  proof (cases changed)
    case False
    then have "cs = env_Conditions env"
      using insertOrUpdate_unchanged[of "\<lparr>cond_Type = ct, cond_Status = st, cond_Reason = rs,
              cond_Message = m\<rparr>" "env_Conditions env"] Pair by simp
    then show ?thesis
      using assms Pair False
      by (auto simp: updateStatusConditionOfEnvironment_def Let_def)
  next
    case True
    obtain r w1 where s: "k8sStatusUpdate_Environment (env\<lparr>env_Conditions := cs\<rparr>) w = (r, w1)"
      by (metis prod.exhaust)
    from cd_status[OF s] obtain c where
      c: "trace w1 = trace w @ [c]" "c_verb c = VStatusUpdate" "c_kind c = KEnvironment"
         "r = None \<longleftrightarrow> c_outcome c = None"
         "environments w1
           = (if r = None then environments (statusStored (env\<lparr>env_Conditions := cs\<rparr>) w)
              else environments w)"
      by (elim exE conjE)
    show ?thesis
      using assms Pair True s c
      by (cases r) (auto simp: updateStatusConditionOfEnvironment_def Let_def failedStatusWrite_def)
  qed
qed

lemma statusStored_twice:
  "environments w1 = environments (statusStored e w) \<Longrightarrow>
   environments (statusStored e w1) = environments (statusStored e w)"
  by (simp add: statusStored_def)

lemma statusStored_cong:
  "environments w1 = environments w \<Longrightarrow>
   environments (statusStored e w1) = environments (statusStored e w)"
  by (simp add: statusStored_def)

lemma unraised_refl [simp]: "unraised env w w"
  by (simp add: unraised_def)

lemma unraised_same: "environments w' = environments w \<Longrightarrow> unraised env w w'"
  by (simp add: unraised_def)

lemma unraised_step:
  assumes "unraised env w w1"
    and "environments w2 = environments w1
         \<or> needsResolve env \<and> environments w2 = environments (statusStored (resolvedEnv env) w1)"
  shows "unraised env w w2"
proof -
  from assms(1) consider "environments w1 = environments w"
    | "needsResolve env" "environments w1 = environments (statusStored (resolvedEnv env) w)"
    unfolding unraised_def by blast
  then show ?thesis
  proof cases
    case 1
    from assms(2) show ?thesis
      unfolding unraised_def using 1 statusStored_cong[OF 1, of "resolvedEnv env"] by auto
  next
    case 2
    from assms(2) show ?thesis
      unfolding unraised_def using 2 statusStored_twice[OF 2(2)] by auto
  qed
qed

lemma unraised_resolved:
  "unraised (resolvedEnv env) w w' \<longleftrightarrow> environments w' = environments w"
  by (simp add: unraised_def)

lemma cd_resolve:
  assumes "updateConditionErrorAsResolved m env ct st EnvironmentReasonErrorOccurred w
             = ((err, env'), w')"
  shows "\<exists>t. trace w' = trace w @ t \<and> statusOnly t
           \<and> (err = None \<longleftrightarrow> \<not> list_ex failedStatusWrite t)
           \<and> (err = None \<longrightarrow> env' = resolvedEnv env)
           \<and> environments w'
               = (if err = None \<and> needsResolve env
                  then environments (statusStored (resolvedEnv env) w) else environments w)"
proof (cases "needsResolve env")
  case False
  then show ?thesis
    using assms
    by (auto simp: updateConditionErrorAsResolved_def needsResolve_def resolvedEnv_def Let_def
        split: option.splits)
next
  case True
  then obtain c where c: "findCondition (env_Conditions env) EnvironmentConditionErrorOccurred
                            = Some c"
    "cond_Reason c \<noteq> EnvironmentReasonErrorOccurred @ ''Resolved''"
    by (auto simp: needsResolve_def split: option.splits)
  define n where "n = \<lparr>cond_Type = EnvironmentConditionErrorOccurred,
       cond_Status = ConditionFalse,
       cond_Reason = EnvironmentReasonErrorOccurred @ ''Resolved'', cond_Message = []\<rparr>"
  have ch: "fst (insertOrUpdateConditionsInSlice n (env_Conditions env))"
    using insertOrUpdate_find_differs[of "env_Conditions env" n c] c by (simp add: n_def)
  obtain e1 env1 w1 where u: "updateStatusConditionOfEnvironment [] env
       EnvironmentConditionErrorOccurred ConditionFalse
       (EnvironmentReasonErrorOccurred @ ''Resolved'') w = ((e1, env1), w1)"
    by (metis prod.exhaust)
  from cd_update[OF u] obtain t where
    t: "trace w1 = trace w @ t" "statusOnly t" "e1 = None \<longleftrightarrow> \<not> list_ex failedStatusWrite t"
       "env1 = env\<lparr>env_Conditions := snd (insertOrUpdateConditionsInSlice n (env_Conditions env))\<rparr>"
       "environments w1
          = (if e1 = None \<and> fst (insertOrUpdateConditionsInSlice n (env_Conditions env))
             then environments (statusStored env1 w) else environments w)"
    unfolding n_def by (elim exE conjE)
  have r: "env1 = resolvedEnv env"
    using t(4) True by (simp add: resolvedEnv_def resolvedConditions_def n_def)
  show ?thesis
    using assms c u t(1,2,3,5) ch r True
    by (cases e1) (auto simp: updateConditionErrorAsResolved_def Let_def)
qed

lemma synced_resolve:
  assumes "synced env w"
    and "environments w'
           = (if needsResolve env
              then environments (statusStored (resolvedEnv env) w) else environments w)"
  shows "synced (resolvedEnv env) w'"
  using assms
  by (auto simp: synced_def resolvedEnv_def split: option.splits)

lemma synced_same:
  "synced env w \<Longrightarrow> environments w' = environments w \<Longrightarrow> synced env w'"
  by (simp add: synced_def)

lemma cd_raise:
  assumes "updateStatusConditionOfEnvironment m env EnvironmentConditionErrorOccurred
             ConditionTrue EnvironmentReasonErrorOccurred w = ((err, env'), w')"
    and "env_Namespace env = req_Namespace req" "env_Name env = req_Name req"
  shows "\<exists>t. trace w' = trace w @ t \<and> statusOnly t
           \<and> (err = None \<longleftrightarrow> \<not> list_ex failedStatusWrite t)
           \<and> (synced env w \<and> \<not> list_ex failedStatusWrite t \<longrightarrow> conditionRecorded m req w')"
proof -
  from cd_update[OF assms(1)] obtain t where
    t: "trace w' = trace w @ t" "statusOnly t" "err = None \<longleftrightarrow> \<not> list_ex failedStatusWrite t"
       "env' = env\<lparr>env_Conditions := raisedConditions m (env_Conditions env)\<rparr>"
       "environments w'
          = (if err = None \<and> needsRaise m env
             then environments (statusStored env' w) else environments w)"
    unfolding raisedConditions_def needsRaise_def errorCondition_def by (elim exE conjE)
  have "conditionRecorded m req w'" if s: "synced env w" and f: "\<not> list_ex failedStatusWrite t"
  proof (cases "needsRaise m env")
    case True
    then show ?thesis
      using s f t(3,4,5) assms(2,3)
      by (auto simp: conditionRecorded_def synced_def split: option.splits)
  next
    case False
    then have "raisedConditions m (env_Conditions env) = env_Conditions env"
      by (simp add: needsRaise_def raisedConditions_def insertOrUpdate_unchanged)
    then have "findCondition (env_Conditions env) EnvironmentConditionErrorOccurred
                 = Some (errorCondition m)"
      using raisedConditions_find[of m "env_Conditions env"] by simp
    then show ?thesis
      using s False t(5) assms(2,3)
      by (auto simp: conditionRecorded_def synced_def split: option.splits)
  qed
  then show ?thesis using t(1,2,3) by blast
qed

lemma cd_raiseAndReturn:
  assumes "raiseAndReturn m env ret w = ((d, flag, err), w')"
    and "env_Namespace env = req_Namespace req" "env_Name env = req_Name req"
  shows "\<exists>t. trace w' = trace w @ t \<and> statusOnly t \<and> flag
           \<and> (synced env w \<and> \<not> list_ex failedStatusWrite t \<longrightarrow> conditionRecorded m req w')"
proof -
  obtain e1 env1 w1 where u: "updateStatusConditionOfEnvironment m env
       EnvironmentConditionErrorOccurred ConditionTrue EnvironmentReasonErrorOccurred w
         = ((e1, env1), w1)"
    by (metis prod.exhaust)
  from cd_raise[OF u assms(2,3)] obtain t where
    t: "trace w1 = trace w @ t" "statusOnly t"
       "synced env w \<and> \<not> list_ex failedStatusWrite t \<longrightarrow> conditionRecorded m req w1"
    by (elim exE conjE)
  show ?thesis
    using assms(1) u t by (cases e1) (auto simp: raiseAndReturn_def)
qed

lemma cd_get_env:
  "k8sGet_Environment ns n w = (r, w') \<Longrightarrow>
   \<exists>c. trace w' = trace w @ [c] \<and> c_verb c = VGet \<and> c_kind c = KEnvironment
       \<and> environments w' = environments w
       \<and> (hardFailure c \<longleftrightarrow> (\<exists>e. r = Inl e \<and> \<not> IsNotFound e))
       \<and> (\<forall>e. r = Inr e \<longrightarrow> find (env_at ns n) (environments w) = Some e)"
  by (auto simp: k8sGet_Environment_def hardFailure_def split: option.splits)

lemma cd_get_dtc:
  "k8sGet_DeploymentTargetClaim ns n w = (r, w') \<Longrightarrow>
   \<exists>c. trace w' = trace w @ [c] \<and> c_verb c = VGet \<and> c_kind c = KDeploymentTargetClaim
       \<and> environments w' = environments w
       \<and> (hardFailure c \<longleftrightarrow> (\<exists>e. r = Inl e \<and> \<not> IsNotFound e))"
  by (auto simp: k8sGet_DeploymentTargetClaim_def hardFailure_def split: option.splits)

lemma cd_get_sec:
  "k8sGet_Secret ns n w = (r, w') \<Longrightarrow>
   \<exists>c. trace w' = trace w @ [c] \<and> c_verb c = VGet \<and> c_kind c = KSecret
       \<and> environments w' = environments w
       \<and> (hardFailure c \<longleftrightarrow> (\<exists>e. r = Inl e \<and> \<not> IsNotFound e))"
  by (auto simp: k8sGet_Secret_def hardFailure_def split: option.splits)

lemma cd_get_me:
  "k8sGet_ManagedEnvironment ns n w = (r, w') \<Longrightarrow>
   \<exists>c. trace w' = trace w @ [c] \<and> c_verb c = VGet
       \<and> c_kind c = KGitOpsDeploymentManagedEnvironment
       \<and> environments w' = environments w
       \<and> (hardFailure c \<longleftrightarrow> (\<exists>e. r = Inl e \<and> \<not> IsNotFound e))"
  by (auto simp: k8sGet_ManagedEnvironment_def hardFailure_def split: option.splits)

lemma cd_create_sec:
  "k8sCreate_Secret s w = (r, w') \<Longrightarrow>
   \<exists>c. trace w' = trace w @ [c] \<and> c_verb c = VCreate \<and> c_kind c = KSecret
       \<and> environments w' = environments w \<and> (hardFailure c \<longrightarrow> r \<noteq> None)"
  by (auto simp: k8sCreate_Secret_def hardFailure_def split: option.splits if_splits)

lemma cd_update_sec:
  "k8sUpdate_Secret s w = (r, w') \<Longrightarrow>
   \<exists>c. trace w' = trace w @ [c] \<and> c_verb c = VUpdate \<and> c_kind c = KSecret
       \<and> environments w' = environments w \<and> (hardFailure c \<longrightarrow> r \<noteq> None)"
  by (auto simp: k8sUpdate_Secret_def hardFailure_def split: option.splits if_splits)

lemma cd_delete_sec:
  "k8sDelete_Secret s w = (r, w') \<Longrightarrow>
   \<exists>c. trace w' = trace w @ [c] \<and> c_verb c = VDelete \<and> c_kind c = KSecret
       \<and> environments w' = environments w"
  by (auto simp: k8sDelete_Secret_def split: option.splits if_splits)

lemma cd_create_me:
  "k8sCreate_ManagedEnvironment s w = (r, w') \<Longrightarrow>
   \<exists>c. trace w' = trace w @ [c] \<and> c_kind c = KGitOpsDeploymentManagedEnvironment
       \<and> environments w' = environments w"
  by (auto simp: k8sCreate_ManagedEnvironment_def split: option.splits if_splits)

lemma cd_update_me:
  "k8sUpdate_ManagedEnvironment s w = (r, w') \<Longrightarrow>
   \<exists>c. trace w' = trace w @ [c] \<and> c_kind c = KGitOpsDeploymentManagedEnvironment
       \<and> environments w' = environments w"
  by (auto simp: k8sUpdate_ManagedEnvironment_def split: option.splits if_splits)

lemma cd_delete_me:
  "k8sDelete_ManagedEnvironment s w = (r, w') \<Longrightarrow>
   \<exists>c. trace w' = trace w @ [c] \<and> c_kind c = KGitOpsDeploymentManagedEnvironment
       \<and> environments w' = environments w"
  by (auto simp: k8sDelete_ManagedEnvironment_def split: option.splits if_splits)

lemma cd_getDT:
  "getDTBoundByDTC dtc w = ((dt, err), w') \<Longrightarrow>
   \<exists>c. trace w' = trace w @ [c] \<and> c_verb c = VList \<and> c_kind c = KDeploymentTarget
       \<and> environments w' = environments w
       \<and> (hardFailure c \<longleftrightarrow> (\<exists>e. err = Some e \<and> \<not> IsNotFound e))"
  by (auto simp: getDTBoundByDTC_def k8sList_DeploymentTarget_def hardFailure_def
      split: option.splits)

lemma cd_mirror:
  "reconcileManagedEnvSecret env claimName secret details w = ((err, details'), w') \<Longrightarrow>
   \<exists>t. trace w' = trace w @ t \<and> mirrorOnly t \<and> environments w' = environments w
       \<and> (list_ex hardFailure t \<longrightarrow> err \<noteq> None)"
  by (auto simp: reconcileManagedEnvSecret_def Let_def
      split: prod.splits sum.splits option.splits if_splits
      dest!: cd_get_sec cd_create_sec cd_update_sec)

lemma cd_secret:
  assumes g: "generateDesiredResource_secret env claimName details w = ((d, flag, err), w')"
    and key: "env_Namespace env = req_Namespace req" "env_Name env = req_Name req"
  shows "\<exists>c t. trace w' = trace w @ c # t \<and> c_verb c = VGet \<and> c_kind c = KSecret
           \<and> \<not> list_ex quietCall t \<and> \<not> list_ex claimFetchFailure t
           \<and> \<not> list_ex targetLookupFailure t
           \<and> (list_ex (\<lambda>c'. hardFailure c' \<and> c_verb c' \<noteq> VDelete) (secretCalls t)
                \<longrightarrow> \<not> flag)
           \<and> (\<not> flag \<longrightarrow> unraised env w w')
           \<and> (hardFailure c \<and> synced env w \<and> \<not> list_ex failedStatusWrite t \<longrightarrow>
                flag \<and> conditionRecorded
                         ''Secret referenced by the Environment resource was not found''
                         req w')"
proof -
  define ds where "ds = (case env_UnstableConfigurationFields env of
          None \<Rightarrow> details
        | Some ucf \<Rightarrow> details\<lparr>spec_ClusterResources := ucf_ClusterResources ucf,
                              spec_Namespaces := ucf_Namespaces ucf\<rparr>)"
  define secretName where "secretName = spec_ClusterCredentialsSecret ds"
  obtain r w1 where gs: "k8sGet_Secret (env_Namespace env) secretName w = (r, w1)"
    by (metis prod.exhaust)
  from cd_get_sec[OF gs] obtain c where
    c: "trace w1 = trace w @ [c]" "c_verb c = VGet" "c_kind c = KSecret"
       "environments w1 = environments w"
       "hardFailure c \<longleftrightarrow> (\<exists>e. r = Inl e \<and> \<not> IsNotFound e)"
    by (elim exE conjE)
  have s1: "synced env w1 \<longleftrightarrow> synced env w"
    using c(4) by (simp add: synced_def)
  show ?thesis
  proof (cases r)
    case (Inl e)
    show ?thesis
    proof (cases "IsNotFound e")
      case True
      obtain e1 env1 w2 where u: "updateStatusConditionOfEnvironment
           (''the secret '' @ secretName
              @ '' referenced by the Environment resource was not found'')
           env EnvironmentConditionErrorOccurred ConditionTrue
           EnvironmentReasonErrorOccurred w1 = ((e1, env1), w2)"
        by (metis prod.exhaust)
      from cd_raise[OF u key] obtain t1 where
        t1: "trace w2 = trace w1 @ t1" "statusOnly t1"
        by (elim exE conjE)
      show ?thesis
      proof (cases e1)
        case (Some x)
        then show ?thesis
          using g gs Inl True u c t1
          by (auto simp: generateDesiredResource_secret_def Let_def ds_def[symmetric] secretName_def[symmetric])
      next
        case None
        obtain r3 w3 where ds: "k8sDelete_Secret (newManagedEnvSecret env) w2 = (r3, w3)"
          by (metis prod.exhaust)
        from cd_delete_sec[OF ds] obtain c3 where
          c3: "trace w3 = trace w2 @ [c3]" "c_verb c3 = VDelete" "c_kind c3 = KSecret"
          by (elim exE conjE)
        have q: "\<not> quietCall c3" "\<not> claimFetchFailure c3" "\<not> targetLookupFailure c3"
          using c3 by (simp_all add: quietCall_def claimFetchFailure_def targetLookupFailure_def)
        show ?thesis
          using g gs Inl True u c t1 None ds c3 q
          by (cases r3)
             (auto simp: generateDesiredResource_secret_def Let_def ds_def[symmetric] secretName_def[symmetric]
                split: if_splits)
      qed
    next
      case False
      obtain e1 env1 w2 where u: "updateStatusConditionOfEnvironment
           ''Secret referenced by the Environment resource was not found''
           env EnvironmentConditionErrorOccurred ConditionTrue
           EnvironmentReasonErrorOccurred w1 = ((e1, env1), w2)"
        by (metis prod.exhaust)
      from cd_raise[OF u key] obtain t1 where
        t1: "trace w2 = trace w1 @ t1" "statusOnly t1"
            "synced env w1 \<and> \<not> list_ex failedStatusWrite t1 \<longrightarrow>
               conditionRecorded ''Secret referenced by the Environment resource was not found''
                 req w2"
        by (elim exE conjE)
      show ?thesis
        using g gs Inl False u c t1 s1
        by (cases e1)
           (auto simp: generateDesiredResource_secret_def Let_def ds_def[symmetric] secretName_def[symmetric])
    qed
  next
    case (Inr secret)
    have h: "\<not> hardFailure c" using c(5) Inr by simp
    obtain e2 ds' w2 where m: "reconcileManagedEnvSecret env claimName secret ds w1
                                 = ((e2, ds'), w2)"
      by (metis prod.exhaust)
    from cd_mirror[OF m] obtain t2 where
      t2: "trace w2 = trace w1 @ t2" "mirrorOnly t2" "environments w2 = environments w1"
          "list_ex hardFailure t2 \<longrightarrow> e2 \<noteq> None"
      by (elim exE conjE)
    show ?thesis
    proof (cases e2)
      case (Some x)
      have "unraised env w w2" using t2(3) c(4) by (simp add: unraised_def)
      then show ?thesis
        using g gs Inr m Some c t2 h
        by (auto simp: generateDesiredResource_secret_def Let_def ds_def[symmetric]
            secretName_def[symmetric])
    next
      case None
      then have nh: "\<not> list_ex (\<lambda>c'. hardFailure c' \<and> c_verb c' \<noteq> VDelete) t2"
        using t2(4) by (auto simp: list_ex_iff)
      obtain e3 env3 w3 where rs: "updateConditionErrorAsResolved [] env
           EnvironmentConditionErrorOccurred ConditionFalse EnvironmentReasonErrorOccurred w2
             = ((e3, env3), w3)"
        by (metis prod.exhaust)
      from cd_resolve[OF rs] obtain t3 where
        t3: "trace w3 = trace w2 @ t3" "statusOnly t3"
            "environments w3
               = (if e3 = None \<and> needsResolve env
                  then environments (statusStored (resolvedEnv env) w2) else environments w2)"
        by (elim exE conjE)
      have u: "unraised env w w3"
        by (rule unraised_step[of env w w2])
           (use t2(3) c(4) t3(3) in \<open>auto simp: unraised_def\<close>)
      show ?thesis
        using g gs Inr m None rs c t2(1,2) t3(1,2) h nh u
        by (cases e3)
           (auto simp: generateDesiredResource_secret_def Let_def ds_def[symmetric]
              secretName_def[symmetric])
    qed
  qed
qed

lemma call_kinds [simp]:
  "c_kind c = KDeploymentTargetClaim \<Longrightarrow> \<not> quietCall c"
  "c_kind c = KDeploymentTargetClaim \<Longrightarrow> \<not> targetLookupFailure c"
  "c_kind c = KDeploymentTargetClaim \<Longrightarrow> \<not> failedStatusWrite c \<or> c_verb c = VStatusUpdate"
  "c_kind c = KDeploymentTarget \<Longrightarrow> \<not> quietCall c"
  "c_kind c = KDeploymentTarget \<Longrightarrow> \<not> claimFetchFailure c"
  "c_kind c = KSecret \<Longrightarrow> \<not> quietCall c"
  "c_kind c = KSecret \<Longrightarrow> \<not> claimFetchFailure c"
  "c_kind c = KSecret \<Longrightarrow> \<not> targetLookupFailure c"
  "c_verb c = VGet \<Longrightarrow> \<not> failedStatusWrite c"
  "c_verb c = VList \<Longrightarrow> \<not> failedStatusWrite c"
  "c_verb c = VGet \<Longrightarrow> \<not> targetLookupFailure c"
  "c_verb c = VList \<Longrightarrow> \<not> claimFetchFailure c"
  "c_kind c = KGitOpsDeploymentManagedEnvironment \<Longrightarrow> \<not> claimFetchFailure c"
  "c_kind c = KGitOpsDeploymentManagedEnvironment \<Longrightarrow> \<not> targetLookupFailure c"
  "c_kind c = KEnvironment \<Longrightarrow> \<not> claimFetchFailure c"
  "c_kind c = KEnvironment \<Longrightarrow> \<not> targetLookupFailure c"
  by (auto simp: quietCall_def claimFetchFailure_def targetLookupFailure_def
      failedStatusWrite_def)

lemma cd_generate:
  assumes g: "generateDesiredResource env w = ((d, flag, err), w')"
    and key: "env_Namespace env = req_Namespace req" "env_Name env = req_Name req"
  shows "\<exists>t. trace w' = trace w @ t \<and> \<not> list_ex quietCall t
           \<and> (managedSecretFailure t \<longrightarrow> \<not> flag)
           \<and> (\<not> flag \<longrightarrow> unraised env w w')
           \<and> (synced env w \<and> \<not> list_ex failedStatusWrite t \<longrightarrow>
                (list_ex claimFetchFailure t \<longrightarrow>
                   flag \<and> conditionRecorded
                            ''Unable to find DeploymentTarget for DeploymentTargetClaim''
                            req w')
              \<and> (list_ex targetLookupFailure t \<longrightarrow>
                   flag \<and> conditionRecorded
                            ''Unable to find the DeploymentTarget for DeploymentTargetClaim''
                            req w')
              \<and> (credentialSecretFailure t \<longrightarrow>
                   flag \<and> conditionRecorded
                            ''Secret referenced by the Environment resource was not found''
                            req w'))"
proof (cases "env_ClaimName env = []")
  case True
  show ?thesis
  proof (cases "env_UnstableConfigurationFields env")
    case None
    then show ?thesis
      using g True
      by (auto simp: generateDesiredResource_def managedSecretFailure_def
          credentialSecretFailure_def)
  next
    case (Some ucf)
    then have gs: "generateDesiredResource_secret env (env_ClaimName env)
                  \<lparr>spec_APIURL = ucf_APIURL ucf,
                   spec_ClusterCredentialsSecret = ucf_ClusterCredentialsSecret ucf,
                   spec_AllowInsecureSkipTLSVerify = ucf_AllowInsecureSkipTLSVerify ucf,
                   spec_ClusterResources = False,
                   spec_Namespaces = []\<rparr> w = ((d, flag, err), w')"
      using g True by (simp add: generateDesiredResource_def)
    from cd_secret[OF gs key] obtain c t where
      "trace w' = trace w @ c # t" "c_verb c = VGet" "c_kind c = KSecret"
      "\<not> list_ex quietCall t" "\<not> list_ex claimFetchFailure t"
      "\<not> list_ex targetLookupFailure t"
      "list_ex (\<lambda>c'. hardFailure c' \<and> c_verb c' \<noteq> VDelete) (secretCalls t) \<longrightarrow> \<not> flag"
      "\<not> flag \<longrightarrow> unraised env w w'"
      "hardFailure c \<and> synced env w \<and> \<not> list_ex failedStatusWrite t \<longrightarrow>
         flag \<and> conditionRecorded
                  ''Secret referenced by the Environment resource was not found'' req w'"
      by (elim exE conjE)
    then show ?thesis
      by (intro exI[of _ "c # t"])
         (simp add: managedSecretFailure_def credentialSecretFailure_def)
  qed
next
  case claim: False
  obtain r1 w1 where gd: "k8sGet_DeploymentTargetClaim (env_Namespace env) (env_ClaimName env) w
                            = (r1, w1)"
    by (metis prod.exhaust)
  from cd_get_dtc[OF gd] obtain c1 where
    c1: "trace w1 = trace w @ [c1]" "c_verb c1 = VGet" "c_kind c1 = KDeploymentTargetClaim"
        "environments w1 = environments w"
        "hardFailure c1 \<longleftrightarrow> (\<exists>e. r1 = Inl e \<and> \<not> IsNotFound e)"
    by (elim exE conjE)
  have s1: "synced env w1 \<longleftrightarrow> synced env w"
    using c1(4) by (simp add: synced_def)
  have cf: "claimFetchFailure c1 \<longleftrightarrow> hardFailure c1"
    using c1(2,3) by (simp add: claimFetchFailure_def)
  show ?thesis
  proof (cases r1)
    case (Inl e)
    show ?thesis
    proof (cases "IsNotFound e")
      case True
      then have rr: "raiseAndReturn
           ''DeploymentTargetClaim not found while generating the desired Environment resource''
           env None w1 = ((d, flag, err), w')"
        using g claim gd Inl by (simp add: generateDesiredResource_def)
      from cd_raiseAndReturn[OF rr key] obtain t where
        t: "trace w' = trace w1 @ t" "statusOnly t" "flag"
        by (elim exE conjE)
      have "\<not> hardFailure c1" using c1(5) Inl True by simp
      then show ?thesis
        using t c1(1-4) cf
        by (intro exI[of _ "c1 # t"])
           (simp add: managedSecretFailure_def credentialSecretFailure_def)
    next
      case False
      then have rr: "raiseAndReturn
           ''Unable to find DeploymentTarget for DeploymentTargetClaim''
           env (Some e) w1 = ((d, flag, err), w')"
        using g claim gd Inl by (simp add: generateDesiredResource_def)
      from cd_raiseAndReturn[OF rr key] obtain t where
        t: "trace w' = trace w1 @ t" "statusOnly t" "flag"
           "synced env w1 \<and> \<not> list_ex failedStatusWrite t \<longrightarrow>
              conditionRecorded ''Unable to find DeploymentTarget for DeploymentTargetClaim''
                req w'"
        by (elim exE conjE)
      show ?thesis
        using t c1(1-4) cf s1
        by (intro exI[of _ "c1 # t"])
           (simp add: managedSecretFailure_def credentialSecretFailure_def)
    qed
  next
    case (Inr dtc)
    then have nh1: "\<not> hardFailure c1" using c1(5) by simp
    obtain e2 env1 w2 where rs: "updateConditionErrorAsResolved [] env
         EnvironmentConditionErrorOccurred ConditionFalse EnvironmentReasonErrorOccurred w1
           = ((e2, env1), w2)"
      by (metis prod.exhaust)
    from cd_resolve[OF rs] obtain t2 where
      t2: "trace w2 = trace w1 @ t2" "statusOnly t2"
          "e2 = None \<longleftrightarrow> \<not> list_ex failedStatusWrite t2"
          "e2 = None \<longrightarrow> env1 = resolvedEnv env"
          "environments w2
             = (if e2 = None \<and> needsResolve env
                then environments (statusStored (resolvedEnv env) w1) else environments w1)"
      by (elim exE conjE)
    show ?thesis
    proof (cases e2)
      case (Some x)
      then have "((d, flag, err), w') = ((None, True, Some x), w2)"
        using g claim gd Inr rs by (simp add: generateDesiredResource_def)
      then show ?thesis
        using t2 c1(1-4) cf nh1 Some
        by (intro exI[of _ "c1 # t2"])
           (simp add: managedSecretFailure_def credentialSecretFailure_def)
    next
      case None
      then have e1: "env1 = resolvedEnv env" using t2(4) by simp
      have u2: "unraised env w w2"
        using t2(5) c1(4) None
        by (auto simp: unraised_def statusStored_cong[OF c1(4)])
      have s2: "synced env w \<Longrightarrow> synced env1 w2"
        unfolding e1 using t2(5) None s1 by (auto intro: synced_resolve)
      have k1: "env_Namespace env1 = req_Namespace req" "env_Name env1 = req_Name req"
        using key e1 by simp_all
      show ?thesis
      proof (cases "dtc_Phase dtc \<noteq> DeploymentTargetClaimPhase_Bound")
        case True
        then have "((d, flag, err), w') = ((None, False, None), w2)"
          using g claim gd Inr rs None by (simp add: generateDesiredResource_def)
        then show ?thesis
          using t2 c1(1-4) cf nh1 u2
          by (intro exI[of _ "c1 # t2"])
             (simp add: managedSecretFailure_def credentialSecretFailure_def)
      next
        case bound: False
        obtain dt e3 w3 where gt: "getDTBoundByDTC dtc w2 = ((dt, e3), w3)"
          by (metis prod.exhaust)
        from cd_getDT[OF gt] obtain c3 where
          c3: "trace w3 = trace w2 @ [c3]" "c_verb c3 = VList" "c_kind c3 = KDeploymentTarget"
              "environments w3 = environments w2"
              "hardFailure c3 \<longleftrightarrow> (\<exists>e. e3 = Some e \<and> \<not> IsNotFound e)"
          by (elim exE conjE)
        have tf: "targetLookupFailure c3 \<longleftrightarrow> hardFailure c3"
          using c3(2,3) by (simp add: targetLookupFailure_def)
        have u3: "unraised env w w3"
          using u2 c3(4) by (simp add: unraised_def)
        have s3: "synced env w \<Longrightarrow> synced env1 w3"
          using s2 c3(4) by (auto intro: synced_same)
        have raised: ?thesis
          if rr: "raiseAndReturn m env1 ret w3 = ((d, flag, err), w')"
            and hm: "hardFailure c3 \<longrightarrow>
                       m = ''Unable to find the DeploymentTarget for DeploymentTargetClaim''"
          for m ret
        proof -
          from cd_raiseAndReturn[OF rr k1] obtain t where
            t: "trace w' = trace w3 @ t" "statusOnly t" "flag"
               "synced env1 w3 \<and> \<not> list_ex failedStatusWrite t \<longrightarrow> conditionRecorded m req w'"
            by (elim exE conjE)
          show ?thesis
            using t c1(1-4) cf nh1 t2(1,2,3) c3(1-4) tf s3 hm None
            by (intro exI[of _ "c1 # t2 @ c3 # t"])
               (auto simp: managedSecretFailure_def credentialSecretFailure_def)
        qed
        show ?thesis
        proof (cases e3)
          case (Some e)
          show ?thesis
          proof (cases "IsNotFound e")
            case True
            show ?thesis
              by (rule raised[of "''DeploymentTarget not found for DeploymentTargetClaim''" None])
                 (use g claim gd Inr rs None bound gt Some True c3(5) in
                   \<open>simp_all add: generateDesiredResource_def split: option.splits\<close>)
          next
            case False
            show ?thesis
              by (rule raised[of "''Unable to find the DeploymentTarget for DeploymentTargetClaim''"
                    "Some e"])
                 (use g claim gd Inr rs None bound gt Some False in
                   \<open>simp_all add: generateDesiredResource_def split: option.splits\<close>)
          qed
        next
          case noerr: None
          then have nh3: "\<not> hardFailure c3" using c3(5) by simp
          show ?thesis
          proof (cases dt)
            case None
            show ?thesis
              by (rule raised[of "''DeploymentTarget not found for DeploymentTargetClaim''" None])
                 (use g claim gd Inr rs \<open>e2 = None\<close> bound gt noerr None nh3 in
                   \<open>simp_all add: generateDesiredResource_def\<close>)
          next
            case (Some target)
            obtain e4 env2 w4 where rs2: "updateConditionErrorAsResolved [] env1
                 EnvironmentConditionErrorOccurred ConditionFalse
                 EnvironmentReasonErrorOccurred w3 = ((e4, env2), w4)"
              by (metis prod.exhaust)
            from cd_resolve[OF rs2] obtain t4 where
              t4: "trace w4 = trace w3 @ t4" "statusOnly t4"
                  "e4 = None \<longleftrightarrow> \<not> list_ex failedStatusWrite t4"
                  "e4 = None \<longrightarrow> env2 = resolvedEnv env1"
                  "environments w4
                     = (if e4 = None \<and> needsResolve env1
                        then environments (statusStored (resolvedEnv env1) w3)
                        else environments w3)"
              by (elim exE conjE)
            have ew4: "environments w4 = environments w3"
              using t4(5) e1 by simp
            show ?thesis
            proof (cases e4)
              case (Some x)
              then have "((d, flag, err), w') = ((None, True, Some x), w4)"
                using g claim gd Inr rs \<open>e2 = None\<close> bound gt noerr \<open>dt = Some target\<close> rs2
                by (simp add: generateDesiredResource_def)
              then show ?thesis
                using t4(1,2,3) c1(1-4) cf nh1 t2(1,2,3) c3(1-4) tf nh3 Some
                by (intro exI[of _ "c1 # t2 @ c3 # t4"])
                   (auto simp: managedSecretFailure_def credentialSecretFailure_def)
            next
              case None
              then have e2': "env2 = resolvedEnv env" using t4(4) e1 by simp
              have gs: "generateDesiredResource_secret env2 (env_ClaimName env)
                         \<lparr>spec_APIURL = dt_APIURL target,
                          spec_ClusterCredentialsSecret = dt_ClusterCredentialsSecret target,
                          spec_AllowInsecureSkipTLSVerify = dt_AllowInsecureSkipTLSVerify target,
                          spec_ClusterResources = False,
                          spec_Namespaces = []\<rparr> w4 = ((d, flag, err), w')"
                using g claim gd Inr rs \<open>e2 = None\<close> bound gt noerr \<open>dt = Some target\<close> rs2 None
                by (simp add: generateDesiredResource_def)
              have k2: "env_Namespace env2 = req_Namespace req" "env_Name env2 = req_Name req"
                using key e2' by simp_all
              from cd_secret[OF gs k2] obtain c5 t5 where
                t5: "trace w' = trace w4 @ c5 # t5" "c_verb c5 = VGet" "c_kind c5 = KSecret"
                  "\<not> list_ex quietCall t5" "\<not> list_ex claimFetchFailure t5"
                  "\<not> list_ex targetLookupFailure t5"
                  "list_ex (\<lambda>c'. hardFailure c' \<and> c_verb c' \<noteq> VDelete) (secretCalls t5)
                     \<longrightarrow> \<not> flag"
                  "\<not> flag \<longrightarrow> unraised env2 w4 w'"
                  "hardFailure c5 \<and> synced env2 w4 \<and> \<not> list_ex failedStatusWrite t5 \<longrightarrow>
                     flag \<and> conditionRecorded
                       ''Secret referenced by the Environment resource was not found'' req w'"
                by (elim exE conjE)
              have u5: "\<not> flag \<longrightarrow> unraised env w w'"
                using t5(8) u3 ew4 unfolding e2' unraised_resolved
                by (auto simp: unraised_def)
              have s4: "synced env w \<Longrightarrow> synced env2 w4"
                using s3 ew4 e1 e2' by (auto intro: synced_same)
              show ?thesis
                using t5(1-7,9) u5 s4 t4(1,2,3) c1(1-4) cf nh1 t2(1,2,3) c3(1-4) tf nh3 None \<open>e2 = None\<close>
                by (intro exI[of _ "c1 # t2 @ c3 # t4 @ c5 # t5"])
                   (auto simp: managedSecretFailure_def credentialSecretFailure_def)
            qed
          qed
        qed
      qed
    qed
  qed
qed

lemma managedSecretFailure_append [simp]:
  "secretCalls u = [] \<Longrightarrow> managedSecretFailure (t @ u) = managedSecretFailure t"
  "secretCalls t = [] \<Longrightarrow> managedSecretFailure (t @ u) = managedSecretFailure u"
  by (simp_all add: managedSecretFailure_def)

lemma credentialSecretFailure_append [simp]:
  "secretCalls u = [] \<Longrightarrow> credentialSecretFailure (t @ u) = credentialSecretFailure t"
  "secretCalls t = [] \<Longrightarrow> credentialSecretFailure (t @ u) = credentialSecretFailure u"
  by (simp_all add: credentialSecretFailure_def)

lemma secretFailure_Nil [simp]:
  "secretCalls t = [] \<Longrightarrow> \<not> managedSecretFailure t"
  "secretCalls t = [] \<Longrightarrow> \<not> credentialSecretFailure t"
  by (simp_all add: managedSecretFailure_def credentialSecretFailure_def)

lemma cd_apply:
  assumes r: "reconcileEnvironment env w = ((res, err), w')"
    and notboth: "\<not> (env_ClaimName env \<noteq> [] \<and> env_UnstableConfigurationFields env \<noteq> None)"
    and g: "generateDesiredResource env w = ((d, False, None), w1)"
  shows "\<exists>u. trace w' = trace w1 @ u \<and> secretCalls u = []
           \<and> \<not> list_ex claimFetchFailure u \<and> \<not> list_ex targetLookupFailure u
           \<and> (environments w' = environments w1
               \<or> needsResolve env
                 \<and> environments w' = environments (statusStored (resolvedEnv env) w1))"
proof (cases d)
  case None
  obtain e3 env3 w3 where rs: "updateConditionErrorAsResolved [] env
       EnvironmentConditionErrorOccurred ConditionFalse EnvironmentReasonErrorOccurred w1
         = ((e3, env3), w3)"
    by (metis prod.exhaust)
  from cd_resolve[OF rs] obtain t3 where
    t3: "trace w3 = trace w1 @ t3" "statusOnly t3"
        "environments w3
           = (if e3 = None \<and> needsResolve env
              then environments (statusStored (resolvedEnv env) w1) else environments w1)"
    by (elim exE conjE)
  have "w' = w3"
    using r notboth g None rs by (cases e3) (auto simp: reconcileEnvironment_def)
  then show ?thesis
    using t3 by (intro exI[of _ t3]) (auto split: if_splits)
next
  case (Some desired)
  obtain r2 w2 where gm: "k8sGet_ManagedEnvironment
       (me_Namespace (generateEmptyManagedEnvironment (env_Name env) (env_Namespace env)))
       (me_Name (generateEmptyManagedEnvironment (env_Name env) (env_Namespace env))) w1
         = (r2, w2)"
    by (metis prod.exhaust)
  from cd_get_me[OF gm] obtain c2 where
    c2: "trace w2 = trace w1 @ [c2]" "c_kind c2 = KGitOpsDeploymentManagedEnvironment"
        "environments w2 = environments w1"
    by (elim exE conjE)
  have k2: "c_kind c2 \<noteq> KSecret" using c2(2) by simp
  show ?thesis
  proof (cases r2)
    case (Inl e)
    show ?thesis
    proof (cases "IsNotFound e")
      case False
      then have "w' = w2"
        using r notboth g Some gm Inl by (auto simp: reconcileEnvironment_def Let_def)
      then show ?thesis
        using c2 k2 by (intro exI[of _ "[c2]"]) simp
    next
      case True
      obtain r3 w3 where cm: "k8sCreate_ManagedEnvironment desired w2 = (r3, w3)"
        by (metis prod.exhaust)
      from cd_create_me[OF cm] obtain c3 where
        c3: "trace w3 = trace w2 @ [c3]" "c_kind c3 = KGitOpsDeploymentManagedEnvironment"
            "environments w3 = environments w2"
        by (elim exE conjE)
      have k3: "c_kind c3 \<noteq> KSecret" using c3(2) by simp
      have "w' = w3"
        using r notboth g Some gm Inl True cm
        by (cases r3) (auto simp: reconcileEnvironment_def Let_def)
      then show ?thesis
        using c2 k2 c3 k3 by (intro exI[of _ "[c2, c3]"]) simp
    qed
  next
    case (Inr cur)
    obtain e3 env3 w3 where rs: "updateConditionErrorAsResolved [] env
         EnvironmentConditionErrorOccurred ConditionFalse EnvironmentReasonErrorOccurred w2
           = ((e3, env3), w3)"
      by (metis prod.exhaust)
    from cd_resolve[OF rs] obtain t3 where
      t3: "trace w3 = trace w2 @ t3" "statusOnly t3"
          "environments w3
             = (if e3 = None \<and> needsResolve env
                then environments (statusStored (resolvedEnv env) w2) else environments w2)"
      by (elim exE conjE)
    have ew3: "environments w3 = environments w1
               \<or> needsResolve env
                 \<and> environments w3 = environments (statusStored (resolvedEnv env) w1)"
      using t3(3) c2(3) statusStored_cong[OF c2(3), of "resolvedEnv env"]
      by (auto split: if_splits)
    show ?thesis
    proof (cases "e3 = None \<and> me_Spec cur \<noteq> me_Spec desired")
      case False
      then have "w' = w3"
        using r notboth g Some gm Inr rs
        by (cases e3) (auto simp: reconcileEnvironment_def Let_def)
      then show ?thesis
        using c2 k2 t3(1,2) ew3 by (intro exI[of _ "c2 # t3"]) simp
    next
      case True
      obtain r4 w4 where um: "k8sUpdate_ManagedEnvironment (cur\<lparr>me_Spec := me_Spec desired\<rparr>) w3
                                = (r4, w4)"
        by (metis prod.exhaust)
      from cd_update_me[OF um] obtain c4 where
        c4: "trace w4 = trace w3 @ [c4]" "c_kind c4 = KGitOpsDeploymentManagedEnvironment"
            "environments w4 = environments w3"
        by (elim exE conjE)
      have k4: "c_kind c4 \<noteq> KSecret" using c4(2) by simp
      have "w' = w4"
        using r notboth g Some gm Inr rs True um
        by (cases r4) (auto simp: reconcileEnvironment_def Let_def)
      then show ?thesis
        using c2 k2 t3(1,2) ew3 c4 k4 by (intro exI[of _ "c2 # t3 @ [c4]"]) simp
    qed
  qed
qed

lemma cd_reconcileEnvironment:
  assumes r: "reconcileEnvironment env w = ((res, err), w')"
    and key: "env_Namespace env = req_Namespace req" "env_Name env = req_Name req"
  shows "\<exists>t. trace w' = trace w @ t
           \<and> (quietFailure t \<longrightarrow> unraised env w w')
           \<and> (synced env w \<and> \<not> list_ex failedStatusWrite t \<longrightarrow>
                (list_ex claimFetchFailure t \<longrightarrow>
                   conditionRecorded
                     ''Unable to find DeploymentTarget for DeploymentTargetClaim'' req w')
              \<and> (list_ex targetLookupFailure t \<longrightarrow>
                   conditionRecorded
                     ''Unable to find the DeploymentTarget for DeploymentTargetClaim'' req w')
              \<and> (credentialSecretFailure t \<longrightarrow>
                   conditionRecorded
                     ''Secret referenced by the Environment resource was not found'' req w'))"
proof (cases "env_ClaimName env \<noteq> [] \<and> env_UnstableConfigurationFields env \<noteq> None")
  case True
  obtain e1 env1 w1 where u: "updateStatusConditionOfEnvironment
       ''Environment is invalid since it cannot have both DeploymentTargetClaim and credentials configuration set''
       env EnvironmentConditionErrorOccurred ConditionTrue EnvironmentReasonErrorOccurred w
         = ((e1, env1), w1)"
    by (metis prod.exhaust)
  from cd_raise[OF u key] obtain t where
    t: "trace w1 = trace w @ t" "statusOnly t"
    by (elim exE conjE)
  have "w' = w1"
    using r True u by (cases e1) (auto simp: reconcileEnvironment_def)
  then show ?thesis
    using t by (intro exI[of _ t]) (simp add: quietFailure_def)
next
  case notboth: False
  obtain d flag gerr w1 where g: "generateDesiredResource env w = ((d, flag, gerr), w1)"
    by (metis prod.exhaust)
  from cd_generate[OF g key] obtain t where
    t: "trace w1 = trace w @ t" "\<not> list_ex quietCall t"
       "managedSecretFailure t \<longrightarrow> \<not> flag"
       "\<not> flag \<longrightarrow> unraised env w w1"
       "synced env w \<and> \<not> list_ex failedStatusWrite t \<longrightarrow>
          (list_ex claimFetchFailure t \<longrightarrow>
             flag \<and> conditionRecorded
                      ''Unable to find DeploymentTarget for DeploymentTargetClaim'' req w1)
        \<and> (list_ex targetLookupFailure t \<longrightarrow>
             flag \<and> conditionRecorded
                      ''Unable to find the DeploymentTarget for DeploymentTargetClaim'' req w1)
        \<and> (credentialSecretFailure t \<longrightarrow>
             flag \<and> conditionRecorded
                      ''Secret referenced by the Environment resource was not found'' req w1)"
    by (elim exE conjE)
  show ?thesis
  proof (cases "flag \<or> gerr \<noteq> None")
    case True
    then have "w' = w1"
      using r notboth g
      by (cases gerr; cases flag; cases d) (auto simp: reconcileEnvironment_def)
    then show ?thesis
      using t by (intro exI[of _ t]) (auto simp: quietFailure_def)
  next
    case False
    then have f: "\<not> flag" and g': "generateDesiredResource env w = ((d, False, None), w1)"
      using g by simp_all
    from cd_apply[OF r notboth g'] obtain u where
      u: "trace w' = trace w1 @ u" "secretCalls u = []"
         "\<not> list_ex claimFetchFailure u" "\<not> list_ex targetLookupFailure u"
         "environments w' = environments w1
          \<or> needsResolve env
            \<and> environments w' = environments (statusStored (resolvedEnv env) w1)"
      by (elim exE conjE)
    have un: "unraised env w w'"
      by (rule unraised_step[of env w w1]) (use t(4) f u(5) in auto)
    show ?thesis
      using t(1,5) f u(1-4) un
      by (intro exI[of _ "t @ u"]) auto
  qed
qed

lemma unraised_conditionNotRaised:
  assumes "find (env_at (req_Namespace req) (req_Name req)) (environments w) = Some env"
    and "environments w0 = environments w" and "unraised env w0 w'"
  shows "conditionNotRaised req w w'"
  using assms statusStored_cong[OF assms(2), of "resolvedEnv env"]
  by (auto simp: conditionNotRaised_def unraised_def)

lemma cd_Reconcile:
  assumes r: "Reconcile req w = ((res, err), w')"
  shows "\<exists>t. trace w' = trace w @ t
           \<and> (quietFailure t \<longrightarrow> conditionNotRaised req w w')
           \<and> (\<not> list_ex failedStatusWrite t \<longrightarrow>
                (list_ex claimFetchFailure t \<longrightarrow>
                   conditionRecorded
                     ''Unable to find DeploymentTarget for DeploymentTargetClaim'' req w')
              \<and> (list_ex targetLookupFailure t \<longrightarrow>
                   conditionRecorded
                     ''Unable to find the DeploymentTarget for DeploymentTargetClaim'' req w')
              \<and> (credentialSecretFailure t \<longrightarrow>
                   conditionRecorded
                     ''Secret referenced by the Environment resource was not found'' req w'))"
proof (cases "fst (namespaceCheck w (req_Namespace req))
                \<or> snd (namespaceCheck w (req_Namespace req)) \<noteq> None")
  case True
  then have "w' = w"
    using r
    by (auto simp: Reconcile_def isRequestNamespaceBeingDeleted_def split: prod.splits)
  then show ?thesis
    by (intro exI[of _ "[]"]) (simp add: quietFailure_def conditionNotRaised_def)
next
  case ok: False
  obtain r0 w0 where ge: "k8sGet_Environment (req_Namespace req) (req_Name req) w = (r0, w0)"
    by (metis prod.exhaust)
  from cd_get_env[OF ge] obtain c0 where
    c0: "trace w0 = trace w @ [c0]" "c_verb c0 = VGet" "c_kind c0 = KEnvironment"
        "environments w0 = environments w"
        "hardFailure c0 \<longleftrightarrow> (\<exists>e. r0 = Inl e \<and> \<not> IsNotFound e)"
        "\<forall>e. r0 = Inr e \<longrightarrow>
           find (env_at (req_Namespace req) (req_Name req)) (environments w) = Some e"
    by (elim exE conjE)
  have k0: "c_kind c0 \<noteq> KSecret" using c0(3) by simp
  show ?thesis
  proof (cases r0)
    case (Inl e)
    show ?thesis
    proof (cases "IsNotFound e")
      case False
      then have "w' = w0"
        using r ok ge Inl
        by (auto simp: Reconcile_def isRequestNamespaceBeingDeleted_def split: prod.splits)
      then show ?thesis
        using c0(1-4) k0
        by (intro exI[of _ "[c0]"]) (simp add: conditionNotRaised_def credentialSecretFailure_def)
    next
      case True
      obtain r1 w1 where gm: "k8sGet_ManagedEnvironment
           (me_Namespace (generateEmptyManagedEnvironment (req_Name req) (req_Namespace req)))
           (me_Name (generateEmptyManagedEnvironment (req_Name req) (req_Namespace req))) w0
             = (r1, w1)"
        by (metis prod.exhaust)
      from cd_get_me[OF gm] obtain c1 where
        c1: "trace w1 = trace w0 @ [c1]" "c_kind c1 = KGitOpsDeploymentManagedEnvironment"
            "environments w1 = environments w0"
        by (elim exE conjE)
      have k1: "c_kind c1 \<noteq> KSecret" using c1(2) by simp
      show ?thesis
      proof (cases r1)
        case I: (Inl e1)
        then have "w' = w1"
          using r ok ge Inl True gm
          by (auto simp: Reconcile_def isRequestNamespaceBeingDeleted_def Let_def
              split: prod.splits if_splits)
        then show ?thesis
          using c0(1-4) k0 c1 k1
          by (intro exI[of _ "[c0, c1]"]) (simp add: conditionNotRaised_def credentialSecretFailure_def)
      next
        case (Inr found)
        obtain r2 w2 where dm: "k8sDelete_ManagedEnvironment found w1 = (r2, w2)"
          by (metis prod.exhaust)
        from cd_delete_me[OF dm] obtain c2 where
          c2: "trace w2 = trace w1 @ [c2]" "c_kind c2 = KGitOpsDeploymentManagedEnvironment"
              "environments w2 = environments w1"
          by (elim exE conjE)
        have k2: "c_kind c2 \<noteq> KSecret" using c2(2) by simp
        have "w' = w2"
          using r ok ge Inl True gm Inr dm
          by (cases r2)
             (auto simp: Reconcile_def isRequestNamespaceBeingDeleted_def Let_def
                split: prod.splits if_splits)
        then show ?thesis
          using c0(1-4) k0 c1 k1 c2 k2
          by (intro exI[of _ "[c0, c1, c2]"]) (simp add: conditionNotRaised_def credentialSecretFailure_def)
      qed
    qed
  next
    case (Inr env)
    then have st: "find (env_at (req_Namespace req) (req_Name req)) (environments w) = Some env"
      using c0(6) by simp
    then have key: "env_Namespace env = req_Namespace req" "env_Name env = req_Name req"
      using find_Some_P[OF st] by (simp_all add: env_at_def)
    have sy: "synced env w0"
      using st key c0(4) by (simp add: synced_def)
    have nh: "\<not> hardFailure c0" using c0(5) Inr by simp
    then have nq: "\<not> quietCall c0" by (simp add: quietCall_def)
    have re: "reconcileEnvironment env w0 = ((res, err), w')"
      using r ok ge Inr
      by (auto simp: Reconcile_def isRequestNamespaceBeingDeleted_def split: prod.splits)
    from cd_reconcileEnvironment[OF re key] obtain t where
      t: "trace w' = trace w0 @ t"
         "quietFailure t \<longrightarrow> unraised env w0 w'"
         "synced env w0 \<and> \<not> list_ex failedStatusWrite t \<longrightarrow>
            (list_ex claimFetchFailure t \<longrightarrow>
               conditionRecorded
                 ''Unable to find DeploymentTarget for DeploymentTargetClaim'' req w')
          \<and> (list_ex targetLookupFailure t \<longrightarrow>
               conditionRecorded
                 ''Unable to find the DeploymentTarget for DeploymentTargetClaim'' req w')
          \<and> (credentialSecretFailure t \<longrightarrow>
               conditionRecorded
                 ''Secret referenced by the Environment resource was not found'' req w')"
      by (elim exE conjE)
    have q: "quietFailure (c0 # t) \<longrightarrow> conditionNotRaised req w w'"
    proof
      assume "quietFailure (c0 # t)"
      then have "quietFailure t"
        using nq k0 by (simp add: quietFailure_def managedSecretFailure_def)
      with t(2) have "unraised env w0 w'" by simp
      then show "conditionNotRaised req w w'"
        by (rule unraised_conditionNotRaised[OF st c0(4)])
    qed
    have cs: "credentialSecretFailure (c0 # t) = credentialSecretFailure t"
      using k0 by (simp add: credentialSecretFailure_def)
    show ?thesis
      using t(1,3) c0(1-3) sy q
      by (intro exI[of _ "c0 # t"]) (simp add: cs)
  qed
qed

lemma quietFailure_hard: "quietFailure t \<Longrightarrow> list_ex hardFailure t"
proof -
  assume q: "quietFailure t"
  show ?thesis
  proof (cases "list_ex quietCall t")
    case True
    then show ?thesis by (auto simp: list_ex_iff quietCall_def)
  next
    case False
    with q have "managedSecretFailure t" by (simp add: quietFailure_def)
    then obtain c cs where "secretCalls t = c # cs"
      "list_ex (\<lambda>c'. hardFailure c' \<and> c_verb c' \<noteq> VDelete) cs"
      by (auto simp: managedSecretFailure_def split: list.splits)
    then obtain x where "x \<in> set (secretCalls t)" "hardFailure x"
      by (auto simp: list_ex_iff)
    then show ?thesis by (auto simp: list_ex_iff secretCalls_def)
  qed
qed

lemma claimFetchFailure_hard: "list_ex claimFetchFailure t \<Longrightarrow> list_ex hardFailure t"
  by (auto simp: list_ex_iff claimFetchFailure_def)

lemma targetLookupFailure_hard: "list_ex targetLookupFailure t \<Longrightarrow> list_ex hardFailure t"
  by (auto simp: list_ex_iff targetLookupFailure_def)

lemma credentialSecretFailure_hard: "credentialSecretFailure t \<Longrightarrow> list_ex hardFailure t"
proof -
  assume "credentialSecretFailure t"
  then obtain c cs where "secretCalls t = c # cs" "hardFailure c"
    by (auto simp: credentialSecretFailure_def split: list.splits)
  then have "c \<in> set (secretCalls t)" "hardFailure c" by simp_all
  then show ?thesis by (auto simp: list_ex_iff secretCalls_def)
qed


text \<open>
  Claim C5, as amended. For every store and every schedule of failures: whenever a client
  call of a reconciliation fails with an error that is not not-found, \<^verbatim>\<open>Reconcile\<close> returns
  an error. When the failing call is the fetch of the Environment, a call on a
  GitOpsDeploymentManagedEnvironment, or the fetch, creation or update of the managed
  secret, no condition is raised for it: the Environments are stored as before the run, or
  with the earlier error condition of the Environment marked as resolved. When the failing
  call is the fetch of the DeploymentTargetClaim, the listing that looks up its
  DeploymentTarget, or the fetch of the credential secret (the first call on a secret, for
  an Environment with inline credentials and for a claim-driven one alike), and no status
  write fails, the stored Environment carries the condition \<^verbatim>\<open>ErrorOccurred\<close> with the
  fixed message of that failure.
\<close>

theorem Reconcile_hard_failure:
  "(list_ex hardFailure (newCalls w (snd (Reconcile req w))) \<longrightarrow>
      snd (fst (Reconcile req w)) \<noteq> None)
   \<and> (quietFailure (newCalls w (snd (Reconcile req w))) \<longrightarrow>
        snd (fst (Reconcile req w)) \<noteq> None
        \<and> conditionNotRaised req w (snd (Reconcile req w)))
   \<and> (list_ex claimFetchFailure (newCalls w (snd (Reconcile req w)))
        \<and> \<not> list_ex failedStatusWrite (newCalls w (snd (Reconcile req w))) \<longrightarrow>
        snd (fst (Reconcile req w)) \<noteq> None
        \<and> conditionRecorded ''Unable to find DeploymentTarget for DeploymentTargetClaim''
             req (snd (Reconcile req w)))
   \<and> (list_ex targetLookupFailure (newCalls w (snd (Reconcile req w)))
        \<and> \<not> list_ex failedStatusWrite (newCalls w (snd (Reconcile req w))) \<longrightarrow>
        snd (fst (Reconcile req w)) \<noteq> None
        \<and> conditionRecorded ''Unable to find the DeploymentTarget for DeploymentTargetClaim''
             req (snd (Reconcile req w)))
   \<and> (credentialSecretFailure (newCalls w (snd (Reconcile req w)))
        \<and> \<not> list_ex failedStatusWrite (newCalls w (snd (Reconcile req w))) \<longrightarrow>
        snd (fst (Reconcile req w)) \<noteq> None
        \<and> conditionRecorded ''Secret referenced by the Environment resource was not found''
             req (snd (Reconcile req w)))"
proof -
  obtain res err w' where r: "Reconcile req w = ((res, err), w')"
    by (metis prod.exhaust)
  from tr_Reconcile[OF r] obtain t0 where
    t0: "trace w' = trace w @ t0" "list_ex hardFailure t0 \<longrightarrow> err \<noteq> None"
    by blast
  have n: "newCalls w w' = t0"
    using t0(1) by (simp add: newCalls_def)
  from cd_Reconcile[OF r] obtain t where
    t: "trace w' = trace w @ t"
       "quietFailure t \<longrightarrow> conditionNotRaised req w w'"
       "\<not> list_ex failedStatusWrite t \<longrightarrow>
          (list_ex claimFetchFailure t \<longrightarrow>
             conditionRecorded
               ''Unable to find DeploymentTarget for DeploymentTargetClaim'' req w')
        \<and> (list_ex targetLookupFailure t \<longrightarrow>
             conditionRecorded
               ''Unable to find the DeploymentTarget for DeploymentTargetClaim'' req w')
        \<and> (credentialSecretFailure t \<longrightarrow>
             conditionRecorded
               ''Secret referenced by the Environment resource was not found'' req w')"
    by (elim exE conjE)
  have tt: "t = t0" using t(1) t0(1) by simp
  have p1: "list_ex hardFailure t0 \<longrightarrow> err \<noteq> None" by (rule t0(2))
  have p2: "quietFailure t0 \<longrightarrow> err \<noteq> None \<and> conditionNotRaised req w w'"
    using t(2) p1 quietFailure_hard[of t0] unfolding tt by blast
  have p3: "list_ex claimFetchFailure t0 \<and> \<not> list_ex failedStatusWrite t0 \<longrightarrow>
              err \<noteq> None
              \<and> conditionRecorded
                   ''Unable to find DeploymentTarget for DeploymentTargetClaim'' req w'"
    using t(3) p1 claimFetchFailure_hard[of t0] unfolding tt by blast
  have p4: "list_ex targetLookupFailure t0 \<and> \<not> list_ex failedStatusWrite t0 \<longrightarrow>
              err \<noteq> None
              \<and> conditionRecorded
                   ''Unable to find the DeploymentTarget for DeploymentTargetClaim'' req w'"
    using t(3) p1 targetLookupFailure_hard[of t0] unfolding tt by blast
  have p5: "credentialSecretFailure t0 \<and> \<not> list_ex failedStatusWrite t0 \<longrightarrow>
              err \<noteq> None
              \<and> conditionRecorded
                   ''Secret referenced by the Environment resource was not found'' req w'"
    using t(3) p1 credentialSecretFailure_hard[of t0] unfolding tt by blast
  show ?thesis
    unfolding r fst_conv snd_conv n
    using p1 p2 p3 p4 p5 by (intro conjI)
qed

theorem Reconcile_hard_failure_witness:
  "newCalls outageWorld (snd (Reconcile prodRequest outageWorld))
       = [\<lparr>c_verb = VGet, c_kind = KEnvironment, c_namespace = ''team-a'',
           c_name = ''prod'', c_outcome = None\<rparr>,
          \<lparr>c_verb = VGet, c_kind = KDeploymentTargetClaim, c_namespace = ''team-a'',
           c_name = ''prod-claim'', c_outcome = Some (InternalError ''etcd timeout'')\<rparr>,
          \<lparr>c_verb = VStatusUpdate, c_kind = KEnvironment, c_namespace = ''team-a'',
           c_name = ''prod'', c_outcome = None\<rparr>]
   \<and> snd (fst (Reconcile prodRequest outageWorld)) \<noteq> None
   \<and> conditionRecorded ''Unable to find DeploymentTarget for DeploymentTargetClaim''
       prodRequest (snd (Reconcile prodRequest outageWorld))
   \<and> map env_Conditions (environments (snd (Reconcile prodRequest outageWorld)))
       = [[errorCondition ''Unable to find DeploymentTarget for DeploymentTargetClaim'']]
   \<and> newCalls (failingAt 2 (prodWorld [targetSecret ''1''])) (snd (Reconcile prodRequest (failingAt 2 (prodWorld [targetSecret ''1'']))))
       = [\<lparr>c_verb = VGet, c_kind = KEnvironment, c_namespace = ''team-a'',
           c_name = ''prod'', c_outcome = None\<rparr>,
          \<lparr>c_verb = VGet, c_kind = KDeploymentTargetClaim, c_namespace = ''team-a'',
           c_name = ''prod-claim'', c_outcome = None\<rparr>,
          \<lparr>c_verb = VList, c_kind = KDeploymentTarget, c_namespace = ''team-a'',
           c_name = [], c_outcome = Some (InternalError ''etcd timeout'')\<rparr>,
          \<lparr>c_verb = VStatusUpdate, c_kind = KEnvironment, c_namespace = ''team-a'',
           c_name = ''prod'', c_outcome = None\<rparr>]
   \<and> snd (fst (Reconcile prodRequest (failingAt 2 (prodWorld [targetSecret ''1''])))) \<noteq> None
   \<and> conditionRecorded ''Unable to find the DeploymentTarget for DeploymentTargetClaim''
       prodRequest (snd (Reconcile prodRequest (failingAt 2 (prodWorld [targetSecret ''1'']))))
   \<and> map env_Conditions (environments (snd (Reconcile prodRequest (failingAt 2 (prodWorld [targetSecret ''1''])))))
       = [[errorCondition ''Unable to find the DeploymentTarget for DeploymentTargetClaim'']]
   \<and> newCalls (failingAt 3 (prodWorld [targetSecret ''1''])) (snd (Reconcile prodRequest (failingAt 3 (prodWorld [targetSecret ''1'']))))
       = [\<lparr>c_verb = VGet, c_kind = KEnvironment, c_namespace = ''team-a'',
           c_name = ''prod'', c_outcome = None\<rparr>,
          \<lparr>c_verb = VGet, c_kind = KDeploymentTargetClaim, c_namespace = ''team-a'',
           c_name = ''prod-claim'', c_outcome = None\<rparr>,
          \<lparr>c_verb = VList, c_kind = KDeploymentTarget, c_namespace = ''team-a'',
           c_name = [], c_outcome = None\<rparr>,
          \<lparr>c_verb = VGet, c_kind = KSecret, c_namespace = ''team-a'',
           c_name = ''target-secret'', c_outcome = Some (InternalError ''etcd timeout'')\<rparr>,
          \<lparr>c_verb = VStatusUpdate, c_kind = KEnvironment, c_namespace = ''team-a'',
           c_name = ''prod'', c_outcome = None\<rparr>]
   \<and> snd (fst (Reconcile prodRequest (failingAt 3 (prodWorld [targetSecret ''1''])))) \<noteq> None
   \<and> conditionRecorded ''Secret referenced by the Environment resource was not found''
       prodRequest (snd (Reconcile prodRequest (failingAt 3 (prodWorld [targetSecret ''1'']))))
   \<and> map env_Conditions (environments (snd (Reconcile prodRequest (failingAt 3 (prodWorld [targetSecret ''1''])))))
       = [[errorCondition ''Secret referenced by the Environment resource was not found'']]
   \<and> newCalls (failingAt 1 stagingWorld) (snd (Reconcile stagingRequest (failingAt 1 stagingWorld)))
       = [\<lparr>c_verb = VGet, c_kind = KEnvironment, c_namespace = ''team-a'',
           c_name = ''staging'', c_outcome = None\<rparr>,
          \<lparr>c_verb = VGet, c_kind = KSecret, c_namespace = ''team-a'',
           c_name = ''cluster-secret'', c_outcome = Some (InternalError ''etcd timeout'')\<rparr>,
          \<lparr>c_verb = VStatusUpdate, c_kind = KEnvironment, c_namespace = ''team-a'',
           c_name = ''staging'', c_outcome = None\<rparr>]
   \<and> snd (fst (Reconcile stagingRequest (failingAt 1 stagingWorld))) \<noteq> None
   \<and> conditionRecorded ''Secret referenced by the Environment resource was not found''
       stagingRequest (snd (Reconcile stagingRequest (failingAt 1 stagingWorld)))
   \<and> map env_Conditions (environments (snd (Reconcile stagingRequest (failingAt 1 stagingWorld))))
       = [[errorCondition ''Secret referenced by the Environment resource was not found'']]
   \<and> newCalls (failingAt 0 stagingWorld) (snd (Reconcile stagingRequest (failingAt 0 stagingWorld)))
       = [\<lparr>c_verb = VGet, c_kind = KEnvironment, c_namespace = ''team-a'',
           c_name = ''staging'', c_outcome = Some (InternalError ''etcd timeout'')\<rparr>]
   \<and> quietFailure (newCalls (failingAt 0 stagingWorld) (snd (Reconcile stagingRequest (failingAt 0 stagingWorld))))
   \<and> snd (fst (Reconcile stagingRequest (failingAt 0 stagingWorld))) \<noteq> None
   \<and> conditionNotRaised stagingRequest (failingAt 0 stagingWorld) (snd (Reconcile stagingRequest (failingAt 0 stagingWorld)))
   \<and> map env_Conditions (environments (snd (Reconcile stagingRequest (failingAt 0 stagingWorld))))
       = [[]]
   \<and> newCalls (failingAt 3 staleWorld) (snd (Reconcile stagingRequest (failingAt 3 staleWorld)))
       = [\<lparr>c_verb = VGet, c_kind = KEnvironment, c_namespace = ''team-a'',
           c_name = ''staging'', c_outcome = None\<rparr>,
          \<lparr>c_verb = VGet, c_kind = KSecret, c_namespace = ''team-a'',
           c_name = ''cluster-secret'', c_outcome = None\<rparr>,
          \<lparr>c_verb = VStatusUpdate, c_kind = KEnvironment, c_namespace = ''team-a'',
           c_name = ''staging'', c_outcome = None\<rparr>,
          \<lparr>c_verb = VGet, c_kind = KGitOpsDeploymentManagedEnvironment, c_namespace = ''team-a'',
           c_name = ''managed-environment-staging'', c_outcome = Some (InternalError ''etcd timeout'')\<rparr>]
   \<and> quietFailure (newCalls (failingAt 3 staleWorld) (snd (Reconcile stagingRequest (failingAt 3 staleWorld))))
   \<and> snd (fst (Reconcile stagingRequest (failingAt 3 staleWorld))) \<noteq> None
   \<and> conditionNotRaised stagingRequest (failingAt 3 staleWorld) (snd (Reconcile stagingRequest (failingAt 3 staleWorld)))
   \<and> map env_Conditions (environments (snd (Reconcile stagingRequest (failingAt 3 staleWorld))))
       = [[\<lparr>cond_Type = ''ErrorOccurred'', cond_Status = ConditionFalse,
           cond_Reason = ''ErrorOccurredResolved'', cond_Message = []\<rparr>]]
   \<and> newCalls (failingAt 5 (prodWorld [targetSecret ''1''])) (snd (Reconcile prodRequest (failingAt 5 (prodWorld [targetSecret ''1'']))))
       = [\<lparr>c_verb = VGet, c_kind = KEnvironment, c_namespace = ''team-a'',
           c_name = ''prod'', c_outcome = None\<rparr>,
          \<lparr>c_verb = VGet, c_kind = KDeploymentTargetClaim, c_namespace = ''team-a'',
           c_name = ''prod-claim'', c_outcome = None\<rparr>,
          \<lparr>c_verb = VList, c_kind = KDeploymentTarget, c_namespace = ''team-a'',
           c_name = [], c_outcome = None\<rparr>,
          \<lparr>c_verb = VGet, c_kind = KSecret, c_namespace = ''team-a'',
           c_name = ''target-secret'', c_outcome = None\<rparr>,
          \<lparr>c_verb = VGet, c_kind = KSecret, c_namespace = ''team-a'',
           c_name = ''managed-environment-secret-prod'', c_outcome = Some NotFound\<rparr>,
          \<lparr>c_verb = VCreate, c_kind = KSecret, c_namespace = ''team-a'',
           c_name = ''managed-environment-secret-prod'', c_outcome = Some (InternalError ''etcd timeout'')\<rparr>]
   \<and> quietFailure (newCalls (failingAt 5 (prodWorld [targetSecret ''1''])) (snd (Reconcile prodRequest (failingAt 5 (prodWorld [targetSecret ''1''])))))
   \<and> snd (fst (Reconcile prodRequest (failingAt 5 (prodWorld [targetSecret ''1''])))) \<noteq> None
   \<and> conditionNotRaised prodRequest (failingAt 5 (prodWorld [targetSecret ''1''])) (snd (Reconcile prodRequest (failingAt 5 (prodWorld [targetSecret ''1'']))))
   \<and> map env_Conditions (environments (snd (Reconcile prodRequest (failingAt 5 (prodWorld [targetSecret ''1''])))))
       = [[]]"
proof -
  have ca: "newCalls outageWorld (snd (Reconcile prodRequest outageWorld))
       = [\<lparr>c_verb = VGet, c_kind = KEnvironment, c_namespace = ''team-a'',
           c_name = ''prod'', c_outcome = None\<rparr>,
          \<lparr>c_verb = VGet, c_kind = KDeploymentTargetClaim, c_namespace = ''team-a'',
           c_name = ''prod-claim'', c_outcome = Some (InternalError ''etcd timeout'')\<rparr>,
          \<lparr>c_verb = VStatusUpdate, c_kind = KEnvironment, c_namespace = ''team-a'',
           c_name = ''prod'', c_outcome = None\<rparr>]"
    by (simp add: example_defs outageWorld_def failingAt_def staleWorld_def staleEnv_def exec_defs logCall_def nextFault_def eval_nat_numeral)
  have ea: "map env_Conditions (environments (snd (Reconcile prodRequest outageWorld)))
       = [[errorCondition ''Unable to find DeploymentTarget for DeploymentTargetClaim'']]"
    by (simp add: example_defs outageWorld_def failingAt_def staleWorld_def staleEnv_def exec_defs logCall_def nextFault_def eval_nat_numeral)
  have pa: "list_ex claimFetchFailure (newCalls outageWorld (snd (Reconcile prodRequest outageWorld)))
     \<and> \<not> list_ex failedStatusWrite (newCalls outageWorld (snd (Reconcile prodRequest outageWorld)))"
    unfolding ca
    by (simp add: claimFetchFailure_def targetLookupFailure_def credentialSecretFailure_def
        secretCalls_def failedStatusWrite_def)
  note ta = Reconcile_hard_failure[of outageWorld prodRequest, THEN conjunct2, THEN conjunct2, THEN conjunct1, THEN mp, OF pa]
  have cb: "newCalls (failingAt 2 (prodWorld [targetSecret ''1''])) (snd (Reconcile prodRequest (failingAt 2 (prodWorld [targetSecret ''1'']))))
       = [\<lparr>c_verb = VGet, c_kind = KEnvironment, c_namespace = ''team-a'',
           c_name = ''prod'', c_outcome = None\<rparr>,
          \<lparr>c_verb = VGet, c_kind = KDeploymentTargetClaim, c_namespace = ''team-a'',
           c_name = ''prod-claim'', c_outcome = None\<rparr>,
          \<lparr>c_verb = VList, c_kind = KDeploymentTarget, c_namespace = ''team-a'',
           c_name = [], c_outcome = Some (InternalError ''etcd timeout'')\<rparr>,
          \<lparr>c_verb = VStatusUpdate, c_kind = KEnvironment, c_namespace = ''team-a'',
           c_name = ''prod'', c_outcome = None\<rparr>]"
    by (simp add: example_defs outageWorld_def failingAt_def staleWorld_def staleEnv_def exec_defs logCall_def nextFault_def eval_nat_numeral)
  have eb: "map env_Conditions (environments (snd (Reconcile prodRequest (failingAt 2 (prodWorld [targetSecret ''1''])))))
       = [[errorCondition ''Unable to find the DeploymentTarget for DeploymentTargetClaim'']]"
    by (simp add: example_defs outageWorld_def failingAt_def staleWorld_def staleEnv_def exec_defs logCall_def nextFault_def eval_nat_numeral)
  have pb: "list_ex targetLookupFailure (newCalls (failingAt 2 (prodWorld [targetSecret ''1''])) (snd (Reconcile prodRequest (failingAt 2 (prodWorld [targetSecret ''1''])))))
     \<and> \<not> list_ex failedStatusWrite (newCalls (failingAt 2 (prodWorld [targetSecret ''1''])) (snd (Reconcile prodRequest (failingAt 2 (prodWorld [targetSecret ''1''])))))"
    unfolding cb
    by (simp add: claimFetchFailure_def targetLookupFailure_def credentialSecretFailure_def
        secretCalls_def failedStatusWrite_def)
  note tb = Reconcile_hard_failure[of "failingAt 2 (prodWorld [targetSecret ''1''])" prodRequest, THEN conjunct2, THEN conjunct2, THEN conjunct2, THEN conjunct1, THEN mp, OF pb]
  have cc: "newCalls (failingAt 3 (prodWorld [targetSecret ''1''])) (snd (Reconcile prodRequest (failingAt 3 (prodWorld [targetSecret ''1'']))))
       = [\<lparr>c_verb = VGet, c_kind = KEnvironment, c_namespace = ''team-a'',
           c_name = ''prod'', c_outcome = None\<rparr>,
          \<lparr>c_verb = VGet, c_kind = KDeploymentTargetClaim, c_namespace = ''team-a'',
           c_name = ''prod-claim'', c_outcome = None\<rparr>,
          \<lparr>c_verb = VList, c_kind = KDeploymentTarget, c_namespace = ''team-a'',
           c_name = [], c_outcome = None\<rparr>,
          \<lparr>c_verb = VGet, c_kind = KSecret, c_namespace = ''team-a'',
           c_name = ''target-secret'', c_outcome = Some (InternalError ''etcd timeout'')\<rparr>,
          \<lparr>c_verb = VStatusUpdate, c_kind = KEnvironment, c_namespace = ''team-a'',
           c_name = ''prod'', c_outcome = None\<rparr>]"
    by (simp add: example_defs outageWorld_def failingAt_def staleWorld_def staleEnv_def exec_defs logCall_def nextFault_def eval_nat_numeral)
  have ec: "map env_Conditions (environments (snd (Reconcile prodRequest (failingAt 3 (prodWorld [targetSecret ''1''])))))
       = [[errorCondition ''Secret referenced by the Environment resource was not found'']]"
    by (simp add: example_defs outageWorld_def failingAt_def staleWorld_def staleEnv_def exec_defs logCall_def nextFault_def eval_nat_numeral)
  have pc: "credentialSecretFailure (newCalls (failingAt 3 (prodWorld [targetSecret ''1''])) (snd (Reconcile prodRequest (failingAt 3 (prodWorld [targetSecret ''1''])))))
     \<and> \<not> list_ex failedStatusWrite (newCalls (failingAt 3 (prodWorld [targetSecret ''1''])) (snd (Reconcile prodRequest (failingAt 3 (prodWorld [targetSecret ''1''])))))"
    unfolding cc
    by (simp add: claimFetchFailure_def targetLookupFailure_def credentialSecretFailure_def
        secretCalls_def failedStatusWrite_def)
  note tc = Reconcile_hard_failure[of "failingAt 3 (prodWorld [targetSecret ''1''])" prodRequest, THEN conjunct2, THEN conjunct2, THEN conjunct2, THEN conjunct2, THEN mp, OF pc]
  have cd: "newCalls (failingAt 1 stagingWorld) (snd (Reconcile stagingRequest (failingAt 1 stagingWorld)))
       = [\<lparr>c_verb = VGet, c_kind = KEnvironment, c_namespace = ''team-a'',
           c_name = ''staging'', c_outcome = None\<rparr>,
          \<lparr>c_verb = VGet, c_kind = KSecret, c_namespace = ''team-a'',
           c_name = ''cluster-secret'', c_outcome = Some (InternalError ''etcd timeout'')\<rparr>,
          \<lparr>c_verb = VStatusUpdate, c_kind = KEnvironment, c_namespace = ''team-a'',
           c_name = ''staging'', c_outcome = None\<rparr>]"
    by (simp add: example_defs outageWorld_def failingAt_def staleWorld_def staleEnv_def exec_defs logCall_def nextFault_def eval_nat_numeral)
  have ed: "map env_Conditions (environments (snd (Reconcile stagingRequest (failingAt 1 stagingWorld))))
       = [[errorCondition ''Secret referenced by the Environment resource was not found'']]"
    by (simp add: example_defs outageWorld_def failingAt_def staleWorld_def staleEnv_def exec_defs logCall_def nextFault_def eval_nat_numeral)
  have pd: "credentialSecretFailure (newCalls (failingAt 1 stagingWorld) (snd (Reconcile stagingRequest (failingAt 1 stagingWorld))))
     \<and> \<not> list_ex failedStatusWrite (newCalls (failingAt 1 stagingWorld) (snd (Reconcile stagingRequest (failingAt 1 stagingWorld))))"
    unfolding cd
    by (simp add: claimFetchFailure_def targetLookupFailure_def credentialSecretFailure_def
        secretCalls_def failedStatusWrite_def)
  note td = Reconcile_hard_failure[of "failingAt 1 stagingWorld" stagingRequest, THEN conjunct2, THEN conjunct2, THEN conjunct2, THEN conjunct2, THEN mp, OF pd]
  have ce: "newCalls (failingAt 0 stagingWorld) (snd (Reconcile stagingRequest (failingAt 0 stagingWorld)))
       = [\<lparr>c_verb = VGet, c_kind = KEnvironment, c_namespace = ''team-a'',
           c_name = ''staging'', c_outcome = Some (InternalError ''etcd timeout'')\<rparr>]"
    by (simp add: example_defs outageWorld_def failingAt_def staleWorld_def staleEnv_def exec_defs logCall_def nextFault_def eval_nat_numeral)
  have ee: "map env_Conditions (environments (snd (Reconcile stagingRequest (failingAt 0 stagingWorld))))
       = [[]]"
    by (simp add: example_defs outageWorld_def failingAt_def staleWorld_def staleEnv_def exec_defs logCall_def nextFault_def eval_nat_numeral)
  have pe: "quietFailure (newCalls (failingAt 0 stagingWorld) (snd (Reconcile stagingRequest (failingAt 0 stagingWorld))))"
    unfolding ce
    by (simp add: quietFailure_def quietCall_def managedSecretFailure_def secretCalls_def)
  note te = Reconcile_hard_failure[of "failingAt 0 stagingWorld" stagingRequest, THEN conjunct2, THEN conjunct1, THEN mp, OF pe]
  have cf: "newCalls (failingAt 3 staleWorld) (snd (Reconcile stagingRequest (failingAt 3 staleWorld)))
       = [\<lparr>c_verb = VGet, c_kind = KEnvironment, c_namespace = ''team-a'',
           c_name = ''staging'', c_outcome = None\<rparr>,
          \<lparr>c_verb = VGet, c_kind = KSecret, c_namespace = ''team-a'',
           c_name = ''cluster-secret'', c_outcome = None\<rparr>,
          \<lparr>c_verb = VStatusUpdate, c_kind = KEnvironment, c_namespace = ''team-a'',
           c_name = ''staging'', c_outcome = None\<rparr>,
          \<lparr>c_verb = VGet, c_kind = KGitOpsDeploymentManagedEnvironment, c_namespace = ''team-a'',
           c_name = ''managed-environment-staging'', c_outcome = Some (InternalError ''etcd timeout'')\<rparr>]"
    by (simp add: example_defs outageWorld_def failingAt_def staleWorld_def staleEnv_def exec_defs logCall_def nextFault_def eval_nat_numeral)
  have ef: "map env_Conditions (environments (snd (Reconcile stagingRequest (failingAt 3 staleWorld))))
       = [[\<lparr>cond_Type = ''ErrorOccurred'', cond_Status = ConditionFalse,
           cond_Reason = ''ErrorOccurredResolved'', cond_Message = []\<rparr>]]"
    by (simp add: example_defs outageWorld_def failingAt_def staleWorld_def staleEnv_def exec_defs logCall_def nextFault_def eval_nat_numeral)
  have pf: "quietFailure (newCalls (failingAt 3 staleWorld) (snd (Reconcile stagingRequest (failingAt 3 staleWorld))))"
    unfolding cf
    by (simp add: quietFailure_def quietCall_def managedSecretFailure_def secretCalls_def)
  note tf = Reconcile_hard_failure[of "failingAt 3 staleWorld" stagingRequest, THEN conjunct2, THEN conjunct1, THEN mp, OF pf]
  have cg: "newCalls (failingAt 5 (prodWorld [targetSecret ''1''])) (snd (Reconcile prodRequest (failingAt 5 (prodWorld [targetSecret ''1'']))))
       = [\<lparr>c_verb = VGet, c_kind = KEnvironment, c_namespace = ''team-a'',
           c_name = ''prod'', c_outcome = None\<rparr>,
          \<lparr>c_verb = VGet, c_kind = KDeploymentTargetClaim, c_namespace = ''team-a'',
           c_name = ''prod-claim'', c_outcome = None\<rparr>,
          \<lparr>c_verb = VList, c_kind = KDeploymentTarget, c_namespace = ''team-a'',
           c_name = [], c_outcome = None\<rparr>,
          \<lparr>c_verb = VGet, c_kind = KSecret, c_namespace = ''team-a'',
           c_name = ''target-secret'', c_outcome = None\<rparr>,
          \<lparr>c_verb = VGet, c_kind = KSecret, c_namespace = ''team-a'',
           c_name = ''managed-environment-secret-prod'', c_outcome = Some NotFound\<rparr>,
          \<lparr>c_verb = VCreate, c_kind = KSecret, c_namespace = ''team-a'',
           c_name = ''managed-environment-secret-prod'', c_outcome = Some (InternalError ''etcd timeout'')\<rparr>]"
    by (simp add: example_defs outageWorld_def failingAt_def staleWorld_def staleEnv_def exec_defs logCall_def nextFault_def eval_nat_numeral)
  have eg: "map env_Conditions (environments (snd (Reconcile prodRequest (failingAt 5 (prodWorld [targetSecret ''1''])))))
       = [[]]"
    by (simp add: example_defs outageWorld_def failingAt_def staleWorld_def staleEnv_def exec_defs logCall_def nextFault_def eval_nat_numeral)
  have pg: "quietFailure (newCalls (failingAt 5 (prodWorld [targetSecret ''1''])) (snd (Reconcile prodRequest (failingAt 5 (prodWorld [targetSecret ''1''])))))"
    unfolding cg
    by (simp add: quietFailure_def quietCall_def managedSecretFailure_def secretCalls_def)
  note tg = Reconcile_hard_failure[of "failingAt 5 (prodWorld [targetSecret ''1''])" prodRequest, THEN conjunct2, THEN conjunct1, THEN mp, OF pg]
  show ?thesis
    using ca ta[THEN conjunct1] ta[THEN conjunct2] ea cb tb[THEN conjunct1] tb[THEN conjunct2] eb cc tc[THEN conjunct1] tc[THEN conjunct2] ec cd td[THEN conjunct1] td[THEN conjunct2] ed ce pe te[THEN conjunct1] te[THEN conjunct2] ee cf pf tf[THEN conjunct1] tf[THEN conjunct2] ef cg pg tg[THEN conjunct1] tg[THEN conjunct2] eg
    by (intro conjI)
qed

theorem Reconcile_hard_failure_records_condition:
  "list_ex hardFailure (newCalls outageWorld (snd (Reconcile prodRequest outageWorld)))
   \<and> fst (Reconcile prodRequest outageWorld)
       = (emptyResult,
          Some (Errorf ''unable to generate expected GitOpsDeploymentManagedEnvironment resource: %v''
                  (Some (StatusError (InternalError ''etcd timeout'')))))
   \<and> map env_Conditions (environments outageWorld) = [[]]
   \<and> map env_Conditions (environments (snd (Reconcile prodRequest outageWorld)))
       = [[errorCondition ''Unable to find DeploymentTarget for DeploymentTargetClaim'']]
   \<and> map c_verb (newCalls outageWorld (snd (Reconcile prodRequest outageWorld)))
       = [VGet, VGet, VStatusUpdate]"
  by (simp add: example_defs outageWorld_def exec_defs logCall_def nextFault_def hardFailure_def)

text \<open>
  Claim C3. The Environment \<^verbatim>\<open>prod\<close> references a bound claim whose target is not to be
  found, and no failure is injected. The first \<^verbatim>\<open>Reconcile\<close> returns success and leaves
  the condition \<^verbatim>\<open>ErrorOccurred\<close> raised. The second one, run on the store as the first left
  it, returns success as well and makes two status writes: it resolves the condition once
  the claim is fetched and raises it again once the target is not found. It makes no
  create and no update of a managed environment or a secret.
\<close>

theorem Reconcile_second_run_writes_status:
  "fst (Reconcile prodRequest untargetedWorld) = (emptyResult, None)
   \<and> map env_Conditions (environments (snd (Reconcile prodRequest untargetedWorld)))
       = [[errorCondition ''DeploymentTarget not found for DeploymentTargetClaim'']]
   \<and> fst (Reconcile prodRequest (snd (Reconcile prodRequest untargetedWorld)))
       = (emptyResult, None)
   \<and> newCalls (snd (Reconcile prodRequest untargetedWorld))
        (snd (Reconcile prodRequest (snd (Reconcile prodRequest untargetedWorld))))
       = [\<lparr>c_verb = VGet, c_kind = KEnvironment, c_namespace = ''team-a'',
           c_name = ''prod'', c_outcome = None\<rparr>,
          \<lparr>c_verb = VGet, c_kind = KDeploymentTargetClaim, c_namespace = ''team-a'',
           c_name = ''prod-claim'', c_outcome = None\<rparr>,
          \<lparr>c_verb = VStatusUpdate, c_kind = KEnvironment, c_namespace = ''team-a'',
           c_name = ''prod'', c_outcome = None\<rparr>,
          \<lparr>c_verb = VList, c_kind = KDeploymentTarget, c_namespace = ''team-a'',
           c_name = [], c_outcome = None\<rparr>,
          \<lparr>c_verb = VStatusUpdate, c_kind = KEnvironment, c_namespace = ''team-a'',
           c_name = ''prod'', c_outcome = None\<rparr>]
   \<and> map env_Conditions
         (environments (snd (Reconcile prodRequest (snd (Reconcile prodRequest untargetedWorld)))))
       = [[errorCondition ''DeploymentTarget not found for DeploymentTargetClaim'']]"
proof -
  have first: "Reconcile prodRequest untargetedWorld =
      ((emptyResult, None),
       untargetedWorld\<lparr>
         environments := [prodEnv\<lparr>env_Conditions :=
           [errorCondition ''DeploymentTarget not found for DeploymentTargetClaim'']\<rparr>],
         trace := [\<lparr>c_verb = VGet, c_kind = KEnvironment, c_namespace = ''team-a'',
                    c_name = ''prod'', c_outcome = None\<rparr>,
                   \<lparr>c_verb = VGet, c_kind = KDeploymentTargetClaim, c_namespace = ''team-a'',
                    c_name = ''prod-claim'', c_outcome = None\<rparr>,
                   \<lparr>c_verb = VList, c_kind = KDeploymentTarget, c_namespace = ''team-a'',
                    c_name = [], c_outcome = None\<rparr>,
                   \<lparr>c_verb = VStatusUpdate, c_kind = KEnvironment, c_namespace = ''team-a'',
                    c_name = ''prod'', c_outcome = None\<rparr>]\<rparr>)"
    by (simp add: example_defs untargetedWorld_def exec_defs logCall_def nextFault_def)
  show ?thesis
    unfolding first
    by (simp add: example_defs untargetedWorld_def exec_defs logCall_def nextFault_def)
qed

end
